theory Spec2Isabelle
  imports Complex_Main
begin

section \<open>Geometry data model of \<^verbatim>\<open>libsrc/meshing/basegeom.cpp\<close>\<close>

text \<open>
  The file implements the shape predicates, the identification closure, the edge divider
  and the surface-mesh driver of \<^verbatim>\<open>NetgenGeometry\<close>. Doubles are modelled as reals,
  C++ object pointers as indices into the geometry's shape arrays (the arrays own the
  shapes, one array per shape kind), and \<^verbatim>\<open>cout\<close> as a list of printed lines.
\<close>

type_synonym Point3 = "real \<times> real \<times> real"

definition vsub :: "Point3 \<Rightarrow> Point3 \<Rightarrow> Point3" where
  "vsub p q = (case p of (px, py, pz) \<Rightarrow> case q of (qx, qy, qz) \<Rightarrow> (px - qx, py - qy, pz - qz))"

definition vadd :: "Point3 \<Rightarrow> Point3 \<Rightarrow> Point3" where
  "vadd p q = (case p of (px, py, pz) \<Rightarrow> case q of (qx, qy, qz) \<Rightarrow> (px + qx, py + qy, pz + qz))"

definition vscale :: "real \<Rightarrow> Point3 \<Rightarrow> Point3" where
  "vscale c p = (case p of (px, py, pz) \<Rightarrow> (c * px, c * py, c * pz))"

definition vdot :: "Point3 \<Rightarrow> Point3 \<Rightarrow> real" where
  "vdot p q = (case p of (px, py, pz) \<Rightarrow> case q of (qx, qy, qz) \<Rightarrow> px * qx + py * qy + pz * qz)"

definition Length2 :: "Point3 \<Rightarrow> real" where
  "Length2 v = vdot v v"

definition Length :: "Point3 \<Rightarrow> real" where
  "Length v = sqrt (Length2 v)"

text \<open>Modelled from the spec: \<^verbatim>\<open>Dist\<close> of the geometry library (not in this file) is the
  Euclidean distance \<open>|p - q|\<close> the predicates of section 4.F compare with \<open>tol\<close>.\<close>

definition Dist :: "Point3 \<Rightarrow> Point3 \<Rightarrow> real" where
  "Dist p q = Length (vsub p q)"

text \<open>
  \<^verbatim>\<open>Transformation<3>\<close> is declared outside this file. The functions below take the
  operations the file calls on it as a parameter: applying it to a point, \<^verbatim>\<open>CalcInverse\<close>,
  \<^verbatim>\<open>Combine\<close>, the constructor from a translation vector, and the product of a vector
  with the inverse of the transposed matrix \<^verbatim>\<open>GetMatrix()\<close> (\<open>normal_matrix\<close>).
\<close>

record 't trafo_ops =
  apply_trafo :: "'t \<Rightarrow> Point3 \<Rightarrow> Point3"
  CalcInverse :: "'t \<Rightarrow> 't"
  Combine :: "'t \<Rightarrow> 't \<Rightarrow> 't"
  Translation :: "Point3 \<Rightarrow> 't"
  normal_matrix :: "'t \<Rightarrow> Point3 \<Rightarrow> Point3"

datatype ID_TYPE = UNDEFINED | PERIODIC | CLOSESURFACES | CLOSEEDGES

datatype Exception =
  IsMappedShape_not_implemented
  | cannot_find_mapped_point Point3
  | shouldnt_come_here

section \<open>The mesh and the point tree\<close>

text \<open>
  \<^verbatim>\<open>Mesh\<close> is declared outside this file. The model keeps what the file stores in it:
  the points (a \<^verbatim>\<open>PointIndex\<close> counts from 1, 0 is \<^verbatim>\<open>PointIndex::INVALID\<close>), the point
  elements, segments and surface elements, the identification table and the names, each
  in the order of the calls. Fields of a \<^verbatim>\<open>Segment\<close> this file does not set are left out.
\<close>

datatype POINTTYPE = FIXEDPOINT | EDGEPOINT | SURFACEPOINT | INNERPOINT

record MeshPoint =
  mp_point :: Point3
  mp_layer :: int
  mp_type :: POINTTYPE
  mp_singular :: real

record Element0d =
  el0_pnum :: nat
  el0_index :: nat
  el0_name :: string

record Segment =
  seg_pnums :: "nat \<times> nat"
  seg_edgenr :: nat
  seg_si :: nat
  seg_dist :: "real \<times> real"
  seg_ep_edgenr :: "nat \<times> nat"
  seg_uv :: "(real \<times> real) \<times> (real \<times> real)"
  singedge_left :: real
  singedge_right :: real
  seg_domin :: int
  seg_domout :: int

record PointGeomInfo =
  trignum :: int
  gi_u :: real
  gi_v :: real

record Element2d =
  el_pnums :: "nat list"
  el_geominfo :: "PointGeomInfo list"
  el_index :: nat

text \<open>A request to the local mesh size tree: \<^verbatim>\<open>RestrictLocalH(p, h, layer)\<close> or
  \<^verbatim>\<open>RestrictLocalHLine(p0, p1, h)\<close>, or the file \<^verbatim>\<open>LoadLocalMeshSize\<close> reads.\<close>

datatype LocalH_call =
  RestrictLocalH Point3 real int
  | RestrictLocalHLine Point3 Point3 real
  | LoadLocalMeshSize string

record FaceDescriptor =
  fd_surfnr :: nat
  fd_domin :: int
  fd_domout :: int
  fd_bcprop :: nat
  fd_colour :: "Point3 option"

record Mesh =
  mesh_points :: "MeshPoint list"
  pointelements :: "Element0d list"
  segments :: "Segment list"
  surface_elements :: "Element2d list"
  mesh_identifications :: "(nat \<times> nat \<times> string \<times> ID_TYPE) list"
  cd3names :: "(nat \<times> string) list"
  cd2names :: "(nat \<times> string) list"
  facedescriptors :: "FaceDescriptor list"
  bcnames :: "(nat \<times> string) list"
  globalh :: real
  minimalh :: real
  localh_box :: "(Point3 \<times> Point3 \<times> real) option"
  localh_calls :: "LocalH_call list"
  H_of :: "LocalH_call list \<Rightarrow> Point3 \<Rightarrow> int \<Rightarrow> real"

definition Mesh_GetH :: "Mesh \<Rightarrow> Point3 \<Rightarrow> int \<Rightarrow> real" where
  "Mesh_GetH mesh p lay = H_of mesh (localh_calls mesh) p lay"

definition mesh_at :: "Mesh \<Rightarrow> nat \<Rightarrow> MeshPoint" where
  "mesh_at mesh pind = mesh_points mesh ! (pind - 1)"

definition AddPoint :: "Point3 \<Rightarrow> int \<Rightarrow> POINTTYPE \<Rightarrow> Mesh \<Rightarrow> nat \<times> Mesh" where
  "AddPoint p lay t mesh =
     (Suc (length (mesh_points mesh)),
      mesh\<lparr>mesh_points := mesh_points mesh
               @ [\<lparr>mp_point = p, mp_layer = lay, mp_type = t, mp_singular = 0\<rparr>]\<rparr>)"

definition identifications_Add :: "nat \<Rightarrow> nat \<Rightarrow> string \<Rightarrow> ID_TYPE \<Rightarrow> Mesh \<Rightarrow> Mesh" where
  "identifications_Add pi1 pi2 name t mesh =
     mesh\<lparr>mesh_identifications := mesh_identifications mesh @ [(pi1, pi2, name, t)]\<rparr>"

text \<open>\<^verbatim>\<open>PointTree\<close> (lines 9-31): one box tree per index, here the list of the inserted
  points with their numbers.

  Modelled from the spec: \<^verbatim>\<open>BoxTree\<close> is declared outside this file; by section 4.A,
  \<open>Find\<close> returns the first number whose stored box meets \<open>[p, p]\<close>. Whether two points
  meet is the parameter \<open>meets\<close>.\<close>

type_synonym PointTree = "int \<Rightarrow> (Point3 \<times> nat) list option"

definition tree_Insert :: "Point3 \<Rightarrow> nat \<Rightarrow> int \<Rightarrow> PointTree \<Rightarrow> PointTree" where
  "tree_Insert p n index tree =
     (let tree = (if tree index = None then tree(index \<mapsto> []) else tree)
      in case tree index of
           None \<Rightarrow> tree
         | Some boxes \<Rightarrow> tree(index \<mapsto> boxes @ [(p, n)]))"

text \<open>How a call ends without a result: an exception, undefined behaviour (an access
  outside an array), or a division by zero. The last one gives an infinity or a NaN in the
  source, which is no real number: the model, which has the reals for the doubles, stops
  there with \<open>Not_a_real\<close>.\<close>

datatype Abort =
  Throw Exception
  | std_out_of_range
  | Undefined_behaviour
  | Not_a_real

definition tree_Find ::
  "(Point3 \<Rightarrow> Point3 \<Rightarrow> bool) \<Rightarrow> PointTree \<Rightarrow> Point3 \<Rightarrow> int \<Rightarrow> Abort + nat" where
  "tree_Find meets tree p index =
     (case tree index of
        None \<Rightarrow> Inl std_out_of_range
      | Some boxes \<Rightarrow>
          (case filter (\<lambda>(q, n). meets q p) boxes of
             [] \<Rightarrow> Inl (Throw (cannot_find_mapped_point p))
           | (q, n) # rest \<Rightarrow> Inr n))"

record MeshingParameters =
  maxh :: real
  minh :: real
  grading :: real
  segmentsperedge :: real
  curvaturesafety :: real
  closeedgefac :: "real option"
  uselocalh :: bool
  meshsize_points :: "(Point3 \<times> real \<times> int) list"
  meshsizefilename :: string
  perfstepsstart :: nat
  perfstepsend :: nat
  optsteps2d :: nat
  optimize2d :: string
  elsizeweight :: real

section \<open>Shapes\<close>

text \<open>\<^verbatim>\<open>ShapeIdentification {from, to, trafo, type, name}\<close>: \<open>id_from\<close> and \<open>id_to\<close> are the
  positions of the two shapes in the array of their kind.\<close>

record 't ShapeIdentification =
  id_from :: nat
  id_to :: nat
  id_trafo :: "'t option"
  id_type :: ID_TYPE
  id_name :: string

record ShapeProperties =
  prop_name :: "string option"
  col :: "Point3 option"
  layer :: int
  hpref :: real
  partition :: "real list option"

record 't GeometryShape =
  nr :: nat
  properties :: ShapeProperties
  identifications :: "'t ShapeIdentification list"
  primary :: nat
  primary_to_me :: "'t option"

record 't GeometryVertex = "'t GeometryShape" +
  vertex_point :: Point3

text \<open>An edge: its two vertices (positions in \<open>vertices\<close>) and the callbacks of the CAD
  kernel. \<open>ProjectPoint\<close> returns the projected point and the parameter it stores in
  \<^verbatim>\<open>gi.dist\<close>.\<close>

record 't GeometryEdge = "'t GeometryShape" +
  StartVertex :: nat
  EndVertex :: nat
  edge_domin :: int
  edge_domout :: int
  GetLength :: real
  edge_center :: Point3
  GetPoint :: "real \<Rightarrow> Point3"
  GetTangent :: "real \<Rightarrow> Point3"
  CalcStep :: "real \<Rightarrow> real \<Rightarrow> real"
  IsDegenerated :: "real \<Rightarrow> bool"
  ProjectPoint :: "Point3 \<Rightarrow> Point3 \<times> real"

text \<open>A face: its edges (positions in \<open>edges\<close>) and the callbacks of the CAD kernel.
  \<open>Project\<close> returns the projected point and its \<^verbatim>\<open>PointGeomInfo\<close>.\<close>

record 't GeometryFace = "'t GeometryShape" +
  face_edges :: "nat list"
  face_domin :: int
  face_domout :: int
  face_center :: Point3
  GetBoundary :: "Mesh \<Rightarrow> Segment list"
  GetNormal :: "Point3 \<Rightarrow> Point3"
  Project :: "Point3 \<Rightarrow> Point3 \<times> PointGeomInfo"
  CalcPointGeomInfo :: "Point3 \<Rightarrow> PointGeomInfo"
  RestrictH :: "MeshingParameters \<Rightarrow> Mesh \<Rightarrow> Mesh"

record 't GeometrySolid = "'t GeometryShape" +
  solid_faces :: "nat list"

record 't NetgenGeometry =
  vertices :: "'t GeometryVertex list"
  edges :: "'t GeometryEdge list"
  faces :: "'t GeometryFace list"
  solids :: "'t GeometrySolid list"
  bounding_box_PMin :: Point3
  bounding_box_PMax :: Point3
  bounding_box_Diam :: real
  restricted_h :: "(Point3 \<times> real) list"
  dimension :: nat

text \<open>A \<^verbatim>\<open>GeometryShape&\<close> argument: the dynamic class of the object and its position.\<close>

datatype ShapeRef = VertexRef nat | EdgeRef nat | FaceRef nat | SolidRef nat

section \<open>\<^verbatim>\<open>IsMappedShape\<close>\<close>

definition GeometryShape_IsMappedShape ::
  "'t trafo_ops \<Rightarrow> 't NetgenGeometry \<Rightarrow> ShapeRef \<Rightarrow> ShapeRef \<Rightarrow> 't \<Rightarrow> real \<Rightarrow> Exception + bool" where
  "GeometryShape_IsMappedShape T geo this other trafo tol = Inl IsMappedShape_not_implemented"

definition GeometryVertex_IsMappedShape ::
  "'t trafo_ops \<Rightarrow> 't NetgenGeometry \<Rightarrow> nat \<Rightarrow> ShapeRef \<Rightarrow> 't \<Rightarrow> real \<Rightarrow> bool" where
  "GeometryVertex_IsMappedShape T geo this other trafo tol =
     (case other of
        VertexRef other_ptr \<Rightarrow>
          Dist (apply_trafo T trafo (vertex_point (vertices geo ! this)))
               (vertex_point (vertices geo ! other_ptr)) < tol
      | _ \<Rightarrow> False)"

definition GeometryEdge_IsMappedShape ::
  "'t trafo_ops \<Rightarrow> 't NetgenGeometry \<Rightarrow> nat \<Rightarrow> ShapeRef \<Rightarrow> 't \<Rightarrow> real \<Rightarrow> bool" where
  "GeometryEdge_IsMappedShape T geo this other trafo tol =
     (case other of
        EdgeRef other_ptr \<Rightarrow>
          (let self = edges geo ! this; e = edges geo ! other_ptr in
           if IsDegenerated self tol \<or> IsDegenerated e tol then False
           else if tol < Dist (apply_trafo T trafo (edge_center self)) (edge_center e) then False
           else
             (let v0 = apply_trafo T trafo (vertex_point (vertices geo ! StartVertex self));
                  v1 = apply_trafo T trafo (vertex_point (vertices geo ! EndVertex self));
                  w0 = vertex_point (vertices geo ! StartVertex e);
                  w1 = vertex_point (vertices geo ! EndVertex e);
                  closed = (Dist v0 v1 < tol \<and> Dist w0 w1 < tol);
                  v1 = (if closed then apply_trafo T trafo (GetPoint self (1/2)) else v1);
                  w1 = (if closed then GetPoint e (1/2) else w1)
              in (Dist v0 w0 < tol \<and> Dist v1 w1 < tol) \<or>
                 (Dist v0 w1 < tol \<and> Dist v1 w0 < tol)))
      | _ \<Rightarrow> False)"

text \<open>The number of edges of \<open>other_edges\<close> the edge \<open>e\<close> is mapped to (\<^verbatim>\<open>found_mapping\<close>).\<close>

definition found_mapping ::
  "'t trafo_ops \<Rightarrow> 't NetgenGeometry \<Rightarrow> 't \<Rightarrow> real \<Rightarrow> nat list \<Rightarrow> nat \<Rightarrow> nat" where
  "found_mapping T geo trafo tol other_edges e =
     length (filter (\<lambda>other_e. GeometryEdge_IsMappedShape T geo e (EdgeRef other_e) trafo tol) other_edges)"

text \<open>The loop over \<^verbatim>\<open>edges\<close>, which returns false at the first edge whose count is not 1.\<close>

primrec all_edges_mapped_once ::
  "'t trafo_ops \<Rightarrow> 't NetgenGeometry \<Rightarrow> 't \<Rightarrow> real \<Rightarrow> nat list \<Rightarrow> nat list \<Rightarrow> bool" where
  "all_edges_mapped_once T geo trafo tol other_edges [] = True"
| "all_edges_mapped_once T geo trafo tol other_edges (e # es) =
     (if found_mapping T geo trafo tol other_edges e \<noteq> 1 then False
      else all_edges_mapped_once T geo trafo tol other_edges es)"

definition GeometryFace_IsMappedShape ::
  "'t trafo_ops \<Rightarrow> 't NetgenGeometry \<Rightarrow> nat \<Rightarrow> ShapeRef \<Rightarrow> 't \<Rightarrow> real \<Rightarrow> bool" where
  "GeometryFace_IsMappedShape T geo this other trafo tol =
     (case other of
        FaceRef other_ptr \<Rightarrow>
          (let self = faces geo ! this; f = faces geo ! other_ptr in
           if tol < Dist (face_center self) (face_center f) then False
           else if length (face_edges self) \<noteq> length (face_edges f) then False
           else all_edges_mapped_once T geo trafo tol (face_edges f) (face_edges self))
      | _ \<Rightarrow> False)"

text \<open>Virtual dispatch on the class of \<open>this\<close>; a solid has no override and runs the base
  class method.\<close>

definition IsMappedShape ::
  "'t trafo_ops \<Rightarrow> 't NetgenGeometry \<Rightarrow> ShapeRef \<Rightarrow> ShapeRef \<Rightarrow> 't \<Rightarrow> real \<Rightarrow> Exception + bool" where
  "IsMappedShape T geo this other trafo tol =
     (case this of
        VertexRef i \<Rightarrow> Inr (GeometryVertex_IsMappedShape T geo i other trafo tol)
      | EdgeRef i \<Rightarrow> Inr (GeometryEdge_IsMappedShape T geo i other trafo tol)
      | FaceRef i \<Rightarrow> Inr (GeometryFace_IsMappedShape T geo i other trafo tol)
      | SolidRef i \<Rightarrow> GeometryShape_IsMappedShape T geo this other trafo tol)"

datatype ShapeKind = VertexKind | EdgeKind | FaceKind | SolidKind

fun kind_of :: "ShapeRef \<Rightarrow> ShapeKind" where
  "kind_of (VertexRef i) = VertexKind"
| "kind_of (EdgeRef i) = EdgeKind"
| "kind_of (FaceRef i) = FaceKind"
| "kind_of (SolidRef i) = SolidKind"


section \<open>\<^verbatim>\<open>NetgenGeometry::ProcessIdentifications\<close>\<close>

text \<open>\<open>update_shape k f shapes\<close> is a write through the pointer \<open>k\<close>: the object at position
  \<open>k\<close> is replaced by \<open>f\<close> of it. A pointer to an object outside the array leaves the array
  as it is.\<close>

definition update_shape ::
  "nat \<Rightarrow> (('t, 'z) GeometryShape_scheme \<Rightarrow> ('t, 'z) GeometryShape_scheme)
   \<Rightarrow> ('t, 'z) GeometryShape_scheme list \<Rightarrow> ('t, 'z) GeometryShape_scheme list" where
  "update_shape k f shapes = shapes[k := f (shapes ! k)]"

definition assign_nr :: "('t, 'z) GeometryShape_scheme list \<Rightarrow> ('t, 'z) GeometryShape_scheme list" where
  "assign_nr shapes = map (\<lambda>(i, s). s\<lparr>nr := i\<rparr>) (enumerate 0 shapes)"

definition Append_identification ::
  "'t ShapeIdentification \<Rightarrow> ('t, 'z) GeometryShape_scheme \<Rightarrow> ('t, 'z) GeometryShape_scheme" where
  "Append_identification ident s = s\<lparr>identifications := identifications s @ [ident]\<rparr>"

definition mirror_ident ::
  "nat \<Rightarrow> 't ShapeIdentification \<Rightarrow> ('t, 'z) GeometryShape_scheme list \<Rightarrow> ('t, 'z) GeometryShape_scheme list" where
  "mirror_ident i ident shapes =
     (if i = id_from ident \<and> i \<noteq> id_to ident
      then update_shape (id_to ident) (Append_identification ident) shapes
      else shapes)"

definition mirror_shape ::
  "nat \<Rightarrow> ('t, 'z) GeometryShape_scheme list \<Rightarrow> ('t, 'z) GeometryShape_scheme list" where
  "mirror_shape i shapes =
     (let shapes = update_shape i (\<lambda>s. s\<lparr>nr := i\<rparr>) shapes
      in fold (mirror_ident i) (identifications (shapes ! i)) shapes)"

definition mirror_identifications ::
  "('t, 'z) GeometryShape_scheme list \<Rightarrow> ('t, 'z) GeometryShape_scheme list" where
  "mirror_identifications shapes = fold mirror_shape [0..<length shapes] shapes"

definition init_primary_to_me ::
  "'t trafo_ops \<Rightarrow> ('t, 'z) GeometryShape_scheme \<Rightarrow> ('t, 'z) GeometryShape_scheme" where
  "init_primary_to_me T s =
     (case primary_to_me s of
        None \<Rightarrow> s\<lparr>primary_to_me := Some (Translation T (0, 0, 0))\<rparr>
      | Some t \<Rightarrow> s)"

definition combine_primary_to_me ::
  "'t trafo_ops \<Rightarrow> 't \<Rightarrow> nat \<Rightarrow> nat
   \<Rightarrow> ('t, 'z) GeometryShape_scheme list \<Rightarrow> ('t, 'z) GeometryShape_scheme list" where
  "combine_primary_to_me T trafo i other shapes =
     (let shapes = update_shape i (init_primary_to_me T) shapes;
          shapes = update_shape other (init_primary_to_me T) shapes
      in case primary_to_me (shapes ! other) of
           None \<Rightarrow> shapes
         | Some other_primary_to_me \<Rightarrow>
             update_shape i (\<lambda>s. s\<lparr>primary_to_me := Some (Combine T trafo other_primary_to_me)\<rparr>) shapes)"

definition relax ::
  "'t trafo_ops \<Rightarrow> nat \<Rightarrow> 't ShapeIdentification
   \<Rightarrow> ('t, 'z) GeometryShape_scheme list \<times> bool \<Rightarrow> ('t, 'z) GeometryShape_scheme list \<times> bool" where
  "relax T i ident st =
     (case st of (shapes, changed) \<Rightarrow>
      let need_inverse = (id_from ident = i);
          other = (if need_inverse then id_to ident else id_from ident)
      in if nr (shapes ! primary (shapes ! other)) < nr (shapes ! primary (shapes ! i)) then
           (let shapes = update_shape i (\<lambda>s. s\<lparr>primary := primary (shapes ! other)\<rparr>) shapes
            in case id_trafo ident of
                 None \<Rightarrow> (shapes, changed)
               | Some tr \<Rightarrow>
                   (let trafo = (if need_inverse then CalcInverse T tr else tr)
                    in (combine_primary_to_me T trafo i other shapes, True)))
         else (shapes, changed))"

definition relax_shape ::
  "'t trafo_ops \<Rightarrow> nat \<Rightarrow> ('t, 'z) GeometryShape_scheme list \<times> bool \<Rightarrow> ('t, 'z) GeometryShape_scheme list \<times> bool" where
  "relax_shape T i st = fold (relax T i) (identifications (fst st ! i)) st"

definition relax_pass ::
  "'t trafo_ops \<Rightarrow> ('t, 'z) GeometryShape_scheme list \<Rightarrow> ('t, 'z) GeometryShape_scheme list \<times> bool" where
  "relax_pass T shapes = fold (relax_shape T) [0..<length shapes] (shapes, False)"

text \<open>The potential of the termination argument: the sum of \<^verbatim>\<open>s->primary->nr\<close>.\<close>

definition primary_nr :: "('t, 'z) GeometryShape_scheme list \<Rightarrow> nat \<Rightarrow> nat" where
  "primary_nr shapes j = nr (shapes ! primary (shapes ! j))"

definition potential :: "('t, 'z) GeometryShape_scheme list \<Rightarrow> nat" where
  "potential shapes = (\<Sum>j<length shapes. primary_nr shapes j)"

lemma length_update_shape [simp]: "length (update_shape k f shapes) = length shapes"
  by (simp add: update_shape_def)

lemma nth_update_shape:
  "update_shape k f shapes ! j = (if j = k \<and> k < length shapes then f (shapes ! k) else shapes ! j)"
  by (cases "k < length shapes") (auto simp add: update_shape_def nth_list_update list_update_beyond)

lemma nr_update_shape:
  "(\<And>s. nr (f s) = nr s) \<Longrightarrow> nr (update_shape k f shapes ! j) = nr (shapes ! j)"
  by (simp add: nth_update_shape)

lemma primary_update_shape:
  "(\<And>s. primary (f s) = primary s) \<Longrightarrow> primary (update_shape k f shapes ! j) = primary (shapes ! j)"
  by (simp add: nth_update_shape)

lemma identifications_update_shape:
  "(\<And>s. identifications (f s) = identifications s)
   \<Longrightarrow> identifications (update_shape k f shapes ! j) = identifications (shapes ! j)"
  by (simp add: nth_update_shape)

lemma init_primary_to_me_fields [simp]:
  "nr (init_primary_to_me T s) = nr s"
  "primary (init_primary_to_me T s) = primary s"
  "identifications (init_primary_to_me T s) = identifications s"
  by (simp_all add: init_primary_to_me_def split: option.splits)

lemma combine_primary_to_me_fields [simp]:
  "length (combine_primary_to_me T trafo i other shapes) = length shapes"
  "nr (combine_primary_to_me T trafo i other shapes ! j) = nr (shapes ! j)"
  "primary (combine_primary_to_me T trafo i other shapes ! j) = primary (shapes ! j)"
  "identifications (combine_primary_to_me T trafo i other shapes ! j) = identifications (shapes ! j)"
  by (simp_all add: combine_primary_to_me_def Let_def nr_update_shape primary_update_shape
      identifications_update_shape split: option.splits)

lemma relax_length [simp]: "length (fst (relax T i ident st)) = length (fst st)"
  by (cases st) (simp add: relax_def Let_def split: option.splits)

lemma relax_nr [simp]: "nr (fst (relax T i ident st) ! j) = nr (fst st ! j)"
  by (cases st) (simp add: relax_def Let_def nr_update_shape split: option.splits)

lemma relax_identifications [simp]:
  "identifications (fst (relax T i ident st) ! j) = identifications (fst st ! j)"
  by (cases st) (simp add: relax_def Let_def identifications_update_shape split: option.splits)

lemma relax_primary_nr_le:
  "primary_nr (fst (relax T i ident st)) j \<le> primary_nr (fst st) j"
  by (cases st)
     (simp add: relax_def Let_def primary_nr_def nr_update_shape nth_update_shape split: option.splits)

lemma relax_changed:
  assumes "i < length (fst st)" "snd (relax T i ident st)" "\<not> snd st"
  shows "primary_nr (fst (relax T i ident st)) i < primary_nr (fst st) i"
  using assms
  by (cases st)
     (auto simp add: relax_def Let_def primary_nr_def nr_update_shape nth_update_shape
        split: option.splits if_splits)

lemma relax_shape_inv:
  "length (fst (fold (relax T i) ids st)) = length (fst st)
   \<and> (\<forall>j. nr (fst (fold (relax T i) ids st) ! j) = nr (fst st ! j))
   \<and> (\<forall>j. identifications (fst (fold (relax T i) ids st) ! j) = identifications (fst st ! j))
   \<and> (\<forall>j. primary_nr (fst (fold (relax T i) ids st)) j \<le> primary_nr (fst st) j)"
proof (induction ids arbitrary: st)
  case Nil
  show ?case by simp
next
  case (Cons ident ids)
  show ?case
    using Cons.IH [of "relax T i ident st"] relax_primary_nr_le [of T i ident st]
    by (auto intro: order_trans)
qed

lemma relax_fold_changed:
  "i < length (fst st) \<Longrightarrow> snd (fold (relax T i) ids st) \<Longrightarrow> \<not> snd st
   \<Longrightarrow> primary_nr (fst (fold (relax T i) ids st)) i < primary_nr (fst st) i"
proof (induction ids arbitrary: st)
  case Nil
  then show ?case by simp
next
  case (Cons ident ids)
  let ?st1 = "relax T i ident st"
  have len: "i < length (fst ?st1)" using Cons.prems(1) by simp
  have le_rest: "primary_nr (fst (fold (relax T i) ids ?st1)) i \<le> primary_nr (fst ?st1) i"
    using relax_shape_inv [of T i ids ?st1] by blast
  show ?case
  proof (cases "snd ?st1")
    case True
    then have "primary_nr (fst ?st1) i < primary_nr (fst st) i"
      using relax_changed [of i st T ident] Cons.prems by simp
    then show ?thesis using le_rest by simp
  next
    case False
    then have "primary_nr (fst (fold (relax T i) ids ?st1)) i < primary_nr (fst ?st1) i"
      using Cons.IH [of ?st1] len Cons.prems(2) by simp
    then show ?thesis using relax_primary_nr_le [of T i ident st i] by simp
  qed
qed

lemma relax_shape_facts:
  "length (fst (relax_shape T i st)) = length (fst st)"
  "nr (fst (relax_shape T i st) ! j) = nr (fst st ! j)"
  "identifications (fst (relax_shape T i st) ! j) = identifications (fst st ! j)"
  "primary_nr (fst (relax_shape T i st)) j \<le> primary_nr (fst st) j"
  using relax_shape_inv [of T i "identifications (fst st ! i)" st]
  by (simp_all add: relax_shape_def)

lemma potential_mono:
  assumes "length shapes' = length shapes"
    and "\<And>j. primary_nr shapes' j \<le> primary_nr shapes j"
  shows "potential shapes' \<le> potential shapes"
  unfolding potential_def using assms by (simp add: sum_mono)

lemma potential_less:
  assumes "length shapes' = length shapes"
    and "\<And>j. primary_nr shapes' j \<le> primary_nr shapes j"
    and "i < length shapes" "primary_nr shapes' i < primary_nr shapes i"
  shows "potential shapes' < potential shapes"
  unfolding potential_def assms(1)
  by (rule sum_strict_mono_ex1) (use assms in auto)

lemma relax_shape_potential:
  assumes "i < length (fst st)"
  shows "potential (fst (relax_shape T i st)) \<le> potential (fst st)
         \<and> (snd (relax_shape T i st) \<longrightarrow> snd st \<or> potential (fst (relax_shape T i st)) < potential (fst st))"
proof -
  have le: "potential (fst (relax_shape T i st)) \<le> potential (fst st)"
    by (rule potential_mono) (simp_all add: relax_shape_facts)
  have "potential (fst (relax_shape T i st)) < potential (fst st)"
    if "snd (relax_shape T i st)" "\<not> snd st"
  proof (rule potential_less [where i = i])
    show "primary_nr (fst (relax_shape T i st)) i < primary_nr (fst st) i"
      using relax_fold_changed [of i st T "identifications (fst st ! i)"] assms that
      by (simp add: relax_shape_def)
  qed (simp_all add: relax_shape_facts assms)
  with le show ?thesis by blast
qed

lemma relax_fold_shapes_potential:
  assumes "\<forall>i \<in> set is. i < length (fst st)"
  shows "length (fst (fold (relax_shape T) is st)) = length (fst st)
         \<and> potential (fst (fold (relax_shape T) is st)) \<le> potential (fst st)
         \<and> (snd (fold (relax_shape T) is st)
              \<longrightarrow> snd st \<or> potential (fst (fold (relax_shape T) is st)) < potential (fst st))"
  using assms
proof (induction "is" arbitrary: st)
  case Nil
  show ?case by simp
next
  case (Cons i "is")
  let ?st1 = "relax_shape T i st"
  have i: "i < length (fst st)" using Cons.prems by simp
  have len1: "length (fst ?st1) = length (fst st)" by (simp add: relax_shape_facts)
  have IH: "length (fst (fold (relax_shape T) is ?st1)) = length (fst ?st1)
         \<and> potential (fst (fold (relax_shape T) is ?st1)) \<le> potential (fst ?st1)
         \<and> (snd (fold (relax_shape T) is ?st1)
              \<longrightarrow> snd ?st1 \<or> potential (fst (fold (relax_shape T) is ?st1)) < potential (fst ?st1))"
    by (rule Cons.IH) (use Cons.prems len1 in simp)
  from relax_shape_potential [OF i, of T] IH len1 show ?case
    by (auto simp del: fold_simps simp add: fold_Cons)
qed

lemma relax_pass_potential:
  "snd (relax_pass T shapes) \<Longrightarrow> potential (fst (relax_pass T shapes)) < potential shapes"
  using relax_fold_shapes_potential [of "[0..<length shapes]" "(shapes, False)" T]
  by (simp add: relax_pass_def)

lemma relax_pass_length [simp]: "length (fst (relax_pass T shapes)) = length shapes"
  using relax_fold_shapes_potential [of "[0..<length shapes]" "(shapes, False)" T]
  by (simp add: relax_pass_def)

function find_primary_loop ::
  "'t trafo_ops \<Rightarrow> ('t, 'z) GeometryShape_scheme list \<Rightarrow> ('t, 'z) GeometryShape_scheme list" where
  "find_primary_loop T shapes =
     (case relax_pass T shapes of
        (shapes', changed) \<Rightarrow> if changed then find_primary_loop T shapes' else shapes')"
  by pat_completeness auto
termination
  apply (relation "measure (\<lambda>(T, shapes). potential shapes)")
   apply simp
  subgoal for T shapes x y
    using relax_pass_potential [of T shapes] by (cases "relax_pass T shapes") auto
  done

declare find_primary_loop.simps [simp del]

definition find_primary ::
  "'t trafo_ops \<Rightarrow> ('t, 'z) GeometryShape_scheme list \<Rightarrow> ('t, 'z) GeometryShape_scheme list" where
  "find_primary T shapes =
     find_primary_loop T (map (\<lambda>(i, s). s\<lparr>primary := i\<rparr>) (enumerate 0 shapes))"

text \<open>The face-to-edge lift (lines 271-277): for every identification on a face's list,
  every edge of its \<open>from\<close> face that is mapped to an edge of its \<open>to\<close> face gets an
  identification with that edge.\<close>

definition lift_to_edge ::
  "'t trafo_ops \<Rightarrow> real \<Rightarrow> 't ShapeIdentification \<Rightarrow> nat \<Rightarrow> nat \<Rightarrow> 't NetgenGeometry \<Rightarrow> 't NetgenGeometry" where
  "lift_to_edge T tol ident e e_other geo =
     (case id_trafo ident of
        None \<Rightarrow> geo
      | Some trafo \<Rightarrow>
          if GeometryEdge_IsMappedShape T geo e (EdgeRef e_other) trafo tol
          then geo\<lparr>edges := update_shape e
                  (Append_identification
                     \<lparr>id_from = e, id_to = e_other, id_trafo = id_trafo ident,
                      id_type = id_type ident, id_name = id_name ident\<rparr>) (edges geo)\<rparr>
          else geo)"

definition lift_face_identification ::
  "'t trafo_ops \<Rightarrow> real \<Rightarrow> 't ShapeIdentification \<Rightarrow> 't NetgenGeometry \<Rightarrow> 't NetgenGeometry" where
  "lift_face_identification T tol ident geo =
     fold (\<lambda>e. fold (lift_to_edge T tol ident e) (face_edges (faces geo ! id_to ident)))
       (face_edges (faces geo ! id_from ident)) geo"

definition lift_faces :: "'t trafo_ops \<Rightarrow> real \<Rightarrow> 't NetgenGeometry \<Rightarrow> 't NetgenGeometry" where
  "lift_faces T tol geo =
     fold (\<lambda>f geo. fold (lift_face_identification T tol) (identifications (faces geo ! f)) geo)
       [0..<length (faces geo)] geo"

text \<open>The edge-to-vertex lift (lines 279-300).\<close>

definition lift_edge_identification ::
  "'t trafo_ops \<Rightarrow> 't ShapeIdentification \<Rightarrow> 't NetgenGeometry \<Rightarrow> 't NetgenGeometry" where
  "lift_edge_identification T ident geo =
     (let from = edges geo ! id_from ident;
          to = edges geo ! id_to ident;
          pfrom = (StartVertex from, EndVertex from);
          pto = (StartVertex to, EndVertex to)
      in case id_trafo ident of
           None \<Rightarrow> geo
         | Some trafo \<Rightarrow>
             (let p_from0 = apply_trafo T trafo (vertex_point (vertices geo ! StartVertex from));
                  p_from1 = apply_trafo T trafo (vertex_point (vertices geo ! EndVertex from));
                  p_to0 = vertex_point (vertices geo ! StartVertex to);
                  pto = (if Dist p_from1 p_to0 < Dist p_from0 p_to0 then (snd pto, fst pto) else pto);
                  vs = update_shape (fst pfrom)
                         (Append_identification
                            \<lparr>id_from = fst pfrom, id_to = fst pto, id_trafo = id_trafo ident,
                             id_type = id_type ident, id_name = id_name ident\<rparr>) (vertices geo);
                  vs = update_shape (snd pfrom)
                         (Append_identification
                            \<lparr>id_from = snd pfrom, id_to = snd pto, id_trafo = id_trafo ident,
                             id_type = id_type ident, id_name = id_name ident\<rparr>) vs
              in geo\<lparr>vertices := vs\<rparr>))"

definition lift_edges :: "'t trafo_ops \<Rightarrow> 't NetgenGeometry \<Rightarrow> 't NetgenGeometry" where
  "lift_edges T geo =
     fold (\<lambda>e geo. fold (lift_edge_identification T) (identifications (edges geo ! e)) geo)
       [0..<length (edges geo)] geo"

definition ProcessIdentifications :: "'t trafo_ops \<Rightarrow> 't NetgenGeometry \<Rightarrow> 't NetgenGeometry" where
  "ProcessIdentifications T geo =
     (let geo = geo\<lparr>vertices := assign_nr (vertices geo)\<rparr>;
          geo = geo\<lparr>edges := assign_nr (edges geo)\<rparr>;
          geo = geo\<lparr>faces := assign_nr (faces geo)\<rparr>;
          geo = geo\<lparr>solids := assign_nr (solids geo)\<rparr>;
          tol = 1 / 10 ^ 8 * bounding_box_Diam geo;
          geo = lift_faces T tol geo;
          geo = lift_edges T geo;
          geo = geo\<lparr>vertices := mirror_identifications (vertices geo)\<rparr>;
          geo = geo\<lparr>edges := mirror_identifications (edges geo)\<rparr>;
          geo = geo\<lparr>faces := mirror_identifications (faces geo)\<rparr>;
          geo = geo\<lparr>vertices := find_primary T (vertices geo)\<rparr>;
          geo = geo\<lparr>edges := find_primary T (edges geo)\<rparr>;
          geo = geo\<lparr>faces := find_primary T (faces geo)\<rparr>
      in geo)"

section \<open>\<^verbatim>\<open>GeometryEdge::Divide\<close>\<close>

text \<open>What \<^verbatim>\<open>Divide\<close> leaves in its two output arrays and prints on \<^verbatim>\<open>cout\<close>.\<close>

record DivideOut =
  div_points :: "Point3 list"
  div_params :: "real list"
  div_cout :: "string list"

text \<open>The marching loop (lines 516-525). The state is \<open>(lam, old_p, hvalue, fine_params)\<close>;
  \<open>GetH\<close> is \<^verbatim>\<open>mesh.GetH\<close>. The loop divides by \<open>h\<close> and by the length of the tangent. At a
  tangent of length 0 with \<open>safety * h > 0\<close> the step is \<open>+infinity\<close> and \<^verbatim>\<open>min2(lam, 1.0)\<close>
  (declared outside this file: the smaller of the two) sets \<open>lam\<close> to 1. The other
  divisions by 0 give a NaN or \<open>-infinity\<close>, and the model stops with \<open>Not_a_real\<close>.\<close>

definition divide_cap :: nat where
  "divide_cap = 20000"

function divide_march ::
  "'t GeometryEdge \<Rightarrow> (Point3 \<Rightarrow> int \<Rightarrow> real) \<Rightarrow> int \<Rightarrow> real
   \<Rightarrow> real \<times> Point3 \<times> real list \<times> real list
   \<Rightarrow> Abort + real \<times> Point3 \<times> real list \<times> real list" where
  "divide_march edge GetH lay safety (lam, old_p, hvalue, fine_params) =
     (if lam < 1 \<and> length hvalue < divide_cap then
        (let fine_params = fine_params @ [lam];
             h = GetH old_p lay;
             len = Length (GetTangent edge lam)
         in if h = 0 \<or> (len = 0 \<and> safety * h \<le> 0) then Inl Not_a_real
            else
              (let lam = (if len = 0 then 1 else min (lam + safety * h / len) 1);
                   p = GetPoint edge lam;
                   hvalue = hvalue @ [(if length hvalue = 0 then 0 else last hvalue)
                                       + 1 / h * Length (vsub p old_p)]
               in divide_march edge GetH lay safety (lam, p, hvalue, fine_params)))
      else Inr (lam, old_p, hvalue, fine_params))"
  by pat_completeness auto
termination
  by (relation "measure (\<lambda>(edge, GetH, lay, safety, lam, old_p, hvalue, fine_params).
        divide_cap - length hvalue)") auto

declare divide_march.simps [simp del]

text \<open>The search \<^verbatim>\<open>while(hvalue[i1]<h_target && i1<hvalue.Size()) i1++\<close>. At
  \<open>i1 = hvalue.Size()\<close> the source reads one element past the array before the second
  test ends the loop; the model tests the index first.\<close>

function divide_search :: "real list \<Rightarrow> real \<Rightarrow> nat \<Rightarrow> nat" where
  "divide_search hvalue h_target i1 =
     (if i1 < length hvalue \<and> hvalue ! i1 < h_target
      then divide_search hvalue h_target (Suc i1) else i1)"
  by pat_completeness auto
termination
  by (relation "measure (\<lambda>(hvalue, h_target, i1). length hvalue - i1)") auto

declare divide_search.simps [simp del]

text \<open>The loop over \<open>i = 1, ..., nsubedges - 1\<close> (lines 540-564). The state is \<open>i1\<close>, the
  interior parameters and the points found so far, and whether the loop was left at
  \<^verbatim>\<open>break\<close> (with the arrays cut to \<open>i + 1\<close> and \<open>i - 1\<close> elements, the last parameter
  never written). With \<open>i1 = 0\<close> the source reads \<^verbatim>\<open>fine_params[-1]\<close> and \<^verbatim>\<open>hvalue[-1]\<close>, and
  with \<open>h1 = h0\<close> it divides by 0.\<close>

record SubedgeState =
  sub_i1 :: nat
  sub_params :: "real list"
  sub_points :: "Point3 list"
  sub_break :: "nat option"

fun divide_subedges ::
  "'t GeometryEdge \<Rightarrow> real list \<Rightarrow> real list \<Rightarrow> nat \<Rightarrow> nat list \<Rightarrow> SubedgeState
   \<Rightarrow> Abort + SubedgeState" where
  "divide_subedges edge hvalue fine_params nsubedges [] st = Inr st"
| "divide_subedges edge hvalue fine_params nsubedges (i # is) st =
     (let h_target = real i * last hvalue / real nsubedges;
          i1 = divide_search hvalue h_target (sub_i1 st)
      in if i1 = length hvalue then Inr (st\<lparr>sub_i1 := i1, sub_break := Some i\<rparr>)
         else if i1 = 0 then Inl Undefined_behaviour
         else
           (let lam0 = fine_params ! (i1 - 1);
                lam1 = fine_params ! i1;
                h0 = hvalue ! (i1 - 1);
                h1 = hvalue ! i1
            in if h1 = h0 then Inl Not_a_real
               else
                 (let fac = (h_target - h0) / (h1 - h0);
                      lam = lam0 + fac * (lam1 - lam0)
                  in divide_subedges edge hvalue fine_params nsubedges is
                       (st\<lparr>sub_i1 := i1, sub_params := sub_params st @ [lam],
                           sub_points := sub_points st @ [GetPoint edge lam]\<rparr>))))"

definition nsubedges_of :: "real list \<Rightarrow> nat" where
  "nsubedges_of hvalue = nat (max 1 (floor (last hvalue + 1/2)))"

text \<open>\<^verbatim>\<open>Divide\<close>. The result is \<open>Undefined_behaviour\<close> where the source writes
  \<^verbatim>\<open>params[nsubedges]\<close> past the end of the array, which it does after every \<^verbatim>\<open>break\<close> of the
  loop above (the array was cut to \<open>i + 1 \<le> nsubedges\<close> elements).\<close>

definition Divide ::
  "MeshingParameters \<Rightarrow> (Point3 \<Rightarrow> int \<Rightarrow> real) \<Rightarrow> 't GeometryEdge \<Rightarrow> Abort + DivideOut" where
  "Divide mparam GetH edge =
     (case partition (properties edge) of
        Some part \<Rightarrow>
          Inr \<lparr>div_points = map (GetPoint edge) part, div_params = [0] @ part @ [1], div_cout = []\<rparr>
      | None \<Rightarrow>
          (let lay = layer (properties edge);
               safety = 1/2 * (1 - grading mparam)
           in case divide_march edge GetH lay safety (0, GetPoint edge 0, [0], []) of
                Inl a \<Rightarrow> Inl a
              | Inr (lam, old_p, hvalue, fine_params) \<Rightarrow>
                  (let fine_params = fine_params @ [1];
                       cout = (if length hvalue = divide_cap \<and> lam < 1
                               then [''Warning: Could not divide Edge''] else []);
                       nsubedges = nsubedges_of hvalue
                   in case divide_subedges edge hvalue fine_params nsubedges [1..<nsubedges]
                             \<lparr>sub_i1 = 0, sub_params = [], sub_points = [], sub_break = None\<rparr> of
                        Inl a \<Rightarrow> Inl a
                      | Inr st \<Rightarrow>
                          (case sub_break st of
                             Some i \<Rightarrow> Inl Undefined_behaviour
                           | None \<Rightarrow>
                               (let params = [0] @ sub_params st @ [1];
                                    points = sub_points st
                                in if params ! nsubedges \<le> params ! (nsubedges - 1)
                                   then Inr \<lparr>div_points = take (nsubedges - 2) points,
                                             div_params = (take nsubedges params)[nsubedges - 1 := 1],
                                             div_cout = cout @ [''CORRECTED'']\<rparr>
                                   else Inr \<lparr>div_points = points, div_params = params,
                                             div_cout = cout\<rparr>)))))"


section \<open>\<^verbatim>\<open>NetgenGeometry::FindEdges\<close>\<close>

record multithreadt =
  task :: string
  percent :: real
  terminate :: bool

definition GetName :: "ShapeProperties \<Rightarrow> string" where
  "GetName props = (case prop_name props of None \<Rightarrow> ''default'' | Some n \<Rightarrow> n)"

record FindEdgesState =
  fe_mesh :: Mesh
  fe_tree :: PointTree
  vert2meshpt :: "nat list"
  all_pnums :: "nat list list"
  all_params :: "real list list"

text \<open>The first loop over the vertices (lines 592-603).\<close>

definition add_vertex :: "'t GeometryVertex \<Rightarrow> FindEdgesState \<Rightarrow> FindEdgesState" where
  "add_vertex vert st =
     (case AddPoint (vertex_point vert) (layer (properties vert)) INNERPOINT (fe_mesh st) of
        (pind, mesh) \<Rightarrow>
          (let mesh = mesh\<lparr>mesh_points := (mesh_points mesh)
                         [pind - 1 := (mesh_at mesh pind)\<lparr>mp_singular := hpref (properties vert),
                                                      mp_type := FIXEDPOINT\<rparr>]\<rparr>;
               el = \<lparr>el0_pnum = pind, el0_index = pind - 1 + 1, el0_name = GetName (properties vert)\<rparr>;
               mesh = mesh\<lparr>cd3names := cd3names mesh @ [(pind - 1 + 1, el0_name el)]\<rparr>;
               mesh = mesh\<lparr>pointelements := pointelements mesh @ [el]\<rparr>
           in st\<lparr>fe_mesh := mesh, vert2meshpt := (vert2meshpt st)[nr vert := pind]\<rparr>))"

text \<open>The second loop over the vertices (lines 605-610).\<close>

definition add_vertex_identification ::
  "'t NetgenGeometry \<Rightarrow> 't ShapeIdentification \<Rightarrow> FindEdgesState \<Rightarrow> FindEdgesState" where
  "add_vertex_identification geo ident st =
     st\<lparr>fe_mesh := identifications_Add
          (vert2meshpt st ! nr (vertices geo ! id_from ident))
          (vert2meshpt st ! nr (vertices geo ! id_to ident))
          (id_name ident) (id_type ident) (fe_mesh st)\<rparr>"

text \<open>Lines 638-649: is the start vertex identified with the end vertex by a
  \<^verbatim>\<open>CLOSESURFACES\<close> identification on the list of the start vertex?\<close>

definition is_identified_edge :: "'t NetgenGeometry \<Rightarrow> 't GeometryEdge \<Rightarrow> bool" where
  "is_identified_edge geo edge =
     (let v0 = nr (vertices geo ! StartVertex edge);
          v1 = nr (vertices geo ! EndVertex edge)
      in list_ex (\<lambda>ident.
           let other = (if id_from ident = v0 then id_to ident else id_from ident)
           in nr (vertices geo ! other) = nr (vertices geo ! v1) \<and> id_type ident = CLOSESURFACES)
         (identifications (vertices geo ! v0)))"

text \<open>Lines 663-713: a non-primary edge takes the inner points of its primary edge. The
  result is the inner points and all parameters. With fewer than two points on the
  primary edge the unsigned \<open>np - 2\<close> wraps around.\<close>

definition map_to_edge :: "'t trafo_ops \<Rightarrow> 't GeometryEdge \<Rightarrow> Point3 \<Rightarrow> Point3 \<times> real" where
  "map_to_edge T edge p =
     ProjectPoint edge (case primary_to_me edge of Some trafo \<Rightarrow> apply_trafo T trafo p | None \<Rightarrow> p)"

definition inherit_from_primary ::
  "'t trafo_ops \<Rightarrow> Mesh \<Rightarrow> 't GeometryEdge \<Rightarrow> nat list \<Rightarrow> Abort + (Point3 list \<times> real list)" where
  "inherit_from_primary T mesh edge pnums_primary =
     (let np = length pnums_primary
      in if np < 2 then Inl Undefined_behaviour
         else
           (let projected = map (\<lambda>i. map_to_edge T edge (mp_point (mesh_at mesh (pnums_primary ! (i + 1)))))
                              [0..<np - 2];
                edge_points = map fst projected;
                edge_params = map snd projected
            in if length edge_params > 1 then
                 (let reversed = (edge_params ! 1 < edge_params ! 0)
                  in if reversed then Inr (edge_points, [1] @ edge_params @ [0])
                     else Inr (edge_points, [0] @ edge_params @ [1]))
               else
                 Inr (edge_points,
                      [snd (map_to_edge T edge (mp_point (mesh_at mesh (pnums_primary ! 0))))]
                      @ edge_params
                      @ [snd (map_to_edge T edge (mp_point (mesh_at mesh (pnums_primary ! (np - 1)))))])))"

text \<open>Lines 635-714: the inner points and the parameters of an edge.\<close>

definition edge_points_and_params ::
  "'t trafo_ops \<Rightarrow> MeshingParameters \<Rightarrow> 't NetgenGeometry \<Rightarrow> nat \<Rightarrow> FindEdgesState
   \<Rightarrow> Abort + (Point3 list \<times> real list \<times> string list)" where
  "edge_points_and_params T mparam geo edgenr st =
     (let edge = edges geo ! edgenr
      in if primary edge = edgenr then
           (if is_identified_edge geo edge then Inr ([], [0, 1], [])
            else
              (case Divide mparam (Mesh_GetH (fe_mesh st)) edge of
                 Inl a \<Rightarrow> Inl a
               | Inr out \<Rightarrow> Inr (div_points out, div_params out, div_cout out)))
         else
           (case inherit_from_primary T (fe_mesh st) edge
                   (all_pnums st ! nr (edges geo ! primary edge)) of
              Inl a \<Rightarrow> Inl a
            | Inr (edge_points, params) \<Rightarrow> Inr (edge_points, params, [])))"

text \<open>Lines 723-729: the inner points go into the mesh, and into the tree of the edge when
  the edge has identifications.\<close>

definition add_edge_point ::
  "'t GeometryEdge \<Rightarrow> Point3 \<Rightarrow> (Mesh \<times> PointTree) \<times> nat list \<Rightarrow> (Mesh \<times> PointTree) \<times> nat list" where
  "add_edge_point edge p acc =
     (case acc of ((mesh, tree), pis) \<Rightarrow>
        (case AddPoint p (layer (properties edge)) INNERPOINT mesh of
           (pind, mesh) \<Rightarrow>
             (let tree = (if identifications edge \<noteq> []
                          then tree_Insert (mp_point (mesh_at mesh pind)) pind (int (nr edge)) tree
                          else tree)
              in ((mesh, tree), pis @ [pind]))))"

text \<open>Lines 731-748: one segment per pair of consecutive points.\<close>

definition edge_segment :: "'t GeometryEdge \<Rightarrow> nat \<Rightarrow> nat list \<Rightarrow> real list \<Rightarrow> nat \<Rightarrow> Segment" where
  "edge_segment edge edgenr pnums params i =
     \<lparr>seg_pnums = (pnums ! i, pnums ! (i + 1)),
      seg_edgenr = edgenr + 1,
      seg_si = edgenr + 1,
      seg_dist = (params ! i, params ! (i + 1)),
      seg_ep_edgenr = (edgenr, edgenr),
      seg_uv = ((0, 0), (0, 0)),
      singedge_left = hpref (properties edge),
      singedge_right = hpref (properties edge),
      seg_domin = edge_domin edge + 1,
      seg_domout = edge_domout edge + 1\<rparr>"

text \<open>The body of the loop over the edges (lines 617-750), with what it prints.\<close>

definition mesh_edge ::
  "'t trafo_ops \<Rightarrow> MeshingParameters \<Rightarrow> 't NetgenGeometry \<Rightarrow> nat
   \<Rightarrow> FindEdgesState \<times> string list \<Rightarrow> Abort + (FindEdgesState \<times> string list)" where
  "mesh_edge T mparam geo edgenr stc =
     (case stc of (st, cout) \<Rightarrow>
      let edge = edges geo ! edgenr;
          startp = vert2meshpt st ! nr (vertices geo ! StartVertex edge);
          endp = vert2meshpt st ! nr (vertices geo ! EndVertex edge)
      in if IsDegenerated edge (1 / 10 ^ 10) then Inr (st, cout)
         else
           (case edge_points_and_params T mparam geo edgenr st of
              Inl a \<Rightarrow> Inl a
            | Inr (edge_points, params, printed) \<Rightarrow>
                (let is_reversed = (last params < params ! 0);
                     first = (if is_reversed then endp else startp);
                     final = (if is_reversed then startp else endp)
                 in case fold (add_edge_point edge) edge_points ((fe_mesh st, fe_tree st), []) of
                      ((mesh, tree), pis) \<Rightarrow>
                        (let pnums = [first] @ pis @ [final];
                             mesh = mesh\<lparr>segments := segments mesh
                                      @ map (edge_segment edge edgenr pnums params)
                                          [0..<length pnums - 1]\<rparr>;
                             mesh = mesh\<lparr>cd2names := cd2names mesh
                                      @ [(edgenr + 1, GetName (properties edge))]\<rparr>
                         in Inr (st\<lparr>fe_mesh := mesh, fe_tree := tree,
                                     all_pnums := (all_pnums st)[edgenr := pnums],
                                     all_params := (all_params st)[edgenr := params]\<rparr>,
                                 cout @ printed)))))"


text \<open>A loop whose body can abort.\<close>

primrec fold_abort :: "('a \<Rightarrow> 's \<Rightarrow> Abort + 's) \<Rightarrow> 'a list \<Rightarrow> 's \<Rightarrow> Abort + 's" where
  "fold_abort f [] s = Inr s"
| "fold_abort f (x # xs) s = (case f x s of Inl a \<Rightarrow> Inl a | Inr s' \<Rightarrow> fold_abort f xs s')"

text \<open>Lines 752-772: the inner points of an edge are identified with the points found in
  the tree of the edge it is identified with.\<close>

definition identify_edge_point ::
  "'t trafo_ops \<Rightarrow> (Point3 \<Rightarrow> Point3 \<Rightarrow> bool) \<Rightarrow> 't NetgenGeometry \<Rightarrow> PointTree
   \<Rightarrow> 't ShapeIdentification \<Rightarrow> nat \<Rightarrow> Mesh \<Rightarrow> Abort + Mesh" where
  "identify_edge_point T meets geo tree ident pind mesh =
     (let p_other = (case id_trafo ident of
                       Some trafo \<Rightarrow> apply_trafo T trafo (mp_point (mesh_at mesh pind))
                     | None \<Rightarrow> fst (ProjectPoint (edges geo ! id_to ident) (mp_point (mesh_at mesh pind))))
      in case tree_Find meets tree p_other (int (nr (edges geo ! id_to ident))) of
           Inl a \<Rightarrow> Inl a
         | Inr pi_other \<Rightarrow> Inr (identifications_Add pind pi_other (id_name ident) (id_type ident) mesh))"

definition identify_edge ::
  "'t trafo_ops \<Rightarrow> (Point3 \<Rightarrow> Point3 \<Rightarrow> bool) \<Rightarrow> 't NetgenGeometry \<Rightarrow> FindEdgesState
   \<Rightarrow> nat \<Rightarrow> 't ShapeIdentification \<Rightarrow> Mesh \<Rightarrow> Abort + Mesh" where
  "identify_edge T meets geo st e ident mesh =
     (if id_from ident = e then
        (let pnums = all_pnums st ! nr (edges geo ! e)
         in if length pnums < 2 then Inr mesh
            else fold_abort (identify_edge_point T meets geo (fe_tree st) ident)
                   (take (length pnums - 2) (drop 1 pnums)) mesh)
      else Inr mesh)"

record State =
  st_mesh :: Mesh
  multithread :: multithreadt
  cout :: "string list"

text \<open>\<^verbatim>\<open>FindEdges\<close>. An exception leaves \<^verbatim>\<open>multithread.task\<close> at \<^verbatim>\<open>"Mesh Edges"\<close>; the model
  returns the abort without a state.\<close>

definition FindEdges ::
  "'t trafo_ops \<Rightarrow> (Point3 \<Rightarrow> Point3 \<Rightarrow> bool) \<Rightarrow> MeshingParameters \<Rightarrow> 't NetgenGeometry
   \<Rightarrow> State \<Rightarrow> Abort + State" where
  "FindEdges T meets mparam geo s =
     (let savetask = task (multithread s);
          s = s\<lparr>multithread := (multithread s)\<lparr>task := ''Mesh Edges''\<rparr>\<rparr>;
          st = \<lparr>fe_mesh = st_mesh s, fe_tree = Map.empty,
                vert2meshpt = replicate (length (vertices geo)) 0,
                all_pnums = replicate (length (edges geo)) [],
                all_params = replicate (length (edges geo)) []\<rparr>;
          st = fold add_vertex (vertices geo) st;
          st = fold (\<lambda>vert. fold (add_vertex_identification geo) (identifications vert))
                 (vertices geo) st
      in case fold_abort (mesh_edge T mparam geo) [0..<length (edges geo)] (st, cout s) of
           Inl a \<Rightarrow> Inl a
         | Inr (st, printed) \<Rightarrow>
             (case fold_abort
                     (\<lambda>e. fold_abort (identify_edge T meets geo st e) (identifications (edges geo ! e)))
                     [0..<length (edges geo)] (fe_mesh st) of
                Inl a \<Rightarrow> Inl a
              | Inr mesh \<Rightarrow>
                  Inr (s\<lparr>st_mesh := mesh, cout := printed,
                         multithread := (multithread s)\<lparr>task := savetask\<rparr>\<rparr>)))"

section \<open>\<^verbatim>\<open>NetgenGeometry::MapSurfaceMesh\<close>\<close>

datatype xbool = xfalse | xtrue | maybe

definition default_PointGeomInfo :: PointGeomInfo where
  "default_PointGeomInfo = \<lparr>trignum = - 1, gi_u = 0, gi_v = 0\<rparr>"

text \<open>The state of \<^verbatim>\<open>MapSurfaceMesh\<close>: the mesh, the point map \<open>pmap\<close> (0 is
  \<^verbatim>\<open>PointIndex::INVALID\<close>), the caller's \<open>mapto\<close> and \<open>do_invert\<close>.\<close>

record MapState =
  ms_mesh :: Mesh
  pmap :: "nat \<Rightarrow> nat"
  mapto :: "nat \<times> nat \<Rightarrow> nat option"
  do_invert :: xbool

text \<open>Lines 1073-1099: the points on the boundary of \<open>src\<close> go into a tree, at the place
  where \<open>dst\<close> has them.\<close>

definition snap_to_edge :: "'t NetgenGeometry \<Rightarrow> Mesh \<Rightarrow> nat \<Rightarrow> Segment \<Rightarrow> nat \<Rightarrow> Point3 \<Rightarrow> Point3" where
  "snap_to_edge geo mesh pind seg e p =
     (let edge = edges geo ! e
      in if nr (edges geo ! primary edge) + 1 = seg_edgenr seg then
           (if mp_type (mesh_at mesh pind) = FIXEDPOINT then
              (if Length2 (vsub (vertex_point (vertices geo ! StartVertex edge)) p)
                    > Length2 (vsub (vertex_point (vertices geo ! EndVertex edge)) p)
               then vertex_point (vertices geo ! EndVertex edge)
               else vertex_point (vertices geo ! StartVertex edge))
            else fst (ProjectPoint edge p))
         else p)"

definition insert_boundary_point ::
  "'t trafo_ops \<Rightarrow> 't NetgenGeometry \<Rightarrow> 't GeometryFace \<Rightarrow> Mesh \<Rightarrow> Segment \<Rightarrow> nat
   \<Rightarrow> PointTree \<times> nat set \<Rightarrow> PointTree \<times> nat set" where
  "insert_boundary_point T geo dst mesh seg pind acc =
     (case acc of (tree, is_point_in_tree) \<Rightarrow>
        if pind \<notin> is_point_in_tree then
          (let p = mp_point (mesh_at mesh pind);
               p = (case primary_to_me dst of
                      Some trafo \<Rightarrow> apply_trafo T trafo p
                    | None \<Rightarrow> fold (snap_to_edge geo mesh pind seg) (face_edges dst) p)
           in (tree_Insert p pind (- 1) tree, insert pind is_point_in_tree))
        else acc)"

definition boundary_tree ::
  "'t trafo_ops \<Rightarrow> 't NetgenGeometry \<Rightarrow> 't GeometryFace \<Rightarrow> 't GeometryFace \<Rightarrow> Mesh \<Rightarrow> PointTree" where
  "boundary_tree T geo src dst mesh =
     fst (fold (\<lambda>seg acc. insert_boundary_point T geo dst mesh seg (snd (seg_pnums seg))
                             (insert_boundary_point T geo dst mesh seg (fst (seg_pnums seg)) acc))
            (GetBoundary src mesh) (Map.empty, {}))"

text \<open>Lines 1101-1121: the boundary points of \<open>dst\<close> are looked up in the tree, and their
  \<open>(u, v)\<close> values collected.\<close>

definition store_uv :: "real \<times> real \<Rightarrow> (real \<times> real) list \<Rightarrow> (real \<times> real) list" where
  "store_uv uv vals =
     (if list_ex (\<lambda>uv1. (fst uv - fst uv1) * (fst uv - fst uv1)
                        + (snd uv - snd uv1) * (snd uv - snd uv1) < 1 / 10 ^ 7) vals
      then vals else vals @ [uv])"

definition lookup_boundary_point ::
  "(Point3 \<Rightarrow> Point3 \<Rightarrow> bool) \<Rightarrow> PointTree \<Rightarrow> Mesh \<Rightarrow> nat \<Rightarrow> real \<times> real
   \<Rightarrow> (nat \<Rightarrow> nat) \<times> (nat \<Rightarrow> (real \<times> real) list)
   \<Rightarrow> Abort + (nat \<Rightarrow> nat) \<times> (nat \<Rightarrow> (real \<times> real) list)" where
  "lookup_boundary_point meets tree mesh pind uv acc =
     (case acc of (pm, uv_values) \<Rightarrow>
        (case (if pm pind = 0
               then (case tree_Find meets tree (mp_point (mesh_at mesh pind)) (- 1) of
                       Inl a \<Rightarrow> Inl a
                     | Inr found \<Rightarrow> Inr (pm(found := pind)))
               else Inr pm) of
           Inl a \<Rightarrow> Inl a
         | Inr pm \<Rightarrow> Inr (pm, uv_values(pind := store_uv uv (uv_values pind)))))"

definition lookup_boundary ::
  "(Point3 \<Rightarrow> Point3 \<Rightarrow> bool) \<Rightarrow> PointTree \<Rightarrow> 't GeometryFace \<Rightarrow> Mesh
   \<Rightarrow> Abort + (nat \<Rightarrow> nat) \<times> (nat \<Rightarrow> (real \<times> real) list)" where
  "lookup_boundary meets tree dst mesh =
     fold_abort
       (\<lambda>seg acc.
          case lookup_boundary_point meets tree mesh (fst (seg_pnums seg)) (fst (seg_uv seg)) acc of
            Inl a \<Rightarrow> Inl a
          | Inr acc \<Rightarrow>
              lookup_boundary_point meets tree mesh (snd (seg_pnums seg)) (snd (seg_uv seg)) acc)
       (GetBoundary dst mesh) (\<lambda>pind. 0, \<lambda>pind. [])"

text \<open>Lines 1135-1150: the corners of the copied element.\<close>

definition map_corner ::
  "'t trafo_ops \<Rightarrow> 't GeometryFace \<Rightarrow> 't GeometryFace \<Rightarrow> Element2d \<Rightarrow> nat
   \<Rightarrow> Element2d \<times> MapState \<Rightarrow> Element2d \<times> MapState" where
  "map_corner T src dst sel i acc =
     (case acc of (sel_new, st) \<Rightarrow>
        let pind = el_pnums sel ! i;
            st = (if pmap st pind = 0 then
                    (let p = mp_point (mesh_at (ms_mesh st) pind);
                         p = (case primary_to_me dst of
                                Some trafo \<Rightarrow> apply_trafo T trafo p
                              | None \<Rightarrow> fst (Project dst p))
                     in case AddPoint p 1 SURFACEPOINT (ms_mesh st) of
                          (pnew, mesh) \<Rightarrow> st\<lparr>ms_mesh := mesh, pmap := (pmap st)(pind := pnew)\<rparr>)
                  else st);
            sel_new = sel_new\<lparr>el_pnums := (el_pnums sel_new)[i := pmap st pind]\<rparr>;
            st = st\<lparr>mapto := (mapto st)((pind, nr dst) \<mapsto> pmap st pind)\<rparr>;
            st = st\<lparr>mapto := (mapto st)((pmap st pind, nr src) \<mapsto> pind)\<rparr>
        in (sel_new, st))"

text \<open>Lines 1151-1160: the orientation. \<open>do_invert\<close> is decided at the first copied
  element, from the normals and the transformation, unless it was set before the loop.\<close>

definition orient ::
  "'t trafo_ops \<Rightarrow> (Element2d \<Rightarrow> Element2d) \<Rightarrow> 't GeometryFace \<Rightarrow> 't GeometryFace
   \<Rightarrow> Element2d \<Rightarrow> Element2d \<times> MapState \<Rightarrow> Abort + Element2d \<times> MapState" where
  "orient T Invert src dst sel acc =
     (case acc of (sel_new, st) \<Rightarrow>
        (case (if do_invert st = maybe then
                 (case primary_to_me dst of
                    None \<Rightarrow> Inl Undefined_behaviour
                  | Some trafo \<Rightarrow>
                      (let n_src = GetNormal src (mp_point (mesh_at (ms_mesh st) (el_pnums sel ! 0)));
                           n_dist = GetNormal dst (mp_point (mesh_at (ms_mesh st) (el_pnums sel_new ! 0)))
                       in Inr (if vdot (normal_matrix T trafo n_src) n_dist < 0 then xtrue else xfalse)))
               else Inr (do_invert st)) of
           Inl a \<Rightarrow> Inl a
         | Inr d \<Rightarrow>
             Inr (if d = xtrue then Invert sel_new else sel_new, st\<lparr>do_invert := d\<rparr>)))"

text \<open>Lines 1162-1209: the \<open>(u, v)\<close> values of the corners.\<close>

definition closest_uv :: "PointGeomInfo \<Rightarrow> (real \<times> real) list \<Rightarrow> PointGeomInfo" where
  "closest_uv gi_p uvs =
     fst (fold (\<lambda>uv (gi, min_dist).
            let dist = (gi_u gi_p - fst uv) * (gi_u gi_p - fst uv)
                       + (gi_v gi_p - snd uv) * (gi_v gi_p - snd uv)
            in if (case min_dist of None \<Rightarrow> True | Some m \<Rightarrow> dist < m)
               then (gi\<lparr>gi_u := fst uv, gi_v := snd uv\<rparr>, Some dist) else (gi, min_dist))
          uvs (default_PointGeomInfo\<lparr>trignum := trignum gi_p\<rparr>, None))"

definition corner_geominfo ::
  "'t GeometryFace \<Rightarrow> nat \<Rightarrow> (nat \<Rightarrow> (real \<times> real) list) \<Rightarrow> Mesh \<Rightarrow> Element2d \<Rightarrow> nat
   \<Rightarrow> Abort + PointGeomInfo" where
  "corner_geominfo dst np uv_values mesh sel_new i =
     (let pind = el_pnums sel_new ! i; n = length (el_pnums sel_new)
      in if np + 1 \<le> pind then Inr (CalcPointGeomInfo dst (mp_point (mesh_at mesh pind)))
         else
           (let uvs = uv_values pind
            in if length uvs = 1 then
                 Inr (default_PointGeomInfo\<lparr>gi_u := fst (uvs ! 0), gi_v := snd (uvs ! 0)\<rparr>)
               else if length uvs > 1 then
                 (let eps = 1 / 10 ^ 3;
                      p = vadd (vscale (1 - eps) (mp_point (mesh_at mesh (el_pnums sel_new ! (i mod n)))))
                            (vadd (vscale (eps / 2) (mp_point (mesh_at mesh (el_pnums sel_new ! ((i + 1) mod n)))))
                                  (vscale (eps / 2) (mp_point (mesh_at mesh (el_pnums sel_new ! ((i + 2) mod n))))))
                  in Inr (closest_uv (CalcPointGeomInfo dst p) uvs))
               else Inl (Throw shouldnt_come_here)))"

definition set_geominfo ::
  "'t GeometryFace \<Rightarrow> nat \<Rightarrow> (nat \<Rightarrow> (real \<times> real) list) \<Rightarrow> Mesh \<Rightarrow> nat \<Rightarrow> Element2d
   \<Rightarrow> Abort + Element2d" where
  "set_geominfo dst np uv_values mesh i sel_new =
     (case corner_geominfo dst np uv_values mesh sel_new i of
        Inl a \<Rightarrow> Inl a
      | Inr gi \<Rightarrow> Inr (sel_new\<lparr>el_geominfo := (el_geominfo sel_new)[i := gi]\<rparr>))"

text \<open>The body of the loop over the surface elements (lines 1127-1211).\<close>

definition map_surface_element ::
  "'t trafo_ops \<Rightarrow> (Element2d \<Rightarrow> Element2d) \<Rightarrow> 't GeometryFace \<Rightarrow> 't GeometryFace
   \<Rightarrow> nat \<Rightarrow> (nat \<Rightarrow> (real \<times> real) list) \<Rightarrow> Element2d \<Rightarrow> MapState \<Rightarrow> Abort + MapState" where
  "map_surface_element T Invert src dst np uv_values sel st =
     (if el_index sel \<noteq> nr src + 1 then Inr st
      else
        (case orient T Invert src dst sel
                (fold (map_corner T src dst sel) [0..<length (el_pnums sel)]
                   (sel\<lparr>el_index := nr dst + 1\<rparr>, st)) of
           Inl a \<Rightarrow> Inl a
         | Inr (sel_new, st) \<Rightarrow>
             (case fold_abort (set_geominfo dst np uv_values (ms_mesh st))
                     [0..<length (el_pnums sel)] sel_new of
                Inl a \<Rightarrow> Inl a
              | Inr sel_new \<Rightarrow>
                  Inr (st\<lparr>ms_mesh := (ms_mesh st)
                           \<lparr>surface_elements := surface_elements (ms_mesh st) @ [sel_new]\<rparr>\<rparr>))))"

text \<open>Lines 1123-1124: \<^verbatim>\<open>xbool do_invert = maybe; if(!trafo) do_invert = true;\<close>\<close>

definition initial_do_invert :: "'t option \<Rightarrow> xbool" where
  "initial_do_invert trafo = (case trafo of None \<Rightarrow> xtrue | Some t \<Rightarrow> maybe)"

text \<open>\<^verbatim>\<open>MapSurfaceMesh\<close>: the mesh and the caller's \<open>mapto\<close> after the call.\<close>

definition MapSurfaceMesh ::
  "'t trafo_ops \<Rightarrow> (Point3 \<Rightarrow> Point3 \<Rightarrow> bool) \<Rightarrow> (Element2d \<Rightarrow> Element2d) \<Rightarrow> 't NetgenGeometry
   \<Rightarrow> nat \<Rightarrow> Mesh \<times> (nat \<times> nat \<Rightarrow> nat option) \<Rightarrow> Abort + Mesh \<times> (nat \<times> nat \<Rightarrow> nat option)" where
  "MapSurfaceMesh T meets Invert geo dst_nr mm =
     (case mm of (mesh, mapto0) \<Rightarrow>
      let dst = faces geo ! dst_nr;
          src = faces geo ! primary dst;
          trafo = primary_to_me dst;
          np = length (mesh_points mesh);
          tree = boundary_tree T geo src dst mesh
      in case lookup_boundary meets tree dst mesh of
           Inl a \<Rightarrow> Inl a
         | Inr (pm, uv_values) \<Rightarrow>
             (let do_invert0 = initial_do_invert trafo
              in case fold_abort (map_surface_element T Invert src dst np uv_values)
                        (surface_elements mesh)
                        \<lparr>ms_mesh = mesh, pmap = pm, mapto = mapto0, do_invert = do_invert0\<rparr> of
                   Inl a \<Rightarrow> Inl a
                 | Inr st \<Rightarrow> Inr (ms_mesh st, mapto st)))"


section \<open>\<^verbatim>\<open>NetgenGeometry::MeshSurface\<close>\<close>

text \<open>\<^verbatim>\<open>GeometryFace::IsConnectingCloseSurfaces\<close> (lines 117-144). The \<^verbatim>\<open>std::map\<close> over the
  vertex pointers holds the vertices of the face with their flags, and is visited in the
  order of the addresses of the vertex objects. Where the objects lie is not decided in
  this file: \<open>address v\<close>, the address of the vertex at position \<open>v\<close>, is a parameter.\<close>

definition face_vertices :: "'t NetgenGeometry \<Rightarrow> 't GeometryFace \<Rightarrow> nat list" where
  "face_vertices geo face =
     sorted_list_of_set (set (concat (map (\<lambda>e. [StartVertex (edges geo ! e), EndVertex (edges geo ! e)])
                                        (face_edges face))))"

definition mark_mapped :: "'t NetgenGeometry \<Rightarrow> nat list \<Rightarrow> nat \<Rightarrow> (nat \<Rightarrow> bool) \<Rightarrow> (nat \<Rightarrow> bool)" where
  "mark_mapped geo keys v verts =
     (if verts v then verts
      else fold (\<lambda>v_ident verts.
                   let other = (if id_to v_ident = v then id_from v_ident else id_to v_ident)
                   in if id_type v_ident = CLOSESURFACES \<and> other \<in> set keys
                      then (verts(v := True))(other := True) else verts)
             (identifications (vertices geo ! v)) verts)"

definition IsConnectingCloseSurfaces ::
  "(nat \<Rightarrow> nat) \<Rightarrow> 't NetgenGeometry \<Rightarrow> 't GeometryFace \<Rightarrow> bool" where
  "IsConnectingCloseSurfaces address geo face =
     (let keys = sort_key address (face_vertices geo face);
          verts = fold (mark_mapped geo keys) keys (\<lambda>v. False)
      in list_all verts keys)"

text \<open>
  The collaborators of the surface stage that are declared outside this file, and the two
  blocks of \<^verbatim>\<open>MeshSurface\<close> that only build mesh elements and mesh identifications:
  \<^item> \<open>Meshing2_GenerateMesh mparam k mesh\<close>: the 2D mesher on face \<open>k\<close> with the boundary
    and the points lines 784-826 give it; it returns the mesh with the new surface
    elements and whether the result is \<^verbatim>\<open>MESHING2_OK\<close>;
  \<^item> \<open>connect_close_surfaces k mesh\<close>: lines 890-971, the quads between the identified
    edges of a connecting face, which can throw from \<^verbatim>\<open>tree.Find\<close>;
  \<^item> \<open>MeshOptimize2d mparam faceindex step mesh\<close>: one optimisation step
    (\<^verbatim>\<open>EdgeSwapping\<close>, \<^verbatim>\<open>ImproveMesh\<close>, \<^verbatim>\<open>CombineImprove\<close>);
  \<^item> \<open>identify_surface_points mapto mesh\<close>: lines 1003-1045;
  \<^item> \<open>Invert\<close> and \<open>meets\<close> as for \<^verbatim>\<open>MapSurfaceMesh\<close>;
  \<^item> \<open>vertex_address\<close>: the addresses of the vertex objects, for
    \<^verbatim>\<open>IsConnectingCloseSurfaces\<close>.
\<close>

record surface_collaborators =
  Meshing2_GenerateMesh :: "MeshingParameters \<Rightarrow> nat \<Rightarrow> Mesh \<Rightarrow> Mesh \<times> bool"
  connect_close_surfaces :: "nat \<Rightarrow> Mesh \<Rightarrow> Abort + Mesh"
  MeshOptimize2d :: "MeshingParameters \<Rightarrow> nat \<Rightarrow> char \<Rightarrow> Mesh \<Rightarrow> Mesh"
  identify_surface_points :: "(nat \<times> nat \<Rightarrow> nat option) \<Rightarrow> Mesh \<Rightarrow> Mesh"
  Element2d_Invert :: "Element2d \<Rightarrow> Element2d"
  box_meets :: "Point3 \<Rightarrow> Point3 \<Rightarrow> bool"
  vertex_address :: "nat \<Rightarrow> nat"

text \<open>\<^verbatim>\<open>MeshFace\<close> (lines 777-841): true when the mesher failed.\<close>

definition MeshFace ::
  "surface_collaborators \<Rightarrow> MeshingParameters \<Rightarrow> 't NetgenGeometry \<Rightarrow> nat \<Rightarrow> State \<Rightarrow> State \<times> bool" where
  "MeshFace C mparam geo k s =
     (let s = s\<lparr>multithread := (multithread s)\<lparr>percent := 100 * real k / real (length (faces geo))\<rparr>\<rparr>;
          noldsurfels = length (surface_elements (st_mesh s))
      in case Meshing2_GenerateMesh C mparam k (st_mesh s) of
           (mesh, ok) \<Rightarrow>
             (s\<lparr>st_mesh := mesh\<lparr>surface_elements :=
                   take noldsurfels (surface_elements mesh)
                   @ map (\<lambda>el. el\<lparr>el_index := k + 1\<rparr>) (drop noldsurfels (surface_elements mesh))\<rparr>\<rparr>,
              \<not> ok))"

text \<open>The body of the loop over the faces (lines 853-976); the second component counts the
  failed faces.\<close>

definition mesh_face_k ::
  "surface_collaborators \<Rightarrow> MeshingParameters \<Rightarrow> 't NetgenGeometry \<Rightarrow> nat
   \<Rightarrow> State \<times> nat \<Rightarrow> Abort + State \<times> nat" where
  "mesh_face_k C mparam geo k sn =
     (case sn of (s, n_failed_faces) \<Rightarrow>
      let face = faces geo ! k;
          fd = \<lparr>fd_surfnr = k + 1, fd_domin = face_domin face + 1, fd_domout = face_domout face + 1,
                fd_bcprop = k + 1, fd_colour = col (properties face)\<rparr>;
          mesh = st_mesh s;
          mesh = mesh\<lparr>facedescriptors := facedescriptors mesh @ [fd]\<rparr>;
          mesh = mesh\<lparr>bcnames := bcnames mesh @ [(k, GetName (properties face))]\<rparr>;
          s = s\<lparr>st_mesh := mesh\<rparr>
      in if primary face = k then
           (if IsConnectingCloseSurfaces (vertex_address C) geo face then
              (case connect_close_surfaces C k (st_mesh s) of
                 Inl a \<Rightarrow> Inl a
               | Inr mesh \<Rightarrow> Inr (s\<lparr>st_mesh := mesh\<rparr>, n_failed_faces))
            else
              (case MeshFace C mparam geo k s of
                 (s, failed) \<Rightarrow> Inr (s, if failed then n_failed_faces + 1 else n_failed_faces)))
         else Inr (s, n_failed_faces))"

text \<open>\<^verbatim>\<open>OptimizeSurface\<close> (lines 1214-1252).\<close>

definition OptimizeSurface :: "surface_collaborators \<Rightarrow> MeshingParameters \<Rightarrow> State \<Rightarrow> State" where
  "OptimizeSurface C mparam s =
     (let savetask = task (multithread s);
          s = s\<lparr>multithread := (multithread s)\<lparr>task := ''Optimizing surface''\<rparr>\<rparr>;
          mesh = fold (\<lambda>i. fold (\<lambda>k. fold (MeshOptimize2d C mparam (k + 1)) (optimize2d mparam))
                              [0..<length (facedescriptors (st_mesh s))])
                   [0..<optsteps2d mparam] (st_mesh s)
      in s\<lparr>st_mesh := mesh, multithread := (multithread s)\<lparr>task := savetask\<rparr>\<rparr>)"

fun string_of_nat :: "nat \<Rightarrow> string" where
  "string_of_nat n =
     (if n < 10 then [''0123456789'' ! n]
      else string_of_nat (n div 10) @ [''0123456789'' ! (n mod 10)])"

declare string_of_nat.simps [simp del]

definition MESHCONST_ANALYSE :: nat where "MESHCONST_ANALYSE = 1"
definition MESHCONST_MESHEDGES :: nat where "MESHCONST_MESHEDGES = 2"
definition MESHCONST_MESHSURFACE :: nat where "MESHCONST_MESHSURFACE = 3"
definition MESHCONST_OPTSURFACE :: nat where "MESHCONST_OPTSURFACE = 4"
definition MESHCONST_MESHVOLUME :: nat where "MESHCONST_MESHVOLUME = 5"
definition MESHCONST_OPTVOLUME :: nat where "MESHCONST_OPTVOLUME = 6"

text \<open>The second pass over the faces (lines 991-998): the faces with another primary are
  copied from it.\<close>

definition map_face ::
  "'t trafo_ops \<Rightarrow> surface_collaborators \<Rightarrow> 't NetgenGeometry \<Rightarrow> nat
   \<Rightarrow> bool \<times> Mesh \<times> (nat \<times> nat \<Rightarrow> nat option) \<Rightarrow> Abort + bool \<times> Mesh \<times> (nat \<times> nat \<Rightarrow> nat option)" where
  "map_face T C geo k acc =
     (case acc of (have_identifications, mm) \<Rightarrow>
        if primary (faces geo ! k) \<noteq> k then
          (case MapSurfaceMesh T (box_meets C) (Element2d_Invert C) geo k mm of
             Inl a \<Rightarrow> Inl a
           | Inr mm \<Rightarrow> Inr (True, mm))
        else Inr acc)"

text \<open>\<^verbatim>\<open>MeshSurface\<close> (lines 843-1050). The result is the state at the \<^verbatim>\<open>return\<close>, or the
  abort.\<close>

definition MeshSurface ::
  "'t trafo_ops \<Rightarrow> surface_collaborators \<Rightarrow> MeshingParameters \<Rightarrow> 't NetgenGeometry
   \<Rightarrow> State \<Rightarrow> Abort + State" where
  "MeshSurface T C mparam geo s =
     (let savetask = task (multithread s);
          s = s\<lparr>multithread := (multithread s)\<lparr>task := ''Mesh Surface''\<rparr>\<rparr>;
          s = s\<lparr>st_mesh := (st_mesh s)\<lparr>facedescriptors := []\<rparr>\<rparr>
      in case fold_abort (mesh_face_k C mparam geo) [0..<length (faces geo)] (s, 0) of
           Inl a \<Rightarrow> Inl a
         | Inr (s, n_failed_faces) \<Rightarrow>
             if n_failed_faces \<noteq> 0 then
               Inr (s\<lparr>cout := cout s
                      @ [''WARNING! NOT ALL FACES HAVE BEEN MESHED'',
                         ''SURFACE MESHING ERROR OCCURRED IN '' @ string_of_nat n_failed_faces
                           @ '' FACES:'']\<rparr>)
             else
               (let s = (if perfstepsend mparam \<ge> MESHCONST_OPTSURFACE
                         then OptimizeSurface C mparam s else s)
                in case fold_abort (map_face T C geo) [0..<length (faces geo)]
                          (False, st_mesh s, Map.empty) of
                     Inl a \<Rightarrow> Inl a
                   | Inr (have_identifications, mesh, mapto_faces) \<Rightarrow>
                       (let mesh = (if have_identifications
                                    then identify_surface_points C mapto_faces mesh else mesh)
                        in Inr (s\<lparr>st_mesh := mesh,
                                  multithread := (multithread s)\<lparr>task := savetask\<rparr>\<rparr>))))"


section \<open>\<^verbatim>\<open>NetgenGeometry::GenerateMesh\<close>\<close>

text \<open>
  The stages are virtual methods of the geometry, and the volume stage is declared outside
  this file: \<^verbatim>\<open>GenerateMesh\<close> takes them as a parameter. Each stage gets the meshing
  parameters by \<^verbatim>\<open>const\<close> reference and works on the mesh and on the global
  \<^verbatim>\<open>multithread\<close>. \<open>MeshVolume\<close> also returns whether its result is \<^verbatim>\<open>MESHING3_OK\<close>.
\<close>

record stage_ops =
  new_Mesh :: Mesh
  stage_Analyse :: "MeshingParameters \<Rightarrow> State \<Rightarrow> Abort + State"
  stage_FindEdges :: "MeshingParameters \<Rightarrow> State \<Rightarrow> Abort + State"
  stage_MeshSurface :: "MeshingParameters \<Rightarrow> State \<Rightarrow> Abort + State"
  stage_FinalizeMesh :: "State \<Rightarrow> State"
  MeshVolume :: "MeshingParameters \<Rightarrow> State \<Rightarrow> State \<times> bool"
  MeshQuality3d :: "State \<Rightarrow> State"
  OptimizeVolume :: "MeshingParameters \<Rightarrow> State \<Rightarrow> State"
  SetDimension :: "nat \<Rightarrow> Mesh \<Rightarrow> Mesh"
  set_geomtype :: "Mesh \<Rightarrow> Mesh"

text \<open>What the caller has after the call: the value returned, its mesh pointer, its
  \<^verbatim>\<open>MeshingParameters\<close> object \<open>mp\<close> (passed by non-\<^verbatim>\<open>const\<close> reference), and the global
  state.\<close>

record GenerateMeshResult =
  returned :: int
  caller_mesh :: "Mesh option"
  caller_mp :: MeshingParameters
  global_multithread :: multithreadt
  global_cout :: "string list"

text \<open>The local copy (lines 1300-1303): \<open>mp\<close> with the points of \<open>restricted_h\<close> appended to
  \<open>meshsize_points\<close> (a \<^verbatim>\<open>MeshSizePoint\<close> built from a point and a size has layer 1).\<close>

definition local_mparam :: "'t NetgenGeometry \<Rightarrow> MeshingParameters \<Rightarrow> MeshingParameters" where
  "local_mparam geo mp =
     (if restricted_h geo \<noteq> []
      then fold (\<lambda>(pnt, maxh) mparam.
                   mparam\<lparr>meshsize_points := meshsize_points mparam @ [(pnt, maxh, 1)]\<rparr>)
             (restricted_h geo) mp
      else mp)"

text \<open>The stages (lines 1305-1368), on the local copy \<open>mparam\<close>. The state is the mesh
  pointer and the global state; the result is the value returned. A stage called through
  a null mesh pointer is undefined.\<close>

definition with_mesh ::
  "Mesh option \<times> multithreadt \<times> string list \<Rightarrow> (State \<Rightarrow> Abort + State)
   \<Rightarrow> Abort + Mesh option \<times> multithreadt \<times> string list" where
  "with_mesh g f =
     (case g of (mesh, mt, co) \<Rightarrow>
        (case mesh of
           None \<Rightarrow> Inl Undefined_behaviour
         | Some m \<Rightarrow>
             (case f \<lparr>st_mesh = m, multithread = mt, cout = co\<rparr> of
                Inl a \<Rightarrow> Inl a
              | Inr s \<Rightarrow> Inr (Some (st_mesh s), multithread s, cout s))))"

definition set_task :: "string \<Rightarrow> Mesh option \<times> multithreadt \<times> string list
   \<Rightarrow> Mesh option \<times> multithreadt \<times> string list" where
  "set_task t g = (case g of (mesh, mt, co) \<Rightarrow> (mesh, mt\<lparr>task := t\<rparr>, co))"

definition terminated :: "Mesh option \<times> multithreadt \<times> string list \<Rightarrow> bool" where
  "terminated g = (case g of (mesh, mt, co) \<Rightarrow> terminate mt)"

text \<open>Lines 1344-1354. The result is the abort, or the value returned early with the state
  (\<open>Inr (Inl _)\<close>), or the state to go on with.\<close>

definition volume_meshing ::
  "stage_ops \<Rightarrow> MeshingParameters \<Rightarrow> Mesh option \<times> multithreadt \<times> string list
   \<Rightarrow> Abort + (int \<times> Mesh option \<times> multithreadt \<times> string list)
              + (Mesh option \<times> multithreadt \<times> string list)" where
  "volume_meshing S mparam g =
     (if perfstepsstart mparam \<le> MESHCONST_MESHVOLUME then
        (case set_task ''Volume meshing'' g of
           (None, mt, co) \<Rightarrow> Inl Undefined_behaviour
         | (Some m, mt, co) \<Rightarrow>
             (case MeshVolume S mparam \<lparr>st_mesh = m, multithread = mt, cout = co\<rparr> of
                (s, ok) \<Rightarrow>
                  (let g = (Some (st_mesh s), multithread s, cout s)
                   in if \<not> ok then Inr (Inl (1, g))
                      else if terminated g then Inr (Inl (0, g))
                      else (case with_mesh g (\<lambda>s. Inr (MeshQuality3d S s)) of
                              Inl a \<Rightarrow> Inl a
                            | Inr g \<Rightarrow> Inr (Inr g)))))
      else Inr (Inr g))"

text \<open>Lines 1360-1366.\<close>

definition volume_optimization ::
  "stage_ops \<Rightarrow> MeshingParameters \<Rightarrow> Mesh option \<times> multithreadt \<times> string list
   \<Rightarrow> Abort + (int \<times> Mesh option \<times> multithreadt \<times> string list)
              + (Mesh option \<times> multithreadt \<times> string list)" where
  "volume_optimization S mparam g =
     (if perfstepsstart mparam \<le> MESHCONST_OPTVOLUME then
        (case with_mesh (set_task ''Volume optimization'' g) (\<lambda>s. Inr (OptimizeVolume S mparam s)) of
           Inl a \<Rightarrow> Inl a
         | Inr g \<Rightarrow> Inr (if terminated g then Inl (0, g) else Inr g))
      else Inr (Inr g))"

definition volume_stages ::
  "stage_ops \<Rightarrow> MeshingParameters \<Rightarrow> Mesh option \<times> multithreadt \<times> string list
   \<Rightarrow> Abort + int \<times> Mesh option \<times> multithreadt \<times> string list" where
  "volume_stages S mparam g =
     (case volume_meshing S mparam g of
        Inl a \<Rightarrow> Inl a
      | Inr (Inl done) \<Rightarrow> Inr done
      | Inr (Inr g) \<Rightarrow>
          if terminated g \<or> perfstepsend mparam \<le> MESHCONST_MESHVOLUME then Inr (0, g)
          else
            (case volume_optimization S mparam g of
               Inl a \<Rightarrow> Inl a
             | Inr (Inl done) \<Rightarrow> Inr done
             | Inr (Inr g) \<Rightarrow>
                 (case with_mesh g (\<lambda>s. Inr (stage_FinalizeMesh S s)) of
                    Inl a \<Rightarrow> Inl a
                  | Inr g \<Rightarrow> Inr (0, g))))"

definition finalize_dimension ::
  "stage_ops \<Rightarrow> nat \<Rightarrow> Mesh option \<times> multithreadt \<times> string list
   \<Rightarrow> Abort + int \<times> Mesh option \<times> multithreadt \<times> string list" where
  "finalize_dimension S d g =
     (case with_mesh g (\<lambda>s. Inr (stage_FinalizeMesh S s)) of
        Inl a \<Rightarrow> Inl a
      | Inr g \<Rightarrow>
          (case with_mesh g (\<lambda>s. Inr (s\<lparr>st_mesh := SetDimension S d (st_mesh s)\<rparr>)) of
             Inl a \<Rightarrow> Inl a
           | Inr g \<Rightarrow> Inr (0, g)))"

definition run_stages ::
  "stage_ops \<Rightarrow> 't NetgenGeometry \<Rightarrow> MeshingParameters \<Rightarrow> Mesh option \<times> multithreadt \<times> string list
   \<Rightarrow> Abort + int \<times> Mesh option \<times> multithreadt \<times> string list" where
  "run_stages S geo mparam g =
     (case (if perfstepsstart mparam \<le> MESHCONST_ANALYSE then
              (case g of (mesh, mt, co) \<Rightarrow>
                 with_mesh (Some (set_geomtype S (case mesh of None \<Rightarrow> new_Mesh S | Some m \<Rightarrow> m)), mt, co)
                   (stage_Analyse S mparam))
            else Inr g) of
        Inl a \<Rightarrow> Inl a
      | Inr g \<Rightarrow>
          if terminated g \<or> perfstepsend mparam \<le> MESHCONST_ANALYSE then Inr (0, g)
          else
            (case (if perfstepsstart mparam \<le> MESHCONST_MESHEDGES
                   then with_mesh g (stage_FindEdges S mparam) else Inr g) of
               Inl a \<Rightarrow> Inl a
             | Inr g \<Rightarrow>
                 if terminated g \<or> perfstepsend mparam \<le> MESHCONST_MESHEDGES then Inr (0, g)
                 else if dimension geo = 1 then finalize_dimension S 1 g
                 else
                   (case (if perfstepsstart mparam \<le> MESHCONST_MESHSURFACE
                          then with_mesh g (stage_MeshSurface S mparam) else Inr g) of
                      Inl a \<Rightarrow> Inl a
                    | Inr g \<Rightarrow>
                        if terminated g \<or> perfstepsend mparam \<le> MESHCONST_OPTSURFACE then Inr (0, g)
                        else if dimension geo = 2 then finalize_dimension S 2 g
                        else volume_stages S mparam g)))"

text \<open>\<^verbatim>\<open>GenerateMesh\<close>: \<open>multithread.percent = 0\<close>, the local copy, the stages.\<close>

definition GenerateMesh ::
  "stage_ops \<Rightarrow> 't NetgenGeometry \<Rightarrow> Mesh option \<Rightarrow> MeshingParameters \<Rightarrow> multithreadt \<Rightarrow> string list
   \<Rightarrow> Abort + GenerateMeshResult" where
  "GenerateMesh S geo mesh mp mt co =
     (let mt = mt\<lparr>percent := 0\<rparr>;
          mparam = local_mparam geo mp
      in case run_stages S geo mparam (mesh, mt, co) of
           Inl a \<Rightarrow> Inl a
         | Inr (ret, mesh, mt, co) \<Rightarrow>
             Inr \<lparr>returned = ret, caller_mesh = mesh, caller_mp = mp,
                  global_multithread = mt, global_cout = co\<rparr>)"


section \<open>\<^verbatim>\<open>NetgenGeometry::Analyse\<close>\<close>

text \<open>Lines 378-379: the mesh size is restricted to \<open>length / segmentsperedge\<close> at the
  \<open>npts + 1 = 21\<close> points of the parameters \<open>i / 20\<close>. With \<open>segmentsperedge = 0\<close> the
  source divides by 0 and asks for an infinite size or a NaN; the quotient of the reals
  is 0 there, and what is proved of these requests assumes \<open>segmentsperedge \<noteq> 0\<close>.\<close>

definition edge_length_calls :: "MeshingParameters \<Rightarrow> 't GeometryEdge \<Rightarrow> LocalH_call list" where
  "edge_length_calls mparam edge =
     map (\<lambda>i. RestrictLocalH (GetPoint edge (real i / 20))
                 (GetLength edge / segmentsperedge mparam) 1)
       [0..<20 + 1]"

text \<open>Lines 382-394: the walk along the edge with the steps of \<^verbatim>\<open>CalcStep\<close>. It need not
  end (a step of 0 repeats for ever): the result is \<open>None\<close> then.\<close>

partial_function (option) curvature_walk ::
  "'t GeometryEdge \<Rightarrow> real \<Rightarrow> real \<Rightarrow> real \<times> Point3 \<times> LocalH_call list \<Rightarrow> LocalH_call list option" where
  "curvature_walk edge eps relerr st =
     (case st of (t, p_old, calls) \<Rightarrow>
        if t < 1 - eps then
          (let t = t + CalcStep edge t relerr
           in if t < 1 then
                (let p = GetPoint edge t;
                     dist = Length (vsub p p_old)
                 in curvature_walk edge eps relerr (t, p, calls @ [RestrictLocalH p dist 1]))
              else curvature_walk edge eps relerr (t, p_old, calls))
        else Some calls)"

text \<open>The body of the loop over the edges (lines 370-394): the requests one edge adds.\<close>

definition analyse_edge ::
  "MeshingParameters \<Rightarrow> real \<Rightarrow> 't GeometryEdge \<Rightarrow> LocalH_call list option" where
  "analyse_edge mparam diam edge =
     (let mincurvelength = 1 / 10 ^ 3 * diam;
          eps = 1 / 10 ^ 10 * diam;
          length = GetLength edge
      in if length < mincurvelength then Some []
         else
           (case curvature_walk edge eps (1 / curvaturesafety mparam) (0, GetPoint edge 0, []) of
              None \<Rightarrow> None
            | Some calls \<Rightarrow> Some (edge_length_calls mparam edge @ calls)))"

definition add_calls :: "LocalH_call list \<Rightarrow> State \<Rightarrow> State" where
  "add_calls calls s = s\<lparr>st_mesh := (st_mesh s)\<lparr>localh_calls := localh_calls (st_mesh s) @ calls\<rparr>\<rparr>"

primrec analyse_edges ::
  "MeshingParameters \<Rightarrow> 't NetgenGeometry \<Rightarrow> nat list \<Rightarrow> State \<Rightarrow> State option" where
  "analyse_edges mparam geo [] s = Some s"
| "analyse_edges mparam geo (i # is) s =
     (let s = s\<lparr>multithread := (multithread s)\<lparr>percent := 100 * real i / real (length (edges geo))\<rparr>\<rparr>
      in case analyse_edge mparam (bounding_box_Diam geo) (edges geo ! i) of
           None \<Rightarrow> None
         | Some calls \<Rightarrow> analyse_edges mparam geo is (add_calls calls s))"

text \<open>Lines 399-404: the faces restrict the mesh size themselves.\<close>

definition analyse_faces :: "MeshingParameters \<Rightarrow> 't NetgenGeometry \<Rightarrow> State \<Rightarrow> State" where
  "analyse_faces mparam geo s =
     fold (\<lambda>i s. s\<lparr>multithread := (multithread s)\<lparr>percent := 100 * real i / real (length (faces geo))\<rparr>,
                   st_mesh := RestrictH (faces geo ! i) mparam (st_mesh s)\<rparr>)
       [0..<length (faces geo)] s"

text \<open>\<^verbatim>\<open>struct Line\<close> (lines 222-237).\<close>

definition Line_Length :: "Point3 \<times> Point3 \<Rightarrow> real" where
  "Line_Length l = Length (vsub (snd l) (fst l))"

definition Line_Dist :: "Point3 \<times> Point3 \<Rightarrow> Point3 \<times> Point3 \<Rightarrow> real" where
  "Line_Dist l other =
     (let n = vsub (snd l) (fst l);
          q = vsub (snd other) (fst other);
          nq = vdot n q;
          p = vadd (fst l) (vscale (1/2) n);
          lambda' = vdot (vsub p (fst other)) n / (nq + 1 / 10 ^ 10)
      in if lambda' \<ge> 0 \<and> lambda' \<le> 1
         then Length (vsub (vsub p (fst other)) (vscale lambda' q))
         else 10 ^ 99)"

text \<open>\<^verbatim>\<open>Vec<3>::Normalize\<close> is declared outside this file: the vector divided by its length.\<close>

definition Normalize :: "Point3 \<Rightarrow> Point3" where
  "Normalize v = vscale (1 / Length v) v"

text \<open>Lines 414-437: an edge is cut into sections where its tangent has turned by more
  than 10 degrees, and at its end. The state is \<open>(p_old, t_old, lines)\<close>.\<close>

definition cut_section ::
  "'t GeometryEdge \<Rightarrow> nat \<Rightarrow> Point3 \<times> Point3 \<times> (Point3 \<times> Point3) list
   \<Rightarrow> Point3 \<times> Point3 \<times> (Point3 \<times> Point3) list" where
  "cut_section edge i st =
     (case st of (p_old, t_old, lines) \<Rightarrow>
        let t = real i / 100;
            p_new = GetPoint edge t;
            t_new = Normalize (GetTangent edge t);
            cosalpha = \<bar>vdot t_old t_new\<bar>
        in if i = 100 \<or> cosalpha < cos (10 / 180 * pi)
           then (p_new, t_new, lines @ [(p_old, p_new)])
           else (p_old, t_old, lines))"

definition edge_sections ::
  "real \<Rightarrow> 't GeometryEdge \<Rightarrow> (Point3 \<times> Point3) list \<Rightarrow> (Point3 \<times> Point3) list" where
  "edge_sections eps edge lines =
     (if GetLength edge < eps then lines
      else snd (snd (fold (cut_section edge) [1..<100 + 1]
                       (GetPoint edge 0, Normalize (GetTangent edge 0), lines))))"

text \<open>\<^verbatim>\<open>Box<3>\<close>: \<^verbatim>\<open>Set\<close>, \<^verbatim>\<open>Add\<close> and \<^verbatim>\<open>Increase\<close> give the box of the two end points, enlarged
  by \<open>d\<close> on every side.\<close>

definition line_box :: "Point3 \<times> Point3 \<Rightarrow> real \<Rightarrow> Point3 \<times> Point3" where
  "line_box l d =
     (case l of ((ax, ay, az), (bx, by, bz)) \<Rightarrow>
        ((min ax bx - d, min ay by - d, min az bz - d),
         (max ax bx + d, max ay by + d, max az bz + d)))"

text \<open>Lines 439-475: the request for one section, if any.

  Modelled from the spec: the box tree is declared outside this file; by section 4.B the
  query returns the sections whose stored box overlaps the enlarged box of the section
  (\<open>meet\<close> decides the overlap), under the numbers \<^verbatim>\<open>lines.Append\<close> returned for them,
  which the code uses as their positions in \<open>lines\<close>.\<close>

definition close_edge_call ::
  "(Point3 \<times> Point3 \<Rightarrow> Point3 \<times> Point3 \<Rightarrow> bool) \<Rightarrow> real \<Rightarrow> real \<Rightarrow> (Point3 \<times> Point3) list \<Rightarrow> nat
   \<Rightarrow> LocalH_call list" where
  "close_edge_call meet closeedgefac_value diam lines i =
     (let eps = 1 / 10 ^ 10 * diam;
          line = lines ! i
      in if Line_Length line < eps then []
         else
           (let box = line_box line (Line_Length line);
                linenums = filter (\<lambda>num. meet (lines ! num) box) [0..<length lines];
                mindist = fold (\<lambda>num mindist.
                            if i = num then mindist
                            else (let other = lines ! num
                                  in if Length2 (vsub (fst line) (fst other)) < eps
                                        \<or> Length2 (vsub (fst line) (snd other)) < eps
                                        \<or> Length2 (vsub (snd line) (fst other)) < eps
                                        \<or> Length2 (vsub (snd line) (snd other)) < eps
                                     then mindist
                                     else min mindist (Line_Dist line other)))
                          linenums (10 ^ 99)
            in if mindist = 10 ^ 99 then []
               else
                 (let mindist = mindist / (closeedgefac_value + 1 / 10 ^ 10);
                      mindist = (if mindist < 1 / 10 ^ 3 * diam then 1 / 10 ^ 3 * diam else mindist)
                  in [RestrictLocalHLine (fst line) (snd line) mindist])))"

definition analyse_close_edges ::
  "(Point3 \<times> Point3 \<Rightarrow> Point3 \<times> Point3 \<Rightarrow> bool) \<Rightarrow> real \<Rightarrow> 't NetgenGeometry \<Rightarrow> State \<Rightarrow> State" where
  "analyse_close_edges meet closeedgefac_value geo s =
     (let diam = bounding_box_Diam geo;
          eps = 1 / 10 ^ 10 * diam;
          lines = fold (edge_sections eps) (edges geo) []
      in fold (\<lambda>i s. if Line_Length (lines ! i) < eps then s
                      else add_calls (close_edge_call meet closeedgefac_value diam lines i)
                             (s\<lparr>multithread := (multithread s)
                                   \<lparr>percent := 100 * real i / real (length lines)\<rparr>\<rparr>))
           [0..<length lines] s)"

text \<open>Lines 396-476: what the sizing pass does after the loop over the edges, up to the
  line that writes the saved label back.\<close>

definition after_edges ::
  "(Point3 \<times> Point3 \<Rightarrow> Point3 \<times> Point3 \<Rightarrow> bool) \<Rightarrow> MeshingParameters \<Rightarrow> 't NetgenGeometry
   \<Rightarrow> string \<Rightarrow> State \<Rightarrow> State" where
  "after_edges meet mparam geo savetask s =
     (let s = s\<lparr>multithread := (multithread s)\<lparr>task := ''Analyse Faces''\<rparr>\<rparr>;
          s = analyse_faces mparam geo s;
          s = (case closeedgefac mparam of
                 None \<Rightarrow> s
               | Some f \<Rightarrow>
                   analyse_close_edges meet f geo
                     (s\<lparr>multithread := (multithread s)\<lparr>task := ''Analyse close edges''\<rparr>\<rparr>))
      in s\<lparr>multithread := (multithread s)\<lparr>task := savetask\<rparr>\<rparr>)"

text \<open>Lines 352-356: the global sizes and the empty tree of the local mesh size.\<close>

definition init_sizes :: "MeshingParameters \<Rightarrow> 't NetgenGeometry \<Rightarrow> State \<Rightarrow> State" where
  "init_sizes mparam geo s =
     (let mesh = st_mesh s;
          mesh = mesh\<lparr>globalh := maxh mparam\<rparr>;
          mesh = mesh\<lparr>minimalh := minh mparam\<rparr>;
          mesh = mesh\<lparr>localh_box := Some (bounding_box_PMin geo, bounding_box_PMax geo, grading mparam),
                      localh_calls := []\<rparr>
      in s\<lparr>st_mesh := mesh\<rparr>)"

text \<open>\<^verbatim>\<open>Analyse\<close> (lines 348-484); \<open>None\<close> when a walk along an edge does not end. The
  divisions by \<open>segmentsperedge\<close> and \<open>curvaturesafety\<close> and those of the pass over close
  edges are those of the reals: the model follows the source where the divisors are not
  0.\<close>

definition Analyse ::
  "(Point3 \<times> Point3 \<Rightarrow> Point3 \<times> Point3 \<Rightarrow> bool) \<Rightarrow> MeshingParameters \<Rightarrow> 't NetgenGeometry
   \<Rightarrow> State \<Rightarrow> State option" where
  "Analyse meet mparam geo s =
     (let s = init_sizes mparam geo s
      in case (if uselocalh mparam then
                 (let savetask = task (multithread s);
                      s = s\<lparr>multithread := (multithread s)\<lparr>task := ''Analyse Edges''\<rparr>\<rparr>
                  in case analyse_edges mparam geo [0..<length (edges geo)] s of
                       None \<Rightarrow> None
                     | Some s \<Rightarrow> Some (after_edges meet mparam geo savetask s))
               else Some s) of
           None \<Rightarrow> None
         | Some s \<Rightarrow>
             Some (add_calls (map (\<lambda>(pnt, h, lay). RestrictLocalH pnt h lay) (meshsize_points mparam)
                              @ [LoadLocalMeshSize (meshsizefilename mparam)]) s))"


text \<open>The body of the loop over the surface elements with the orientation step replaced by
  an inversion: the copy of an element of \<open>src\<close> is inverted whatever the flag and the
  normals are. It is compared with \<open>map_surface_element\<close> in the properties of
  \<^verbatim>\<open>MapSurfaceMesh\<close>.\<close>

definition copy_element_inverted ::
  "'t trafo_ops \<Rightarrow> (Element2d \<Rightarrow> Element2d) \<Rightarrow> 't GeometryFace \<Rightarrow> 't GeometryFace
   \<Rightarrow> nat \<Rightarrow> (nat \<Rightarrow> (real \<times> real) list) \<Rightarrow> Element2d \<Rightarrow> MapState \<Rightarrow> Abort + MapState" where
  "copy_element_inverted T Invert src dst np uv_values sel st =
     (if el_index sel \<noteq> nr src + 1 then Inr st
      else
        (case fold (map_corner T src dst sel) [0..<length (el_pnums sel)]
                (sel\<lparr>el_index := nr dst + 1\<rparr>, st) of
           (sel_new, st) \<Rightarrow>
             (case fold_abort (set_geominfo dst np uv_values (ms_mesh st))
                     [0..<length (el_pnums sel)] (Invert sel_new) of
                Inl a \<Rightarrow> Inl a
              | Inr sel_new \<Rightarrow>
                  Inr (st\<lparr>ms_mesh := (ms_mesh st)
                           \<lparr>surface_elements := surface_elements (ms_mesh st) @ [sel_new]\<rparr>\<rparr>))))"

text \<open>The identification lists of an array are closed under reversal: a record from
  shape \<open>i\<close> to another shape of the array is also on the list of that shape.\<close>

definition closed_under_reversal :: "('t, 'z) GeometryShape_scheme list \<Rightarrow> bool" where
  "closed_under_reversal shapes =
     (\<forall>i r. i < length shapes \<and> r \<in> set (identifications (shapes ! i))
            \<and> id_from r = i \<and> id_to r \<noteq> i \<and> id_to r < length shapes
        \<longrightarrow> r \<in> set (identifications (shapes ! id_to r)))"

section \<open>Concrete inputs\<close>

text \<open>An implementation of the transformation interface used for concrete inputs:
  translations, a transformation being its translation vector.\<close>

definition translation_ops :: "Point3 trafo_ops" where
  "translation_ops =
     \<lparr>apply_trafo = (\<lambda>t p. vadd p t), CalcInverse = vscale (- 1), Combine = vadd,
      Translation = (\<lambda>v. v), normal_matrix = (\<lambda>t n. n)\<rparr>"

definition no_properties :: ShapeProperties where
  "no_properties = \<lparr>prop_name = None, col = None, layer = 1, hpref = 0, partition = None\<rparr>"

definition mk_vertex :: "nat \<Rightarrow> Point3 \<Rightarrow> 't ShapeIdentification list \<Rightarrow> 't GeometryVertex" where
  "mk_vertex i p ids =
     \<lparr>nr = i, properties = no_properties, identifications = ids, primary = i,
      primary_to_me = None, vertex_point = p\<rparr>"

text \<open>A straight or bulging edge between two vertices, given by its centre and its curve.\<close>

definition mk_edge ::
  "nat \<Rightarrow> nat \<Rightarrow> nat \<Rightarrow> Point3 \<Rightarrow> (real \<Rightarrow> Point3) \<Rightarrow> 't GeometryEdge" where
  "mk_edge i v0 v1 c curve =
     \<lparr>nr = i, properties = no_properties, identifications = [], primary = i,
      primary_to_me = None, StartVertex = v0, EndVertex = v1, edge_domin = 0, edge_domout = 0,
      GetLength = 1, edge_center = c, GetPoint = curve, GetTangent = (\<lambda>t. (1, 0, 0)),
      CalcStep = (\<lambda>t relerr. 1), IsDegenerated = (\<lambda>tol. False),
      ProjectPoint = (\<lambda>p. (p, fst p))\<rparr>"

definition mk_face :: "nat \<Rightarrow> nat list \<Rightarrow> Point3 \<Rightarrow> 't GeometryFace" where
  "mk_face i es c =
     \<lparr>nr = i, properties = no_properties, identifications = [], primary = i,
      primary_to_me = None, face_edges = es, face_domin = 0, face_domout = 0, face_center = c,
      GetBoundary = (\<lambda>mesh. []), GetNormal = (\<lambda>p. (0, 0, 1)),
      Project = (\<lambda>p. (p, \<lparr>trignum = 0, gi_u = fst p, gi_v = fst (snd p)\<rparr>)),
      CalcPointGeomInfo = (\<lambda>p. \<lparr>trignum = 0, gi_u = fst p, gi_v = fst (snd p)\<rparr>),
      RestrictH = (\<lambda>mparam mesh. mesh)\<rparr>"

definition empty_geometry :: "'t NetgenGeometry" where
  "empty_geometry =
     \<lparr>vertices = [], edges = [], faces = [], solids = [], bounding_box_PMin = (0, 0, 0),
      bounding_box_PMax = (1, 0, 0), bounding_box_Diam = 1,
      restricted_h = [], dimension = 3\<rparr>"

text \<open>
  Two faces over the same two vertices \<open>(0,0,0)\<close> and \<open>(1,0,0)\<close>. Face 0 is bounded by the
  edges 0 and 1, which coincide (same end points, same centre). Face 1 is bounded by edge
  2, which coincides with them, and by edge 3, whose centre is at distance 1.
\<close>

definition sliver_geometry :: "Point3 NetgenGeometry" where
  "sliver_geometry = empty_geometry
     \<lparr>vertices := [mk_vertex 0 (0, 0, 0) [], mk_vertex 1 (1, 0, 0) []],
      edges := [mk_edge 0 0 1 (1/2, 0, 0) (\<lambda>t. (t, 0, 0)),
                mk_edge 1 0 1 (1/2, 0, 0) (\<lambda>t. (t, 0, 0)),
                mk_edge 2 0 1 (1/2, 0, 0) (\<lambda>t. (t, 0, 0)),
                mk_edge 3 0 1 (1/2, 1, 0) (\<lambda>t. (t, 4 * t * (1 - t), 0))],
      faces := [mk_face 0 [0, 1] (1/2, 0, 0), mk_face 1 [2, 3] (1/2, 0, 0)]\<rparr>"

definition mk_ident :: "nat \<Rightarrow> nat \<Rightarrow> 't option \<Rightarrow> ID_TYPE \<Rightarrow> 't ShapeIdentification" where
  "mk_ident a b tr k = \<lparr>id_from = a, id_to = b, id_trafo = tr, id_type = k, id_name = ''ident''\<rparr>"

text \<open>
  Five vertices and four identifications, each stored on the list of its \<open>from\<close> vertex:
  4 to 0 with a transformation, and 1 to 4, 1 to 3 and 2 to 3 without one.
\<close>

definition chain_geometry :: "Point3 NetgenGeometry" where
  "chain_geometry = empty_geometry
     \<lparr>vertices :=
        [mk_vertex 0 (0, 0, 0) [],
         mk_vertex 1 (1, 0, 0) [mk_ident 1 4 None CLOSESURFACES, mk_ident 1 3 None CLOSESURFACES],
         mk_vertex 2 (2, 0, 0) [mk_ident 2 3 None CLOSESURFACES],
         mk_vertex 3 (3, 0, 0) [],
         mk_vertex 4 (0, 0, 1) [mk_ident 4 0 (Some (0, 0, -1)) PERIODIC]]\<rparr>"


definition default_mparam :: MeshingParameters where
  "default_mparam =
     \<lparr>maxh = 1, minh = 0, grading = 3/10, segmentsperedge = 1, curvaturesafety = 2,
      closeedgefac = None, uselocalh = True, meshsize_points = [], meshsizefilename = [],
      perfstepsstart = 1, perfstepsend = 6, optsteps2d = 3, optimize2d = ''smcmSmcmSmcm'',
      elsizeweight = 1/5\<rparr>"

text \<open>The unit segment from \<open>(0,0,0)\<close> to \<open>(1,0,0)\<close>, and parameters with a grading of
  0.9997: the factor \<open>safety\<close> of the marching step is \<open>3/20000\<close>.\<close>

definition unit_edge :: "Point3 GeometryEdge" where
  "unit_edge = mk_edge 0 0 1 (1/2, 0, 0) (\<lambda>t. (t, 0, 0))"

definition slow_mparam :: MeshingParameters where
  "slow_mparam = default_mparam\<lparr>grading := 9997/10000\<rparr>"

definition empty_mesh :: Mesh where
  "empty_mesh =
     \<lparr>mesh_points = [], pointelements = [], segments = [], surface_elements = [],
      mesh_identifications = [], cd3names = [], cd2names = [], facedescriptors = [],
      bcnames = [], globalh = 1, minimalh = 0, localh_box = None, localh_calls = [],
      H_of = (\<lambda>calls p lay. 1)\<rparr>"

text \<open>Two vertices, identified as close surfaces (the record is on both lists, as after the
  mirroring), and one edge between them, of length \<open>len\<close>, which is degenerated for a
  tolerance above its length.\<close>

definition ribbon_geometry :: "real \<Rightarrow> Point3 NetgenGeometry" where
  "ribbon_geometry len = empty_geometry
     \<lparr>vertices := [mk_vertex 0 (0, 0, 0) [mk_ident 0 1 None CLOSESURFACES],
                   mk_vertex 1 (0, 0, len) [mk_ident 0 1 None CLOSESURFACES]],
      edges := [(mk_edge 0 0 1 (0, 0, len / 2) (\<lambda>t. (0, 0, len * t)))
                  \<lparr>GetLength := len, GetTangent := (\<lambda>t. (0, 0, len)),
                   IsDegenerated := (\<lambda>tol. len < tol)\<rparr>]\<rparr>"


definition initial_state :: State where
  "initial_state =
     \<lparr>st_mesh = empty_mesh, multithread = \<lparr>task = ''idle'', percent = 0, terminate = False\<rparr>,
      cout = []\<rparr>"

text \<open>\<^verbatim>\<open>Element2d::Invert\<close> is declared outside this file and is a parameter of the model;
  for a triangle it exchanges the second and the third corner.\<close>

definition Invert_trig :: "Element2d \<Rightarrow> Element2d" where
  "Invert_trig sel = sel\<lparr>el_pnums := [el_pnums sel ! 0, el_pnums sel ! 2, el_pnums sel ! 1]\<rparr>"

text \<open>Two faces without boundary; face 1 has face 0 as primary and no transformation, and
  projects a point by lifting it by 1. The mesh has two triangles on face 0, which share
  an edge.\<close>

definition lifted_geometry :: "Point3 NetgenGeometry" where
  "lifted_geometry = empty_geometry
     \<lparr>faces := [mk_face 0 [] (0, 0, 0),
                (mk_face 1 [] (0, 0, 1))
                  \<lparr>primary := 0,
                   Project := (\<lambda>p. (vadd p (0, 0, 1), \<lparr>trignum = 0, gi_u = fst p, gi_v = fst (snd p)\<rparr>))\<rparr>]\<rparr>"

definition two_triangle_mesh :: Mesh where
  "two_triangle_mesh = empty_mesh
     \<lparr>mesh_points :=
        [\<lparr>mp_point = (0, 0, 0), mp_layer = 1, mp_type = SURFACEPOINT, mp_singular = 0\<rparr>,
         \<lparr>mp_point = (1, 0, 0), mp_layer = 1, mp_type = SURFACEPOINT, mp_singular = 0\<rparr>,
         \<lparr>mp_point = (0, 1, 0), mp_layer = 1, mp_type = SURFACEPOINT, mp_singular = 0\<rparr>,
         \<lparr>mp_point = (1, 1, 0), mp_layer = 1, mp_type = SURFACEPOINT, mp_singular = 0\<rparr>],
      surface_elements :=
        [\<lparr>el_pnums = [1, 2, 3],
          el_geominfo = [default_PointGeomInfo, default_PointGeomInfo, default_PointGeomInfo],
          el_index = 1\<rparr>,
         \<lparr>el_pnums = [2, 4, 3],
          el_geominfo = [default_PointGeomInfo, default_PointGeomInfo, default_PointGeomInfo],
          el_index = 1\<rparr>]\<rparr>"

text \<open>One face with one edge between two vertices that are not identified, and a 2D mesher
  that fails without adding an element.\<close>

definition one_face_geometry :: "Point3 NetgenGeometry" where
  "one_face_geometry = empty_geometry
     \<lparr>vertices := [mk_vertex 0 (0, 0, 0) [], mk_vertex 1 (1, 0, 0) []],
      edges := [mk_edge 0 0 1 (1/2, 0, 0) (\<lambda>t. (t, 0, 0))],
      faces := [mk_face 0 [0] (1/2, 0, 0)]\<rparr>"

definition failing_mesher :: surface_collaborators where
  "failing_mesher =
     \<lparr>Meshing2_GenerateMesh = (\<lambda>mparam k mesh. (mesh, False)),
      connect_close_surfaces = (\<lambda>k mesh. Inr mesh),
      MeshOptimize2d = (\<lambda>mparam faceindex step mesh. mesh),
      identify_surface_points = (\<lambda>mapto_faces mesh. mesh),
      Element2d_Invert = Invert_trig,
      box_meets = (=),
      vertex_address = (\<lambda>v. v)\<rparr>"

text \<open>Stages that only print what they are given: the analysis prints the number of
  \<open>meshsize_points\<close> of its parameters.\<close>

definition printing_stages :: stage_ops where
  "printing_stages =
     \<lparr>new_Mesh = empty_mesh,
      stage_Analyse = (\<lambda>mparam s. Inr (s\<lparr>cout := cout s
         @ [''Analyse '' @ string_of_nat (length (meshsize_points mparam))]\<rparr>)),
      stage_FindEdges = (\<lambda>mparam s. Inr (s\<lparr>cout := cout s @ [''FindEdges'']\<rparr>)),
      stage_MeshSurface = (\<lambda>mparam s. Inr (s\<lparr>cout := cout s @ [''MeshSurface'']\<rparr>)),
      stage_FinalizeMesh = (\<lambda>s. s\<lparr>cout := cout s @ [''FinalizeMesh'']\<rparr>),
      MeshVolume = (\<lambda>mparam s. (s\<lparr>cout := cout s @ [''MeshVolume'']\<rparr>, True)),
      MeshQuality3d = (\<lambda>s. s),
      OptimizeVolume = (\<lambda>mparam s. s\<lparr>cout := cout s @ [''OptimizeVolume'']\<rparr>),
      SetDimension = (\<lambda>d mesh. mesh),
      set_geomtype = (\<lambda>mesh. mesh)\<rparr>"

definition restricted_geometry :: "Point3 NetgenGeometry" where
  "restricted_geometry = empty_geometry\<lparr>restricted_h := [((0, 0, 0), 1/10), ((1, 0, 0), 1/20)]\<rparr>"




text \<open>Two solids, the first with an identification from itself to the second on its
  list.\<close>

definition mk_solid :: "nat \<Rightarrow> 't ShapeIdentification list \<Rightarrow> 't GeometrySolid" where
  "mk_solid i ids =
     \<lparr>nr = i, properties = no_properties, identifications = ids, primary = i,
      primary_to_me = None, solid_faces = []\<rparr>"

definition two_solids_geometry :: "Point3 NetgenGeometry" where
  "two_solids_geometry = empty_geometry
     \<lparr>solids := [mk_solid 0 [mk_ident 0 1 None PERIODIC], mk_solid 1 []]\<rparr>"

text \<open>The overlap of the box of a stored section with a query box.\<close>

definition boxes_overlap :: "Point3 \<times> Point3 \<Rightarrow> Point3 \<times> Point3 \<Rightarrow> bool" where
  "boxes_overlap l box =
     (case line_box l 0 of ((ax, ay, az), (bx, by, bz)) \<Rightarrow>
      case box of ((cx, cy, cz), (dx, dy, dz)) \<Rightarrow>
        ax \<le> dx \<and> cx \<le> bx \<and> ay \<le> dy \<and> cy \<le> by \<and> az \<le> dz \<and> cz \<le> bz)"

text \<open>The same test on the interiors of the boxes.\<close>

definition boxes_overlap_inside :: "Point3 \<times> Point3 \<Rightarrow> Point3 \<times> Point3 \<Rightarrow> bool" where
  "boxes_overlap_inside l box =
     (case line_box l 0 of ((ax, ay, az), (bx, by, bz)) \<Rightarrow>
      case box of ((cx, cy, cz), (dx, dy, dz)) \<Rightarrow>
        ax < dx \<and> cx < bx \<and> ay < dy \<and> cy < by \<and> az < dz \<and> cz < bz)"

text \<open>Two parallel straight edges of length \<open>1e-4\<close> at distance \<open>5e-5\<close>, in a bounding box
  of diameter 1: both are shorter than \<open>1e-3\<close> times the diameter, and each lies inside
  the box of the other enlarged by its length.\<close>

definition short_edge :: "nat \<Rightarrow> real \<Rightarrow> Point3 GeometryEdge" where
  "short_edge i y =
     (mk_edge i 0 1 (1 / 20000, y, 0) (\<lambda>t. (t / 10000, y, 0)))
       \<lparr>GetLength := 1 / 10000, GetTangent := (\<lambda>t. (1 / 10000, 0, 0))\<rparr>"

definition close_edges_geometry :: "Point3 NetgenGeometry" where
  "close_edges_geometry = empty_geometry\<lparr>edges := [short_edge 0 0, short_edge 1 (1 / 20000)]\<rparr>"

definition close_mparam :: MeshingParameters where
  "close_mparam = default_mparam\<lparr>closeedgefac := Some 2\<rparr>"

text \<open>The sections of the two edges of \<open>close_edges_geometry\<close>: one per edge.\<close>

definition close_lines_list :: "(Point3 \<times> Point3) list" where
  "close_lines_list = [((0, 0, 0), (1 / 10000, 0, 0)), ((0, 1 / 20000, 0), (1 / 10000, 1 / 20000, 0))]"

text \<open>The unit segment, whose walk ends after one step, and a short edge.\<close>

definition mixed_geometry :: "Point3 NetgenGeometry" where
  "mixed_geometry = empty_geometry\<lparr>edges := [unit_edge, short_edge 1 (1 / 2)]\<rparr>"

section \<open>Properties of \<^verbatim>\<open>IsMappedShape\<close>\<close>

lemma Dist_self: "Dist p p = 0"
  by (cases p) (simp add: Dist_def Length_def Length2_def vdot_def vsub_def)

text \<open>
  Claim C9. A vertex, an edge or a face asked whether it is mapped to a shape of another
  kind answers false: the \<^verbatim>\<open>dynamic_cast\<close> fails and the override returns before any
  callback. The overrides return a boolean, so the dispatch on a vertex, edge or face never
  yields an exception; the base class method, which a solid inherits, always throws.
\<close>

theorem IsMappedShape_other_kind:
  "(kind_of this \<noteq> SolidKind \<and> kind_of this \<noteq> kind_of other
      \<longrightarrow> IsMappedShape T geo this other trafo tol = Inr False)
   \<and> (kind_of this \<noteq> SolidKind \<longrightarrow> (\<exists>b. IsMappedShape T geo this other trafo tol = Inr b))
   \<and> GeometryShape_IsMappedShape T geo this other trafo tol = Inl IsMappedShape_not_implemented
   \<and> (kind_of this = SolidKind
      \<longrightarrow> IsMappedShape T geo this other trafo tol = Inl IsMappedShape_not_implemented)"
  by (cases this; cases other)
     (auto simp add: IsMappedShape_def GeometryVertex_IsMappedShape_def
        GeometryEdge_IsMappedShape_def GeometryFace_IsMappedShape_def
        GeometryShape_IsMappedShape_def)

theorem IsMappedShape_other_kind_witness:
  "IsMappedShape translation_ops sliver_geometry (EdgeRef 0) (FaceRef 1) (0, 0, 0) (1/100) = Inr False
   \<and> IsMappedShape translation_ops sliver_geometry (FaceRef 0) (VertexRef 1) (0, 0, 0) (1/100) = Inr False
   \<and> IsMappedShape translation_ops sliver_geometry (VertexRef 0) (SolidRef 0) (0, 0, 0) (1/100) = Inr False
   \<and> IsMappedShape translation_ops sliver_geometry (SolidRef 0) (VertexRef 0) (0, 0, 0) (1/100)
       = Inl IsMappedShape_not_implemented"
  using IsMappedShape_other_kind [of "EdgeRef 0" "FaceRef 1" translation_ops sliver_geometry "(0, 0, 0)" "1/100"]
    IsMappedShape_other_kind [of "FaceRef 0" "VertexRef 1" translation_ops sliver_geometry "(0, 0, 0)" "1/100"]
    IsMappedShape_other_kind [of "VertexRef 0" "SolidRef 0" translation_ops sliver_geometry "(0, 0, 0)" "1/100"]
    IsMappedShape_other_kind [of "SolidRef 0" "VertexRef 0" translation_ops sliver_geometry "(0, 0, 0)" "1/100"]
  by simp

lemma all_edges_mapped_once_iff:
  "all_edges_mapped_once T geo trafo tol other_edges es
     = (\<forall>e \<in> set es. found_mapping T geo trafo tol other_edges e = 1)"
  by (induction es) simp_all

text \<open>What the face predicate checks: the centres (without the transformation) are not
  farther apart than \<open>tol\<close>, the edge counts agree, and every edge of this face is mapped
  to exactly one edge of the other face.\<close>

lemma GeometryFace_IsMappedShape_iff:
  "GeometryFace_IsMappedShape T geo this (FaceRef other_ptr) trafo tol
     = (\<not> tol < Dist (face_center (faces geo ! this)) (face_center (faces geo ! other_ptr))
        \<and> length (face_edges (faces geo ! this)) = length (face_edges (faces geo ! other_ptr))
        \<and> (\<forall>e \<in> set (face_edges (faces geo ! this)).
              found_mapping T geo trafo tol (face_edges (faces geo ! other_ptr)) e = 1))"
  by (simp add: GeometryFace_IsMappedShape_def Let_def all_edges_mapped_once_iff)

text \<open>
  Claim C4. The loop of \<^verbatim>\<open>GeometryFace::IsMappedShape\<close> counts, for each edge of this face,
  the edges of the other face it is mapped to, and rejects a count other than 1; the array
  \<^verbatim>\<open>is_mapped\<close> it allocates is never written or read, so nothing rejects two edges of this
  face that are mapped to the same edge of the other face. On \<open>sliver_geometry\<close>, with the
  identity transformation and \<open>tol = 1/100\<close>, the edges 0 and 1 of face 0 are both mapped to
  edge 2 of face 1 and to no other, edge 3 of face 1 is the image of no edge, and the
  predicate returns true.
\<close>

theorem GeometryFace_IsMappedShape_two_to_one:
  "GeometryFace_IsMappedShape translation_ops sliver_geometry 0 (FaceRef 1) (0, 0, 0) (1/100)
   \<and> GeometryEdge_IsMappedShape translation_ops sliver_geometry 0 (EdgeRef 2) (0, 0, 0) (1/100)
   \<and> GeometryEdge_IsMappedShape translation_ops sliver_geometry 1 (EdgeRef 2) (0, 0, 0) (1/100)
   \<and> \<not> GeometryEdge_IsMappedShape translation_ops sliver_geometry 0 (EdgeRef 3) (0, 0, 0) (1/100)
   \<and> \<not> GeometryEdge_IsMappedShape translation_ops sliver_geometry 1 (EdgeRef 3) (0, 0, 0) (1/100)"
  by (simp add: GeometryFace_IsMappedShape_def found_mapping_def GeometryEdge_IsMappedShape_def
      mk_edge_def translation_ops_def Let_def vadd_def Dist_def Length_def Length2_def vdot_def
      vsub_def sliver_geometry_def empty_geometry_def mk_vertex_def mk_face_def)

section \<open>Properties of the identification closure\<close>

lemma mirror_ident_length [simp]: "length (mirror_ident i ident shapes) = length shapes"
  by (simp add: mirror_ident_def)

lemma mirror_ident_mono:
  "set (identifications (shapes ! j)) \<subseteq> set (identifications (mirror_ident i ident shapes ! j))"
  by (auto simp add: mirror_ident_def nth_update_shape Append_identification_def)

lemma mirror_ident_adds:
  "id_from r = i \<Longrightarrow> id_to r \<noteq> i \<Longrightarrow> id_to r < length shapes
   \<Longrightarrow> r \<in> set (identifications (mirror_ident i r shapes ! id_to r))"
  by (simp add: mirror_ident_def nth_update_shape Append_identification_def)

lemma fold_mirror_ident_length [simp]: "length (fold (mirror_ident i) ids shapes) = length shapes"
  by (induction ids arbitrary: shapes) simp_all

lemma fold_mirror_ident_mono:
  "set (identifications (shapes ! j)) \<subseteq> set (identifications (fold (mirror_ident i) ids shapes ! j))"
proof (induction ids arbitrary: shapes)
  case Nil
  show ?case by simp
next
  case (Cons a ids)
  show ?case
    using mirror_ident_mono [of shapes j i a] Cons.IH [of "mirror_ident i a shapes"] by auto
qed

lemma fold_mirror_ident_adds:
  "r \<in> set ids \<Longrightarrow> id_from r = i \<Longrightarrow> id_to r \<noteq> i \<Longrightarrow> id_to r < length shapes
   \<Longrightarrow> r \<in> set (identifications (fold (mirror_ident i) ids shapes ! id_to r))"
proof (induction ids arbitrary: shapes)
  case Nil
  then show ?case by simp
next
  case (Cons a ids)
  show ?case
  proof (cases "r = a")
    case True
    then have "r \<in> set (identifications (mirror_ident i a shapes ! id_to r))"
      using mirror_ident_adds [of r i shapes] Cons.prems by simp
    then show ?thesis
      using fold_mirror_ident_mono [of "mirror_ident i a shapes" "id_to r" i ids] by auto
  next
    case False
    then have "r \<in> set ids" using Cons.prems by simp
    then show ?thesis using Cons.IH [of "mirror_ident i a shapes"] Cons.prems by simp
  qed
qed

lemma mirror_shape_length [simp]: "length (mirror_shape i shapes) = length shapes"
  by (simp add: mirror_shape_def Let_def)

lemma mirror_shape_mono:
  "set (identifications (shapes ! j)) \<subseteq> set (identifications (mirror_shape i shapes ! j))"
  using fold_mirror_ident_mono [of "update_shape i (\<lambda>s. s\<lparr>nr := i\<rparr>) shapes" j i]
  by (simp add: mirror_shape_def Let_def identifications_update_shape)

lemma mirror_shape_adds:
  "r \<in> set (identifications (shapes ! i)) \<Longrightarrow> id_from r = i \<Longrightarrow> id_to r \<noteq> i
   \<Longrightarrow> id_to r < length shapes
   \<Longrightarrow> r \<in> set (identifications (mirror_shape i shapes ! id_to r))"
  using fold_mirror_ident_adds [of r "identifications (shapes ! i)" i "update_shape i (\<lambda>s. s\<lparr>nr := i\<rparr>) shapes"]
  by (simp add: mirror_shape_def Let_def identifications_update_shape)

lemma fold_mirror_shape_length [simp]: "length (fold mirror_shape is shapes) = length shapes"
  by (induction "is" arbitrary: shapes) simp_all

lemma fold_mirror_shape_mono:
  "set (identifications (shapes ! j)) \<subseteq> set (identifications (fold mirror_shape is shapes ! j))"
proof (induction "is" arbitrary: shapes)
  case Nil
  show ?case by simp
next
  case (Cons k ks)
  show ?case
    using mirror_shape_mono [of shapes j k] Cons.IH [of "mirror_shape k shapes"] by auto
qed

lemma fold_mirror_shape_adds:
  "i \<in> set is \<Longrightarrow> r \<in> set (identifications (shapes ! i)) \<Longrightarrow> id_from r = i \<Longrightarrow> id_to r \<noteq> i
   \<Longrightarrow> id_to r < length shapes
   \<Longrightarrow> r \<in> set (identifications (fold mirror_shape is shapes ! id_to r))"
proof (induction "is" arbitrary: shapes)
  case Nil
  then show ?case by simp
next
  case (Cons k ks)
  show ?case
  proof (cases "k = i")
    case True
    then have "r \<in> set (identifications (mirror_shape k shapes ! id_to r))"
      using mirror_shape_adds [of r shapes i] Cons.prems by simp
    then show ?thesis
      using fold_mirror_shape_mono [of "mirror_shape k shapes" "id_to r" ks] by auto
  next
    case False
    then have "i \<in> set ks" using Cons.prems by simp
    moreover have "r \<in> set (identifications (mirror_shape k shapes ! i))"
      using mirror_shape_mono [of shapes i k] Cons.prems by auto
    ultimately show ?thesis using Cons.IH [of "mirror_shape k shapes"] Cons.prems by simp
  qed
qed

lemma mirror_identifications_adds:
  assumes "i < length shapes" and "r \<in> set (identifications (shapes ! i))"
    and "id_from r = i" and "id_to r \<noteq> i" and "id_to r < length shapes"
  shows "r \<in> set (identifications (mirror_identifications shapes ! id_to r))"
  using fold_mirror_shape_adds [of i "[0..<length shapes]" r shapes] assms
  by (simp add: mirror_identifications_def)

lemma mirror_identifications_length [simp]:
  "length (mirror_identifications shapes) = length shapes"
  by (simp add: mirror_identifications_def)

text \<open>A record the mirroring appends to a list points to the owner of the list and comes
  from another shape.\<close>

lemma mirror_ident_new:
  "r \<in> set (identifications (mirror_ident i ident shapes ! j))
   \<Longrightarrow> r \<in> set (identifications (shapes ! j)) \<or> (id_to r = j \<and> id_from r \<noteq> j)"
  by (auto simp add: mirror_ident_def nth_update_shape Append_identification_def split: if_splits)

lemma fold_mirror_ident_new:
  "r \<in> set (identifications (fold (mirror_ident i) ids shapes ! j))
   \<Longrightarrow> r \<in> set (identifications (shapes ! j)) \<or> (id_to r = j \<and> id_from r \<noteq> j)"
proof (induction ids arbitrary: shapes)
  case Nil
  then show ?case by simp
next
  case (Cons a ids)
  then show ?case using mirror_ident_new [of r i a shapes j] by fastforce
qed

lemma mirror_shape_new:
  "r \<in> set (identifications (mirror_shape i shapes ! j))
   \<Longrightarrow> r \<in> set (identifications (shapes ! j)) \<or> (id_to r = j \<and> id_from r \<noteq> j)"
  using fold_mirror_ident_new [of r i _ "update_shape i (\<lambda>s. s\<lparr>nr := i\<rparr>) shapes" j]
  by (simp add: mirror_shape_def Let_def identifications_update_shape)

lemma fold_mirror_shape_new:
  "r \<in> set (identifications (fold mirror_shape is shapes ! j))
   \<Longrightarrow> r \<in> set (identifications (shapes ! j)) \<or> (id_to r = j \<and> id_from r \<noteq> j)"
proof (induction "is" arbitrary: shapes)
  case Nil
  then show ?case by simp
next
  case (Cons k ks)
  then show ?case using mirror_shape_new [of r k shapes j] by fastforce
qed

lemma mirror_identifications_new:
  "r \<in> set (identifications (mirror_identifications shapes ! j))
   \<Longrightarrow> r \<in> set (identifications (shapes ! j)) \<or> (id_to r = j \<and> id_from r \<noteq> j)"
  by (simp add: mirror_identifications_def fold_mirror_shape_new)

lemma fold_relax_shape_identifications:
  "length (fst (fold (relax_shape T) is st)) = length (fst st)
   \<and> identifications (fst (fold (relax_shape T) is st) ! j) = identifications (fst st ! j)"
  by (induction "is" arbitrary: st) (simp_all add: relax_shape_facts)

lemma relax_pass_identifications [simp]:
  "identifications (fst (relax_pass T shapes) ! j) = identifications (shapes ! j)"
  by (simp add: relax_pass_def fold_relax_shape_identifications)

lemma find_primary_loop_identifications:
  "length (find_primary_loop T shapes) = length shapes
   \<and> identifications (find_primary_loop T shapes ! j) = identifications (shapes ! j)"
proof (induction T shapes rule: find_primary_loop.induct)
  case (1 T shapes)
  obtain shapes' changed where rp: "relax_pass T shapes = (shapes', changed)"
    by (cases "relax_pass T shapes")
  have len: "length shapes' = length shapes"
    using relax_pass_length [of T shapes] rp by simp
  have ids: "identifications (shapes' ! j) = identifications (shapes ! j)"
    using relax_pass_identifications [of T shapes j] rp by simp
  show ?case
  proof (cases changed)
    case True
    then show ?thesis
      using "1.IH" [OF rp [symmetric] True] rp len ids
      by (subst (1 2) find_primary_loop.simps) simp
  next
    case False
    then show ?thesis
      using rp len ids by (subst (1 2) find_primary_loop.simps) simp
  qed
qed

lemma find_primary_identifications:
  "length (find_primary T shapes) = length shapes"
  "j < length shapes \<Longrightarrow> identifications (find_primary T shapes ! j) = identifications (shapes ! j)"
  by (simp_all add: find_primary_def find_primary_loop_identifications nth_enumerate_eq)

lemma closure_symmetric:
  assumes final: "final = find_primary T (mirror_identifications shapes)"
    and "i < length final" and "r \<in> set (identifications (final ! i))"
    and "id_from r = i" and "id_to r \<noteq> i" and "id_to r < length final"
  shows "r \<in> set (identifications (final ! id_to r))"
proof -
  let ?m = "mirror_identifications shapes"
  have len: "length final = length shapes"
    by (simp add: final find_primary_identifications)
  have "r \<in> set (identifications (?m ! i))"
    using assms len by (simp add: find_primary_identifications)
  then have "r \<in> set (identifications (shapes ! i))"
    using mirror_identifications_new [of r shapes i] assms by auto
  then have "r \<in> set (identifications (?m ! id_to r))"
    using mirror_identifications_adds [of i shapes r] assms len by simp
  then show ?thesis
    using assms len by (simp add: find_primary_identifications)
qed

lemma chain_process:
  "vertices (ProcessIdentifications translation_ops chain_geometry) =
    find_primary translation_ops (mirror_identifications (assign_nr (vertices chain_geometry)))"
  by (simp add: ProcessIdentifications_def lift_faces_def lift_edges_def chain_geometry_def
      empty_geometry_def assign_nr_def Let_def)

lemma chain_closure_primary:
  "map primary (find_primary translation_ops (mirror_identifications (assign_nr (vertices chain_geometry))))
     = [0, 0, 1, 0, 0]"
  by code_simp

lemma chain_closure_identifications:
  "map (\<lambda>v. map (\<lambda>r. (id_from r, id_to r)) (identifications v))
     (find_primary translation_ops (mirror_identifications (assign_nr (vertices chain_geometry))))
     = [[(4, 0)], [(1, 4), (1, 3)], [(2, 3)], [(1, 3), (2, 3)], [(4, 0), (1, 4)]]"
  by code_simp

lemma chain_closure_1:
  "mk_ident 1 4 None CLOSESURFACES \<in> set (identifications
     (find_primary translation_ops (mirror_identifications (assign_nr (vertices chain_geometry))) ! 1))"
  by code_simp

lemma closure_closed_under_reversal:
  "closed_under_reversal (find_primary T (mirror_identifications shapes))"
  unfolding closed_under_reversal_def
  by (intro allI impI, elim conjE) (rule closure_symmetric [OF refl]; assumption)

text \<open>
  Claim C5, as the code has it. After \<^verbatim>\<open>ProcessIdentifications\<close>, in each of the arrays of
  vertices, edges and faces (the lists of the solids are not mirrored), every
  identification record that is on the list of its \<open>from\<close> shape and whose
  \<open>to\<close> shape is another shape of the array is on the list of the \<open>to\<close> shape as well (the
  record itself, so with the same kind and name). The mirroring step appends it there, the
  primary selection leaves the lists alone, and the records the mirroring appends to a list
  have another shape as \<open>from\<close>.
\<close>

theorem ProcessIdentifications_closed_under_reversal:
  "closed_under_reversal (vertices (ProcessIdentifications T geo))
   \<and> closed_under_reversal (edges (ProcessIdentifications T geo))
   \<and> closed_under_reversal (faces (ProcessIdentifications T geo))"
  by (simp add: ProcessIdentifications_def Let_def closure_closed_under_reversal)

theorem ProcessIdentifications_closed_under_reversal_witness:
  "mk_ident 1 4 None CLOSESURFACES \<in> set (identifications
      (vertices (ProcessIdentifications translation_ops chain_geometry) ! 1))
   \<and> mk_ident 1 4 None CLOSESURFACES \<in> set (identifications
      (vertices (ProcessIdentifications translation_ops chain_geometry) ! 4))"
proof -
  let ?vs = "vertices (ProcessIdentifications translation_ops chain_geometry)"
  let ?r = "mk_ident 1 4 None CLOSESURFACES :: Point3 ShapeIdentification"
  have len: "length ?vs = 5"
    by (simp add: chain_process find_primary_identifications assign_nr_def)
       (simp add: chain_geometry_def)
  have r1: "?r \<in> set (identifications (?vs ! 1))"
    using chain_closure_1 by (simp add: chain_process)
  have ft: "id_from ?r = 1" "id_to ?r = 4" by (simp_all add: mk_ident_def)
  have "closed_under_reversal ?vs"
    using ProcessIdentifications_closed_under_reversal [of translation_ops chain_geometry] by simp
  then have "1 < length ?vs \<and> ?r \<in> set (identifications (?vs ! 1))
        \<and> id_from ?r = 1 \<and> id_to ?r \<noteq> 1 \<and> id_to ?r < length ?vs
      \<longrightarrow> ?r \<in> set (identifications (?vs ! id_to ?r))"
    unfolding closed_under_reversal_def by blast
  then have "?r \<in> set (identifications (?vs ! id_to ?r))"
    using len r1 ft by simp
  then show ?thesis using r1 ft by simp
qed

text \<open>The solids are numbered (lines 256-257) and otherwise left as they are: the lifts
  write edges and vertices, and the mirroring and the primary selection are run on the
  vertices, the edges and the faces only (lines 302-304 and 342-344).\<close>

lemma fold_solids:
  assumes "\<And>x g. solids (f x g) = solids g"
  shows "solids (fold f xs g) = solids g"
  by (induction xs arbitrary: g) (simp_all add: assms)

lemma lift_to_edge_solids: "solids (lift_to_edge T tol ident e e_other geo) = solids geo"
  by (simp add: lift_to_edge_def split: option.split)

lemma lift_face_identification_solids:
  "solids (lift_face_identification T tol ident geo) = solids geo"
  unfolding lift_face_identification_def
  by (rule fold_solids) (rule fold_solids, rule lift_to_edge_solids)

lemma lift_faces_solids: "solids (lift_faces T tol geo) = solids geo"
  unfolding lift_faces_def
  by (rule fold_solids) (rule fold_solids, rule lift_face_identification_solids)

lemma lift_edge_identification_solids:
  "solids (lift_edge_identification T ident geo) = solids geo"
  by (simp add: lift_edge_identification_def Let_def split: option.split)

lemma lift_edges_solids: "solids (lift_edges T geo) = solids geo"
  unfolding lift_edges_def
  by (rule fold_solids) (rule fold_solids, rule lift_edge_identification_solids)

lemma ProcessIdentifications_solids:
  "solids (ProcessIdentifications T geo) = assign_nr (solids geo)"
  by (simp add: ProcessIdentifications_def Let_def lift_edges_solids lift_faces_solids)

text \<open>
  The claim as stated, for every identification record, fails on the solids, which carry
  identification lists like every shape: in \<open>two_solids_geometry\<close> the record from solid 0
  to solid 1 is still on the list of solid 0 alone after \<^verbatim>\<open>ProcessIdentifications\<close>.
\<close>

theorem ProcessIdentifications_solids_not_mirrored:
  "identifications (solids (ProcessIdentifications translation_ops two_solids_geometry) ! 0)
     = [mk_ident 0 1 None PERIODIC]
   \<and> identifications (solids (ProcessIdentifications translation_ops two_solids_geometry) ! 1) = []
   \<and> \<not> closed_under_reversal (solids (ProcessIdentifications translation_ops two_solids_geometry))"
proof -
  let ?s = "solids (ProcessIdentifications translation_ops two_solids_geometry)"
  have s: "?s = [mk_solid 0 [mk_ident 0 1 None PERIODIC], mk_solid 1 []]"
    by (simp add: ProcessIdentifications_solids two_solids_geometry_def empty_geometry_def
        assign_nr_def mk_solid_def)
  have "\<not> closed_under_reversal ?s"
    unfolding closed_under_reversal_def s
    by (simp add: mk_solid_def mk_ident_def)
       (rule exI [of _ "\<lparr>id_from = 0, id_to = Suc 0, id_trafo = None,
                          id_type = PERIODIC, id_name = ''ident''\<rparr>"], simp)
  then show ?thesis by (simp add: s mk_solid_def)
qed


text \<open>
  Claim C1. The primary selection iterates \<^verbatim>\<open>while(changed)\<close>, but \<^verbatim>\<open>changed = true\<close> stands
  inside the branch \<^verbatim>\<open>if(ident.trafo)\<close>: a pass that lowers primaries only through
  identifications without a transformation is the last one. On \<open>chain_geometry\<close> the first
  pass sets \<open>primary 3 = 1\<close> (no transformation) and \<open>primary 4 = 0\<close> (with one), the second
  pass sets \<open>primary 1 = 0\<close>, then \<open>primary 2 = primary 3 = 1\<close>, then \<open>primary 3 = 0\<close>, all
  without a transformation, and the loop ends: vertex 2 keeps the primary 1, whose own
  primary is 0.
\<close>

theorem ProcessIdentifications_stale_primary:
  "map primary (vertices (ProcessIdentifications translation_ops chain_geometry)) = [0, 0, 1, 0, 0]"
  by (simp add: chain_process chain_closure_primary)

section \<open>Properties of the edge divider\<close>

lemma Length_x_axis: "Length (vsub (a, 0, 0) (b, 0, 0)) = \<bar>a - b\<bar>"
  by (simp add: Length_def Length2_def vdot_def vsub_def)

lemma Length_unit_x: "Length (1, 0, 0) = 1"
  by (simp add: Length_def Length2_def vdot_def)

lemma unit_edge_fields [simp]:
  "GetPoint unit_edge t = (t, 0, 0)"
  "Length (GetTangent unit_edge t) = 1"
  "partition (properties unit_edge) = None"
  "layer (properties unit_edge) = 1"
  by (simp_all add: unit_edge_def mk_edge_def no_properties_def Length_unit_x)

lemma divide_march_stop:
  "\<not> (lam < 1 \<and> length hv < divide_cap)
   \<Longrightarrow> divide_march edge GetH lay safety (lam, old_p, hv, fp) = Inr (lam, old_p, hv, fp)"
  by (subst divide_march.simps) auto

lemma divide_march_step:
  assumes "lam < 1" and "length hv < divide_cap"
  shows "divide_march edge GetH lay safety (lam, old_p, hv, fp) =
     (if GetH old_p lay = 0 \<or> (Length (GetTangent edge lam) = 0 \<and> safety * GetH old_p lay \<le> 0)
      then Inl Not_a_real
      else (let lam' = (if Length (GetTangent edge lam) = 0 then 1
                        else min (lam + safety * GetH old_p lay / Length (GetTangent edge lam)) 1)
            in divide_march edge GetH lay safety
                 (lam', GetPoint edge lam',
                  hv @ [(if length hv = 0 then 0 else last hv)
                        + 1 / GetH old_p lay * Length (vsub (GetPoint edge lam') old_p)],
                  fp @ [lam])))"
  using assms by (subst divide_march.simps) (simp add: Let_def)

text \<open>At a tangent of length 0 the march jumps to the end of the edge in one step.\<close>

lemma divide_march_zero_tangent:
  assumes "lam < 1" and "length hv < divide_cap"
    and "Length (GetTangent edge lam) = 0" and "0 < safety * GetH old_p lay"
  shows "divide_march edge GetH lay safety (lam, old_p, hv, fp)
       = Inr (1, GetPoint edge 1,
              hv @ [(if length hv = 0 then 0 else last hv)
                    + 1 / GetH old_p lay * Length (vsub (GetPoint edge 1) old_p)],
              fp @ [lam])"
proof -
  have "GetH old_p lay \<noteq> 0" using assms(4) by auto
  then show ?thesis
    using assms(3,4)
    unfolding divide_march_step [OF assms(1,2)]
    by (simp add: divide_march_stop)
qed

text \<open>What the marching loop keeps: \<open>hvalue\<close> is one longer than \<open>fine_params\<close>, starts with
  0, and every parameter of \<open>fine_params\<close> is below 1 (the loop is entered with \<open>lam < 1\<close>).\<close>

lemma divide_march_inv:
  assumes "divide_march edge GetH lay safety (lam, old_p, hv, fp) = Inr (lam', p', hv', fp')"
    and "length hv = Suc (length fp)" and "hv ! 0 = 0" and "\<forall>x\<in>set fp. x < 1"
  shows "length hv' = Suc (length fp') \<and> hv' ! 0 = 0 \<and> (\<forall>x\<in>set fp'. x < 1)"
  using assms
proof (induction n \<equiv> "divide_cap - length hv" arbitrary: lam old_p hv fp)
  case 0
  then have "\<not> (lam < 1 \<and> length hv < divide_cap)" by simp
  then have "divide_march edge GetH lay safety (lam, old_p, hv, fp) = Inr (lam, old_p, hv, fp)"
    by (rule divide_march_stop)
  with "0.prems" show ?case by simp
next
  case (Suc n)
  show ?case
  proof (cases "lam < 1 \<and> length hv < divide_cap")
    case False
    then have "divide_march edge GetH lay safety (lam, old_p, hv, fp) = Inr (lam, old_p, hv, fp)"
      by (rule divide_march_stop)
    with Suc.prems show ?thesis by simp
  next
    case True
    then have l: "lam < 1" and c: "length hv < divide_cap" by simp_all
    let ?lam = "if Length (GetTangent edge lam) = 0 then 1
                else min (lam + safety * GetH old_p lay / Length (GetTangent edge lam)) 1"
    let ?hv = "hv @ [(if length hv = 0 then 0 else last hv)
                    + 1 / GetH old_p lay * Length (vsub (GetPoint edge ?lam) old_p)]"
    have rec: "divide_march edge GetH lay safety (?lam, GetPoint edge ?lam, ?hv, fp @ [lam])
                 = Inr (lam', p', hv', fp')"
      using Suc.prems(1) unfolding divide_march_step [OF l c]
      by (simp add: Let_def split: if_splits)
    have n: "n = divide_cap - length ?hv" using Suc.hyps(2) by simp
    show ?thesis
      by (rule Suc.hyps(1) [OF n rec]) (use Suc.prems l in \<open>auto simp add: nth_append\<close>)
  qed
qed

text \<open>The search stops at the first sample that is not below the target.\<close>

lemma divide_search_ge: "i1 \<le> divide_search hv t i1"
  by (induction hv t i1 rule: divide_search.induct)
     (subst divide_search.simps, auto)

lemma divide_search_moves:
  "i1 < length hv \<Longrightarrow> hv ! i1 < t \<Longrightarrow> Suc i1 \<le> divide_search hv t i1"
  by (subst divide_search.simps) (simp add: divide_search_ge)

lemma divide_search_stop:
  "divide_search hv t i1 < length hv \<Longrightarrow> \<not> hv ! divide_search hv t i1 < t"
  by (induction hv t i1 rule: divide_search.induct)
     (subst (asm) (2) divide_search.simps, subst divide_search.simps, auto split: if_splits)

lemma divide_search_before:
  "i1 < divide_search hv t i1 \<Longrightarrow> hv ! (divide_search hv t i1 - 1) < t"
proof (induction hv t i1 rule: divide_search.induct)
  case (1 hvalue h_target i1)
  show ?case
  proof (cases "i1 < length hvalue \<and> hvalue ! i1 < h_target")
    case False
    then have "divide_search hvalue h_target i1 = i1" by (subst divide_search.simps) auto
    with "1.prems" show ?thesis by simp
  next
    case True
    then have eq: "divide_search hvalue h_target i1 = divide_search hvalue h_target (Suc i1)"
      by (subst divide_search.simps) simp
    show ?thesis
    proof (cases "Suc i1 < divide_search hvalue h_target (Suc i1)")
      case True
      with "1.IH" \<open>i1 < length hvalue \<and> hvalue ! i1 < h_target\<close> show ?thesis by (simp add: eq)
    next
      case False
      with divide_search_ge [of "Suc i1" hvalue h_target]
      have "divide_search hvalue h_target (Suc i1) = Suc i1" by simp
      with True show ?thesis by (simp add: eq)
    qed
  qed
qed

lemma divide_search_bound:
  "i1 \<le> m \<Longrightarrow> m < length hv \<Longrightarrow> \<not> hv ! m < t \<Longrightarrow> divide_search hv t i1 \<le> m"
proof (induction hv t i1 rule: divide_search.induct)
  case (1 hvalue h_target i1)
  show ?case
  proof (cases "i1 < length hvalue \<and> hvalue ! i1 < h_target")
    case False
    then have "divide_search hvalue h_target i1 = i1" by (subst divide_search.simps) auto
    with "1.prems" show ?thesis by simp
  next
    case True
    then have eq: "divide_search hvalue h_target i1 = divide_search hvalue h_target (Suc i1)"
      by (subst divide_search.simps) simp
    have "i1 \<noteq> m" using True "1.prems" by auto
    then have "Suc i1 \<le> m" using "1.prems" by simp
    with "1.IH" True "1.prems" show ?thesis by (simp add: eq)
  qed
qed

text \<open>
  The loop over the inner parameters, after a march that ended at the cap: the last entry
  of \<open>fine_params\<close> is the appended 1, all others are below 1, and every target lies
  strictly between 0 and the last entry of \<open>hvalue\<close>. The search then ends inside the
  array, at \<open>i1 > 0\<close> with \<open>hvalue[i1 - 1] < h_target \<le> hvalue[i1]\<close>, and the interpolated
  parameter is below 1: the loop neither breaks nor reads outside the arrays.
\<close>

lemma convex_below_one:
  fixes a b fac :: real
  assumes "a < 1" and "b \<le> 1" and "0 < fac" and "fac \<le> 1" and "b < 1 \<or> fac < 1"
  shows "a + fac * (b - a) < 1"
proof -
  have eq: "a + fac * (b - a) = a * (1 - fac) + b * fac" by (simp add: algebra_simps)
  have 1: "a * (1 - fac) \<le> 1 * (1 - fac)"
    by (rule mult_right_mono) (use assms in simp_all)
  have 2: "b * fac \<le> 1 * fac"
    by (rule mult_right_mono) (use assms in simp_all)
  from assms(5) show ?thesis
  proof
    assume "b < 1"
    then have "b * fac < 1 * fac" using assms(3) by (rule mult_strict_right_mono)
    with 1 show ?thesis unfolding eq by simp
  next
    assume "fac < 1"
    then have "0 < 1 - fac" by simp
    with assms(1) have "a * (1 - fac) < 1 * (1 - fac)" by (rule mult_strict_right_mono)
    with 2 show ?thesis unfolding eq by simp
  qed
qed

lemma divide_subedges_cap:
  fixes hv fine :: "real list"
  assumes len: "length fine = length hv" and ne: "hv \<noteq> []" and hv0: "hv ! 0 = 0"
    and fine_lt: "\<forall>j. Suc j < length hv \<longrightarrow> fine ! j < 1"
    and fine_le: "fine ! (length hv - 1) \<le> 1"
    and L: "0 < last hv" and n: "0 < n"
    and "sorted_wrt (<) is" and "\<forall>i\<in>set is. 0 < i \<and> i < n"
    and "sub_i1 st < length hv"
    and "\<forall>i\<in>set is. sub_i1 st = 0 \<or> hv ! (sub_i1 st - 1) < real i * last hv / real n"
    and "\<forall>x\<in>set (sub_params st). x < 1"
    and "sub_points st = map (GetPoint edge) (sub_params st)"
  shows "\<exists>st'. divide_subedges edge hv fine n is st = Inr st' \<and> sub_break st' = sub_break st
        \<and> length (sub_params st') = length (sub_params st) + length is
        \<and> (\<forall>x\<in>set (sub_params st'). x < 1)
        \<and> sub_points st' = map (GetPoint edge) (sub_params st')"
  using assms(8-)
proof (induction "is" arbitrary: st)
  case Nil
  then show ?case by simp
next
  case (Cons i "is")
  define t where "t = real i * last hv / real n"
  define k where "k = divide_search hv t (sub_i1 st)"
  have i: "0 < i" "i < n" using Cons.prems(2) by simp_all
  have t0: "0 < t" using i L n by (simp add: t_def)
  have "real i / real n < 1" using i by simp
  then have "real i / real n * last hv < 1 * last hv" using L by (rule mult_strict_right_mono)
  then have tL: "t < last hv" by (simp add: t_def)
  have lastN: "hv ! (length hv - 1) = last hv" using ne by (simp add: last_conv_nth)
  have kN: "k \<le> length hv - 1"
    unfolding k_def
    by (rule divide_search_bound) (use Cons.prems(3) ne tL lastN in simp_all)
  then have klt: "k < length hv" using ne by (cases hv) simp_all
  have kge: "sub_i1 st \<le> k" unfolding k_def by (rule divide_search_ge)
  have k0: "0 < k"
  proof (cases "sub_i1 st = 0")
    case True
    have "Suc 0 \<le> divide_search hv t 0"
      by (rule divide_search_moves) (use ne hv0 t0 in simp_all)
    then show ?thesis by (simp add: k_def True)
  next
    case False
    then show ?thesis using kge by simp
  qed
  have h0: "hv ! (k - 1) < t"
  proof (cases "sub_i1 st < k")
    case True
    then show ?thesis unfolding k_def by (rule divide_search_before)
  next
    case False
    then have "k = sub_i1 st" using kge by simp
    moreover have "sub_i1 st = 0 \<or> hv ! (sub_i1 st - 1) < t"
      using Cons.prems(4) by (auto simp add: t_def)
    ultimately show ?thesis using k0 by simp
  qed
  have h1: "t \<le> hv ! k"
    using divide_search_stop [of hv t "sub_i1 st"] klt by (simp add: k_def)
  define fac where "fac = (t - hv ! (k - 1)) / (hv ! k - hv ! (k - 1))"
  define param where "param = fine ! (k - 1) + fac * (fine ! k - fine ! (k - 1))"
  have d: "0 < hv ! k - hv ! (k - 1)" using h0 h1 by simp
  have fac0: "0 < fac" unfolding fac_def using h0 d by simp
  have fac1: "fac \<le> 1" unfolding fac_def using h1 d by simp
  have lam0: "fine ! (k - 1) < 1" using fine_lt k0 klt by simp
  have lam1: "fine ! k \<le> 1"
  proof (cases "Suc k < length hv")
    case True
    then show ?thesis using fine_lt by (simp add: less_imp_le)
  next
    case False
    then have "k = length hv - 1" using klt by simp
    then show ?thesis using fine_le by simp
  qed
  have strict: "fine ! k < 1 \<or> fac < 1"
  proof (cases "Suc k < length hv")
    case True
    then show ?thesis using fine_lt by simp
  next
    case False
    then have "k = length hv - 1" using klt by simp
    then have "t < hv ! k" using tL lastN by simp
    then have "fac < 1" unfolding fac_def using d by simp
    then show ?thesis by simp
  qed
  have param1: "param < 1"
    unfolding param_def by (rule convex_below_one [OF lam0 lam1 fac0 fac1 strict])
  let ?st = "st\<lparr>sub_i1 := k, sub_params := sub_params st @ [param],
                 sub_points := sub_points st @ [GetPoint edge param]\<rparr>"
  have step: "divide_subedges edge hv fine n (i # is) st = divide_subedges edge hv fine n is ?st"
    using klt k0 d
    by (simp add: Let_def t_def [symmetric] k_def [symmetric] fac_def param_def)
  have less: "\<forall>j\<in>set is. i < j" using Cons.prems(1) by simp
  have next_inv: "\<forall>j\<in>set is. sub_i1 ?st = 0 \<or> hv ! (sub_i1 ?st - 1) < real j * last hv / real n"
  proof
    fix j assume "j \<in> set is"
    then have "real i < real j" using less by simp
    then have "real i * last hv < real j * last hv" using L by (rule mult_strict_right_mono)
    then have "t < real j * last hv / real n"
      unfolding t_def using n by (simp add: divide_strict_right_mono)
    then show "sub_i1 ?st = 0 \<or> hv ! (sub_i1 ?st - 1) < real j * last hv / real n"
      using h0 by simp
  qed
  have "\<exists>st'. divide_subedges edge hv fine n is ?st = Inr st' \<and> sub_break st' = sub_break ?st
        \<and> length (sub_params st') = length (sub_params ?st) + length is
        \<and> (\<forall>x\<in>set (sub_params st'). x < 1)
        \<and> sub_points st' = map (GetPoint edge) (sub_params st')"
    by (rule Cons.IH [OF _ _ _ next_inv])
       (use Cons.prems klt param1 in simp_all)
  then show ?case unfolding step by simp
qed

lemma nsubedges_of_pos: "1 \<le> nsubedges_of hvalue"
  by (simp add: nsubedges_of_def)

lemma nsubedges_of_last: "2 \<le> nsubedges_of hvalue \<Longrightarrow> 0 < last hvalue"
  by (simp add: nsubedges_of_def) linarith

lemma Divide_at_cap:
  assumes "partition (properties edge) = None"
    and "divide_march edge GetH (layer (properties edge)) (1/2 * (1 - grading mparam))
           (0, GetPoint edge 0, [0], []) = Inr (lam, old_p, hvalue, fine_params)"
    and "length hvalue = divide_cap" and "lam < 1"
  shows "\<exists>inner. length inner = nsubedges_of hvalue - 1 \<and> (\<forall>x\<in>set inner. x < 1)
          \<and> Divide mparam GetH edge
              = Inr \<lparr>div_points = map (GetPoint edge) inner, div_params = [0] @ inner @ [1],
                     div_cout = [''Warning: Could not divide Edge'']\<rparr>"
proof -
  let ?n = "nsubedges_of hvalue"
  let ?st0 = "\<lparr>sub_i1 = 0, sub_params = [], sub_points = [], sub_break = None\<rparr>"
  have inv: "length hvalue = Suc (length fine_params)" "hvalue ! 0 = 0"
    "\<forall>x\<in>set fine_params. x < 1"
    using divide_march_inv [OF assms(2)] by simp_all
  have ne: "hvalue \<noteq> []" using inv(1) by auto
  have n: "1 \<le> ?n" by (rule nsubedges_of_pos)
  have sub: "\<exists>st'. divide_subedges edge hvalue (fine_params @ [1]) ?n [1..<?n] ?st0 = Inr st'
        \<and> sub_break st' = None
        \<and> length (sub_params st') = ?n - 1
        \<and> (\<forall>x\<in>set (sub_params st'). x < 1)
        \<and> sub_points st' = map (GetPoint edge) (sub_params st')"
  proof (cases "?n = 1")
    case True
    then show ?thesis by simp
  next
    case False
    then have "2 \<le> ?n" using n by simp
    then have L: "0 < last hvalue" by (rule nsubedges_of_last)
    have "\<exists>st'. divide_subedges edge hvalue (fine_params @ [1]) ?n [1..<?n] ?st0 = Inr st'
        \<and> sub_break st' = sub_break ?st0
        \<and> length (sub_params st') = length (sub_params ?st0) + length [1..<?n]
        \<and> (\<forall>x\<in>set (sub_params st'). x < 1)
        \<and> sub_points st' = map (GetPoint edge) (sub_params st')"
      by (rule divide_subedges_cap [OF _ ne inv(2) _ _ L])
         (use inv n ne in \<open>auto simp add: nth_append\<close>)
    then show ?thesis by simp
  qed
  then obtain st' where st': "divide_subedges edge hvalue (fine_params @ [1]) ?n [1..<?n] ?st0 = Inr st'"
    "sub_break st' = None" "length (sub_params st') = ?n - 1" "\<forall>x\<in>set (sub_params st'). x < 1"
    "sub_points st' = map (GetPoint edge) (sub_params st')"
    by blast
  have last1: "([0] @ sub_params st' @ [1]) ! ?n = 1"
    using st'(3) n by (simp add: nth_append nth_Cons split: nat.split)
  have prev: "([0] @ sub_params st' @ [1]) ! (?n - 1) < 1"
  proof (cases "?n = 1")
    case True
    then show ?thesis by simp
  next
    case False
    then have "?n - 1 = Suc (?n - 2)" using n by simp
    moreover have "?n - 2 < length (sub_params st')" using st'(3) False n by simp
    ultimately show ?thesis using st'(4) by (simp add: nth_append)
  qed
  have "Divide mparam GetH edge
          = Inr \<lparr>div_points = map (GetPoint edge) (sub_params st'),
                 div_params = [0] @ sub_params st' @ [1],
                 div_cout = [''Warning: Could not divide Edge'']\<rparr>"
    using assms st' last1 prev by (simp add: Divide_def Let_def del: append.simps)
  then show ?thesis using st'(3,4) by blast
qed

text \<open>
  The unit segment with the mesh size \<open>1/4\<close> and the grading 0.9997: a step of the march
  advances \<open>lam\<close> by \<open>3/80000\<close> and the sum in \<open>hvalue\<close> by \<open>3/20000\<close>; after the 19999 steps
  the cap allows, \<open>lam = 0.7499625\<close> and \<open>hvalue.Last() = 2.99985\<close>, so \<open>nsubedges = 3\<close>.
\<close>

lemma unit_edge_march_step:
  assumes "lam + 3/80000 \<le> 1" and "length hv < 20000" and "hv \<noteq> []"
  shows "divide_march unit_edge (\<lambda>p l. 1/4) 1 (3/20000) (lam, (lam, 0, 0), hv, fp)
       = divide_march unit_edge (\<lambda>p l. 1/4) 1 (3/20000)
           (lam + 3/80000, (lam + 3/80000, 0, 0), hv @ [last hv + 3/20000], fp @ [lam])"
proof -
  have "lam < 1" using assms(1) by simp
  then show ?thesis
    using assms
    by (subst divide_march.simps)
       (simp add: divide_cap_def Let_def Length_x_axis min_def)
qed

lemma unit_edge_march:
  assumes "k + n = 19999" and "length hv = Suc k" and "last hv = 3 * real k / 20000"
  shows "\<exists>hv' fp'. divide_march unit_edge (\<lambda>p l. 1/4) 1 (3/20000)
            (3 * real k / 80000, (3 * real k / 80000, 0, 0), hv, fp)
          = Inr (59997/80000, (59997/80000, 0, 0), hv', fp')
          \<and> length hv' = 20000 \<and> last hv' = 59997/20000"
  using assms
proof (induction n arbitrary: k hv fp)
  case 0
  then show ?case
    by (subst divide_march.simps) (simp add: divide_cap_def)
next
  case (Suc n)
  have k: "k < 19999" using Suc.prems by simp
  have next_lam: "3 * real k / 80000 + 3/80000 = 3 * real (Suc k) / 80000"
    by (simp add: add_divide_distrib)
  have next_hv: "3 * real k / 20000 + 3/20000 = 3 * real (Suc k) / 20000"
    by (simp add: add_divide_distrib)
  have "real (Suc k) \<le> 19999" using k by simp
  then have le: "3 * real k / 80000 + 3/80000 \<le> 1" unfolding next_lam by simp
  have ne: "hv \<noteq> []" using Suc.prems by auto
  have lasthv: "last hv + 3/20000 = 3 * real (Suc k) / 20000"
    unfolding Suc.prems(3) by (rule next_hv)
  have "length hv < 20000" using k Suc.prems(2) by simp
  from unit_edge_march_step [OF le this ne, of fp]
  have step: "divide_march unit_edge (\<lambda>p l. 1/4) 1 (3/20000)
            (3 * real k / 80000, (3 * real k / 80000, 0, 0), hv, fp)
        = divide_march unit_edge (\<lambda>p l. 1/4) 1 (3/20000)
            (3 * real (Suc k) / 80000, (3 * real (Suc k) / 80000, 0, 0),
             hv @ [3 * real (Suc k) / 20000], fp @ [3 * real k / 80000])"
    by (simp only: next_lam lasthv)
  show ?case
    unfolding step
    by (rule Suc.IH) (use Suc.prems in simp_all)
qed

lemma unit_edge_march_cap:
  "\<exists>lam old_p hvalue fine_params.
      divide_march unit_edge (\<lambda>p l. 1/4) (layer (properties unit_edge))
        (1/2 * (1 - grading slow_mparam)) (0, GetPoint unit_edge 0, [0], [])
        = Inr (lam, old_p, hvalue, fine_params)
      \<and> length hvalue = divide_cap \<and> lam < 1 \<and> nsubedges_of hvalue = 3"
proof -
  obtain hv' fp' where m: "divide_march unit_edge (\<lambda>p l. 1/4) 1 (3/20000) (0, (0, 0, 0), [0], [])
          = Inr (59997/80000, (59997/80000, 0, 0), hv', fp')"
    and hv: "length hv' = 20000" "last hv' = 59997/20000"
    using unit_edge_march [of 0 19999 "[0]" "[]"] by auto
  have saf: "(1 - grading slow_mparam) / 2 = 3/20000"
    by (simp add: slow_mparam_def default_mparam_def)
  have n3: "nsubedges_of hv' = 3"
    by (simp add: nsubedges_of_def hv)
  show ?thesis
    apply (rule exI [of _ "59997/80000"])
    apply (rule exI [of _ "(59997/80000, 0, 0)"])
    apply (rule exI [of _ hv'])
    apply (rule exI [of _ fp'])
    using m hv n3 apply (simp add: saf divide_cap_def)
    done
qed

lemma unit_edge_Divide_cap:
  "\<exists>out. Divide slow_mparam (\<lambda>p l. 1/4) unit_edge = Inr out
     \<and> div_cout out = [''Warning: Could not divide Edge'']
     \<and> length (div_params out) = 4 \<and> length (div_points out) = 2
     \<and> hd (div_params out) = 0 \<and> last (div_params out) = 1"
proof -
  obtain lam old_p hvalue fine_params where
    m: "divide_march unit_edge (\<lambda>p l. 1/4) (layer (properties unit_edge))
        (1/2 * (1 - grading slow_mparam)) (0, GetPoint unit_edge 0, [0], [])
        = Inr (lam, old_p, hvalue, fine_params)"
    and cap: "length hvalue = divide_cap" "lam < 1" and n: "nsubedges_of hvalue = 3"
    using unit_edge_march_cap by blast
  have p: "partition (properties unit_edge) = None" by simp
  from Divide_at_cap [OF p m cap] n show ?thesis by auto
qed

text \<open>
  Claim C3, as the code has it. When the marching loop stops at the cap of 20000 samples
  with \<open>lam < 1\<close>, \<^verbatim>\<open>Divide\<close> prints \<^verbatim>\<open>Warning: Could not divide Edge\<close> and nothing else,
  appends the parameter 1 to the samples and returns the whole partition into \<open>nsubedges\<close>
  segments: \<open>nsubedges + 1\<close> parameters from 0 to 1, all but the last below 1, and the
  \<open>nsubedges - 1\<close> points at the inner parameters. Nothing is cut off: the branch that
  drops a segment (the line \<^verbatim>\<open>CORRECTED\<close>) is not taken, and the loop does not \<^verbatim>\<open>break\<close>.
\<close>

theorem Divide_cap_warns:
  assumes "partition (properties edge) = None"
    and "divide_march edge GetH (layer (properties edge)) (1/2 * (1 - grading mparam))
           (0, GetPoint edge 0, [0], []) = Inr (lam, old_p, hvalue, fine_params)"
    and "length hvalue = divide_cap" and "lam < 1"
  shows "\<exists>out. Divide mparam GetH edge = Inr out
           \<and> div_cout out = [''Warning: Could not divide Edge'']
           \<and> length (div_params out) = nsubedges_of hvalue + 1
           \<and> length (div_points out) = nsubedges_of hvalue - 1
           \<and> hd (div_params out) = 0 \<and> last (div_params out) = 1
           \<and> (\<forall>x\<in>set (butlast (div_params out)). x < 1)
           \<and> div_points out = map (GetPoint edge) (butlast (tl (div_params out)))"
proof -
  obtain inner where i: "length inner = nsubedges_of hvalue - 1" "\<forall>x\<in>set inner. x < 1"
    and d: "Divide mparam GetH edge
              = Inr \<lparr>div_points = map (GetPoint edge) inner, div_params = [0] @ inner @ [1],
                     div_cout = [''Warning: Could not divide Edge'']\<rparr>"
    using Divide_at_cap [OF assms] by blast
  have "1 \<le> nsubedges_of hvalue" by (rule nsubedges_of_pos)
  then show ?thesis using i d by (simp add: butlast_append)
qed

theorem Divide_cap_warns_witness:
  "\<exists>out. Divide slow_mparam (\<lambda>p l. 1/4) unit_edge = Inr out
     \<and> div_cout out = [''Warning: Could not divide Edge'']
     \<and> length (div_params out) = 4 \<and> length (div_points out) = 2
     \<and> (\<forall>x\<in>set (butlast (div_params out)). x < 1)"
proof -
  obtain lam old_p hvalue fine_params where
    m: "divide_march unit_edge (\<lambda>p l. 1/4) (layer (properties unit_edge))
        (1/2 * (1 - grading slow_mparam)) (0, GetPoint unit_edge 0, [0], [])
        = Inr (lam, old_p, hvalue, fine_params)"
    and cap: "length hvalue = divide_cap" "lam < 1" and n: "nsubedges_of hvalue = 3"
    using unit_edge_march_cap by blast
  have p: "partition (properties unit_edge) = None" by simp
  from Divide_cap_warns [OF p m cap] n show ?thesis by auto
qed

text \<open>
  The claim as stated fails on the unit segment with mesh size \<open>1/4\<close> and grading 0.9997:
  the loop stops at the cap with \<open>lam < 1\<close> and \<open>nsubedges = 3\<close>, and the output after the
  warning has the 4 parameters and 2 points of all 3 segments, not of 2.
\<close>

theorem Divide_cap_not_truncated:
  "(\<exists>lam old_p hvalue fine_params.
      divide_march unit_edge (\<lambda>p l. 1/4) (layer (properties unit_edge))
        (1/2 * (1 - grading slow_mparam)) (0, GetPoint unit_edge 0, [0], [])
        = Inr (lam, old_p, hvalue, fine_params)
      \<and> length hvalue = divide_cap \<and> lam < 1 \<and> nsubedges_of hvalue = 3)
   \<and> (\<exists>out. Divide slow_mparam (\<lambda>p l. 1/4) unit_edge = Inr out
         \<and> div_cout out = [''Warning: Could not divide Edge'']
         \<and> length (div_params out) = 4 \<and> length (div_points out) = 2
         \<and> hd (div_params out) = 0 \<and> last (div_params out) = 1)"
  using unit_edge_march_cap unit_edge_Divide_cap by blast





section \<open>Properties of \<^verbatim>\<open>FindEdges\<close>\<close>

lemma ribbon_edge [simp]:
  "edges (ribbon_geometry len) ! 0 = (mk_edge 0 0 1 (0, 0, len / 2) (\<lambda>t. (0, 0, len * t)))
                  \<lparr>GetLength := len, GetTangent := (\<lambda>t. (0, 0, len)),
                   IsDegenerated := (\<lambda>tol. len < tol)\<rparr>"
  by (simp add: ribbon_geometry_def empty_geometry_def)


lemma ribbon_vertices [simp]:
  "vertices (ribbon_geometry len) =
     [mk_vertex 0 (0, 0, 0) [mk_ident 0 1 None CLOSESURFACES],
      mk_vertex 1 (0, 0, len) [mk_ident 0 1 None CLOSESURFACES]]"
  "edges (ribbon_geometry len) = [(mk_edge 0 0 1 (0, 0, len / 2) (\<lambda>t. (0, 0, len * t)))
                  \<lparr>GetLength := len, GetTangent := (\<lambda>t. (0, 0, len)),
                   IsDegenerated := (\<lambda>tol. len < tol)\<rparr>]"
  by (simp_all add: ribbon_geometry_def empty_geometry_def)

lemma FindEdges_ribbon_degenerate:
  "\<exists>s. FindEdges translation_ops (=) default_mparam (ribbon_geometry (1 / 10 ^ 12)) initial_state = Inr s
     \<and> segments (st_mesh s) = [] \<and> length (mesh_points (st_mesh s)) = 2"
  by (simp add: FindEdges_def Let_def initial_state_def empty_mesh_def add_vertex_def AddPoint_def
      mesh_at_def add_vertex_identification_def identifications_Add_def mk_vertex_def mk_ident_def
      no_properties_def GetName_def mesh_edge_def mk_edge_def identify_edge_def)

lemma FindEdges_ribbon:
  "\<exists>s. FindEdges translation_ops (=) default_mparam (ribbon_geometry 1) initial_state = Inr s
     \<and> map seg_pnums (segments (st_mesh s)) = [(1, 2)]
     \<and> map seg_dist (segments (st_mesh s)) = [(0, 1)]
     \<and> length (mesh_points (st_mesh s)) = 2"
  by (simp add: FindEdges_def Let_def initial_state_def empty_mesh_def add_vertex_def AddPoint_def
      mesh_at_def add_vertex_identification_def identifications_Add_def mk_vertex_def mk_ident_def
      no_properties_def GetName_def mesh_edge_def mk_edge_def identify_edge_def
      edge_points_and_params_def is_identified_edge_def edge_segment_def)


text \<open>
  The test of lines 638-649 reads the list of the start vertex only. Where the lists of
  the vertices are closed under reversal, as the mirroring leaves them, it finds every
  \<^verbatim>\<open>CLOSESURFACES\<close> record between the two vertices that is on the list of its \<open>from\<close>
  vertex, whichever of the two that is.
\<close>

lemma is_identified_edge_mirrored:
  assumes "closed_under_reversal (vertices geo)"
    and "\<forall>i<length (vertices geo). nr (vertices geo ! i) = i"
    and "StartVertex edge < length (vertices geo)" and "EndVertex edge < length (vertices geo)"
    and "r \<in> set (identifications (vertices geo ! id_from r))"
    and "id_type r = CLOSESURFACES"
    and "(id_from r = StartVertex edge \<and> id_to r = EndVertex edge)
         \<or> (id_from r = EndVertex edge \<and> id_to r = StartVertex edge)"
  shows "is_identified_edge geo edge"
proof -
  have on_start: "r \<in> set (identifications (vertices geo ! StartVertex edge))"
  proof (cases "id_from r = StartVertex edge")
    case True
    then show ?thesis using assms(5) by simp
  next
    case False
    then have ft: "id_from r = EndVertex edge" "id_to r = StartVertex edge"
      using assms(7) by auto
    from assms(1) have "id_from r < length (vertices geo)
        \<and> r \<in> set (identifications (vertices geo ! id_from r))
        \<and> id_from r = id_from r \<and> id_to r \<noteq> id_from r \<and> id_to r < length (vertices geo)
      \<longrightarrow> r \<in> set (identifications (vertices geo ! id_to r))"
      unfolding closed_under_reversal_def by blast
    then have "r \<in> set (identifications (vertices geo ! id_to r))"
      using assms(3,4,5) False ft by auto
    then show ?thesis using ft by simp
  qed
  have other: "(if id_from r = StartVertex edge then id_to r else id_from r) = EndVertex edge"
    using assms(7) by auto
  show ?thesis
    unfolding is_identified_edge_def Let_def list_ex_iff
    using on_start other assms(2,3,4,6) by (auto intro!: bexI [of _ r])
qed







section \<open>Properties of \<^verbatim>\<open>MapSurfaceMesh\<close>\<close>

lemma lifted_faces [simp]:
  "faces lifted_geometry ! 0 = mk_face 0 [] (0, 0, 0)"
  "faces lifted_geometry ! Suc 0 = (mk_face 1 [] (0, 0, 1))
                  \<lparr>primary := 0,
                   Project := (\<lambda>p. (vadd p (0, 0, 1), \<lparr>trignum = 0, gi_u = fst p, gi_v = fst (snd p)\<rparr>))\<rparr>"
  by (simp_all add: lifted_geometry_def empty_geometry_def)

text \<open>The flag is written by the orientation step only, and that step leaves a flag
  that is true as it is.\<close>

lemma map_corner_do_invert:
  "do_invert (snd (map_corner T src dst sel i acc)) = do_invert (snd acc)"
  by (cases acc) (simp add: map_corner_def Let_def AddPoint_def)

lemma fold_map_corner_do_invert:
  "do_invert (snd (fold (map_corner T src dst sel) is acc)) = do_invert (snd acc)"
  by (induction "is" arbitrary: acc) (simp_all add: map_corner_do_invert)

lemma orient_true:
  "do_invert st = xtrue \<Longrightarrow> orient T Invert src dst sel (sel_new, st) = Inr (Invert sel_new, st)"
  by (simp add: orient_def)

lemma map_surface_element_true:
  assumes "do_invert st = xtrue"
  shows "map_surface_element T Invert src dst np uv_values sel st
           = copy_element_inverted T Invert src dst np uv_values sel st"
proof (cases "el_index sel \<noteq> nr src + 1")
  case True
  then show ?thesis by (simp add: map_surface_element_def copy_element_inverted_def)
next
  case False
  obtain c st1 where f: "fold (map_corner T src dst sel) [0..<length (el_pnums sel)]
                (sel\<lparr>el_index := nr dst + 1\<rparr>, st) = (c, st1)"
    by (cases "fold (map_corner T src dst sel) [0..<length (el_pnums sel)]
                (sel\<lparr>el_index := nr dst + 1\<rparr>, st)") blast
  have "do_invert st1 = xtrue"
    using fold_map_corner_do_invert [of T src dst sel "[0..<length (el_pnums sel)]"
        "(sel\<lparr>el_index := nr dst + 1\<rparr>, st)"] assms
    unfolding f by simp
  then show ?thesis
    using False unfolding map_surface_element_def copy_element_inverted_def f
    by (simp add: orient_true)
qed

lemma copy_element_inverted_do_invert:
  assumes "copy_element_inverted T Invert src dst np uv_values sel st = Inr st'"
  shows "do_invert st' = do_invert st"
proof (cases "el_index sel \<noteq> nr src + 1")
  case True
  then show ?thesis using assms by (simp add: copy_element_inverted_def)
next
  case False
  obtain c st1 where f: "fold (map_corner T src dst sel) [0..<length (el_pnums sel)]
                (sel\<lparr>el_index := nr dst + 1\<rparr>, st) = (c, st1)"
    by (cases "fold (map_corner T src dst sel) [0..<length (el_pnums sel)]
                (sel\<lparr>el_index := nr dst + 1\<rparr>, st)") blast
  have "do_invert st1 = do_invert st"
    using fold_map_corner_do_invert [of T src dst sel "[0..<length (el_pnums sel)]"
        "(sel\<lparr>el_index := nr dst + 1\<rparr>, st)"]
    unfolding f by simp
  then show ?thesis
    using False assms unfolding copy_element_inverted_def f
    by (auto split: sum.splits)
qed

lemma fold_map_surface_element_true:
  "do_invert st = xtrue
   \<Longrightarrow> fold_abort (map_surface_element T Invert src dst np uv_values) sels st
       = fold_abort (copy_element_inverted T Invert src dst np uv_values) sels st"
proof (induction sels arbitrary: st)
  case Nil
  then show ?case by simp
next
  case (Cons sel sels)
  show ?case
  proof (cases "copy_element_inverted T Invert src dst np uv_values sel st")
    case (Inl a)
    then show ?thesis using Cons.prems by (simp add: map_surface_element_true)
  next
    case (Inr st')
    then have "do_invert st' = xtrue"
      using copy_element_inverted_do_invert [OF Inr] Cons.prems by simp
    then show ?thesis
      using Inr Cons.prems Cons.IH [of st'] by (simp add: map_surface_element_true)
  qed
qed

text \<open>
  Claim C2, as the code has it. When the destination face has no \<^verbatim>\<open>primary_to_me\<close>, the
  flag \<open>do_invert\<close> is set to true before the loop over the surface elements (it is left
  at \<open>maybe\<close> only when there is a transformation) and stays true through the whole loop:
  \<^verbatim>\<open>MapSurfaceMesh\<close> is the loop that inverts the copy of every element of the source face,
  the first one and all that follow, before it sets their \<open>(u, v)\<close> values and stores them.
\<close>

theorem MapSurfaceMesh_no_trafo_inverts:
  assumes "primary_to_me (faces geo ! dst_nr) = None"
  shows "MapSurfaceMesh T meets Invert geo dst_nr (mesh, mapto0) =
     (let dst = faces geo ! dst_nr;
          src = faces geo ! primary dst
      in case lookup_boundary meets (boundary_tree T geo src dst mesh) dst mesh of
           Inl a \<Rightarrow> Inl a
         | Inr (pm, uv_values) \<Rightarrow>
             (case fold_abort
                     (copy_element_inverted T Invert src dst (length (mesh_points mesh)) uv_values)
                     (surface_elements mesh)
                     \<lparr>ms_mesh = mesh, pmap = pm, mapto = mapto0, do_invert = xtrue\<rparr> of
                Inl a \<Rightarrow> Inl a
              | Inr st \<Rightarrow> Inr (ms_mesh st, mapto st)))"
  using assms
  by (simp add: MapSurfaceMesh_def Let_def initial_do_invert_def fold_map_surface_element_true
      split: sum.split)

text \<open>
  On \<open>lifted_geometry\<close>, face 1 has no transformation. The triangles \<open>[1, 2, 3]\<close> and
  \<open>[2, 4, 3]\<close> of face 0 are copied to the new points 5, 6, 7 and 8 (\<open>mapto\<close> sends 1, 2, 3,
  4 to 5, 6, 7, 8), and the copies stored in the mesh are \<open>[5, 7, 6]\<close> and \<open>[6, 7, 8]\<close>, not
  \<open>[5, 6, 7]\<close> and \<open>[6, 8, 7]\<close>: the winding of both is inverted.
\<close>

lemma MapSurfaceMesh_two_triangles:
  "\<exists>mesh' mapto'.
      MapSurfaceMesh translation_ops (=) Invert_trig lifted_geometry 1 (two_triangle_mesh, Map.empty)
        = Inr (mesh', mapto')
      \<and> map el_pnums (surface_elements mesh') = [[1, 2, 3], [2, 4, 3], [5, 7, 6], [6, 7, 8]]
      \<and> map el_index (surface_elements mesh') = [1, 1, 2, 2]
      \<and> map mp_point (mesh_points mesh')
          = [(0, 0, 0), (1, 0, 0), (0, 1, 0), (1, 1, 0), (0, 0, 1), (1, 0, 1), (0, 1, 1), (1, 1, 1)]
      \<and> mapto' (1, 1) = Some 5 \<and> mapto' (2, 1) = Some 6 \<and> mapto' (3, 1) = Some 7
      \<and> mapto' (4, 1) = Some 8"
  by (simp add: MapSurfaceMesh_def Let_def boundary_tree_def lookup_boundary_def mk_face_def
      two_triangle_mesh_def empty_mesh_def initial_do_invert_def map_surface_element_def
      map_corner_def orient_def AddPoint_def mesh_at_def Invert_trig_def set_geominfo_def
      corner_geominfo_def vadd_def upt_rec default_PointGeomInfo_def)

theorem MapSurfaceMesh_no_trafo_inverts_witness:
  "\<exists>mesh' mapto'.
     (let dst = faces lifted_geometry ! 1;
          src = faces lifted_geometry ! primary dst
      in case lookup_boundary (=) (boundary_tree translation_ops lifted_geometry src dst two_triangle_mesh)
                dst two_triangle_mesh of
           Inl a \<Rightarrow> Inl a
         | Inr (pm, uv_values) \<Rightarrow>
             (case fold_abort
                     (copy_element_inverted translation_ops Invert_trig src dst
                        (length (mesh_points two_triangle_mesh)) uv_values)
                     (surface_elements two_triangle_mesh)
                     \<lparr>ms_mesh = two_triangle_mesh, pmap = pm, mapto = Map.empty, do_invert = xtrue\<rparr> of
                Inl a \<Rightarrow> Inl a
              | Inr st \<Rightarrow> Inr (ms_mesh st, mapto st)))
      = Inr (mesh', mapto')
     \<and> map el_pnums (surface_elements mesh') = [[1, 2, 3], [2, 4, 3], [5, 7, 6], [6, 7, 8]]"
proof -
  have p: "primary_to_me (faces lifted_geometry ! 1) = None"
    by (simp add: mk_face_def)
  obtain mesh' mapto' where
    m: "MapSurfaceMesh translation_ops (=) Invert_trig lifted_geometry 1 (two_triangle_mesh, Map.empty)
        = Inr (mesh', mapto')"
    and e: "map el_pnums (surface_elements mesh') = [[1, 2, 3], [2, 4, 3], [5, 7, 6], [6, 7, 8]]"
    using MapSurfaceMesh_two_triangles by (elim exE conjE) (rule that; assumption)
  from m have eq: "(let dst = faces lifted_geometry ! 1;
          src = faces lifted_geometry ! primary dst
      in case lookup_boundary (=) (boundary_tree translation_ops lifted_geometry src dst two_triangle_mesh)
                dst two_triangle_mesh of
           Inl a \<Rightarrow> Inl a
         | Inr (pm, uv_values) \<Rightarrow>
             (case fold_abort
                     (copy_element_inverted translation_ops Invert_trig src dst
                        (length (mesh_points two_triangle_mesh)) uv_values)
                     (surface_elements two_triangle_mesh)
                     \<lparr>ms_mesh = two_triangle_mesh, pmap = pm, mapto = Map.empty, do_invert = xtrue\<rparr> of
                Inl a \<Rightarrow> Inl a
              | Inr st \<Rightarrow> Inr (ms_mesh st, mapto st)))
      = Inr (mesh', mapto')"
    unfolding MapSurfaceMesh_no_trafo_inverts [OF p] .
  show ?thesis
    by (rule exI [of _ mesh'], rule exI [of _ mapto'], rule conjI [OF eq e])
qed

text \<open>
  The claim as stated fails on \<open>lifted_geometry\<close>: the copies of both triangles are
  stored with their winding inverted.
\<close>

theorem MapSurfaceMesh_no_trafo_inverted:
  "primary_to_me (faces lifted_geometry ! 1) = None
   \<and> (\<exists>mesh' mapto'.
      MapSurfaceMesh translation_ops (=) Invert_trig lifted_geometry 1 (two_triangle_mesh, Map.empty)
        = Inr (mesh', mapto')
      \<and> map el_pnums (surface_elements mesh') = [[1, 2, 3], [2, 4, 3], [5, 7, 6], [6, 7, 8]]
      \<and> map el_index (surface_elements mesh') = [1, 1, 2, 2]
      \<and> map mp_point (mesh_points mesh')
          = [(0, 0, 0), (1, 0, 0), (0, 1, 0), (1, 1, 0), (0, 0, 1), (1, 0, 1), (0, 1, 1), (1, 1, 1)]
      \<and> mapto' (1, 1) = Some 5 \<and> mapto' (2, 1) = Some 6 \<and> mapto' (3, 1) = Some 7
      \<and> mapto' (4, 1) = Some 8)"
  using MapSurfaceMesh_two_triangles by (simp add: mk_face_def)


section \<open>Properties of \<^verbatim>\<open>MeshSurface\<close>\<close>

lemma one_face_not_connecting:
  "\<not> IsConnectingCloseSurfaces address one_face_geometry (faces one_face_geometry ! 0)"
  by (simp add: IsConnectingCloseSurfaces_def face_vertices_def one_face_geometry_def
      empty_geometry_def mk_face_def mk_edge_def mk_vertex_def mark_mapped_def Let_def)

lemma one_face_facts:
  "length (faces one_face_geometry) = 1"
  "primary (faces one_face_geometry ! 0) = 0"
  by (simp_all add: one_face_geometry_def empty_geometry_def mk_face_def)

lemma one_face_mesh_face_k:
  "\<exists>s'. mesh_face_k failing_mesher mparam one_face_geometry 0 (s, 0) = Inr (s', 1)
        \<and> task (multithread s') = task (multithread s) \<and> cout s' = cout s"
  using one_face_not_connecting
  by (simp add: mesh_face_k_def Let_def MeshFace_def failing_mesher_def one_face_facts)

lemma MeshSurface_one_face:
  "\<exists>s. MeshSurface translation_ops failing_mesher default_mparam one_face_geometry initial_state = Inr s
         \<and> task (multithread s) = ''Mesh Surface''
         \<and> cout s = [''WARNING! NOT ALL FACES HAVE BEEN MESHED'',
                      ''SURFACE MESHING ERROR OCCURRED IN 1 FACES:'']"
proof -
  let ?s0 = "initial_state\<lparr>multithread := (multithread initial_state)\<lparr>task := ''Mesh Surface''\<rparr>\<rparr>"
  let ?s1 = "?s0\<lparr>st_mesh := (st_mesh ?s0)\<lparr>facedescriptors := []\<rparr>\<rparr>"
  obtain s' where mf: "mesh_face_k failing_mesher default_mparam one_face_geometry 0 (?s1, 0) = Inr (s', 1)"
    and t: "task (multithread s') = task (multithread ?s1)" and c: "cout s' = cout ?s1"
    using one_face_mesh_face_k [of default_mparam ?s1] by blast
  have "MeshSurface translation_ops failing_mesher default_mparam one_face_geometry initial_state
      = Inr (s'\<lparr>cout := cout s'
                      @ [''WARNING! NOT ALL FACES HAVE BEEN MESHED'',
                         ''SURFACE MESHING ERROR OCCURRED IN '' @ string_of_nat 1
                           @ '' FACES:'']\<rparr>)"
    using mf by (simp add: MeshSurface_def Let_def one_face_facts)
  then show ?thesis
    using t c by (simp add: initial_state_def string_of_nat.simps)
qed

lemma MeshFace_frame:
  "task (multithread (fst (MeshFace C mparam geo k s))) = task (multithread s)
   \<and> cout (fst (MeshFace C mparam geo k s)) = cout s"
  by (simp add: MeshFace_def Let_def split: prod.splits)

lemma mesh_face_k_frame:
  assumes "mesh_face_k C mparam geo k (s, n) = Inr (s', n')"
  shows "task (multithread s') = task (multithread s) \<and> cout s' = cout s"
proof -
  define s1 where "s1 = s\<lparr>st_mesh := (st_mesh s)
      \<lparr>facedescriptors := facedescriptors (st_mesh s) @
         [\<lparr>fd_surfnr = k + 1, fd_domin = face_domin (faces geo ! k) + 1,
           fd_domout = face_domout (faces geo ! k) + 1, fd_bcprop = k + 1,
           fd_colour = col (properties (faces geo ! k))\<rparr>],
       bcnames := bcnames (st_mesh s) @ [(k, GetName (properties (faces geo ! k)))]\<rparr>\<rparr>"
  have s1: "task (multithread s1) = task (multithread s)" "cout s1 = cout s"
    by (simp_all add: s1_def)
  have eq: "mesh_face_k C mparam geo k (s, n) =
     (if primary (faces geo ! k) = k then
           (if IsConnectingCloseSurfaces (vertex_address C) geo (faces geo ! k) then
              (case connect_close_surfaces C k (st_mesh s1) of
                 Inl a \<Rightarrow> Inl a
               | Inr mesh \<Rightarrow> Inr (s1\<lparr>st_mesh := mesh\<rparr>, n))
            else
              (case MeshFace C mparam geo k s1 of
                 (s, failed) \<Rightarrow> Inr (s, if failed then n + 1 else n)))
         else Inr (s1, n))"
    by (simp add: mesh_face_k_def Let_def s1_def split: sum.split prod.split)
  consider (a) "s' = s1" | (b) mesh where "s' = s1\<lparr>st_mesh := mesh\<rparr>"
    | (c) "s' = fst (MeshFace C mparam geo k s1)"
    using assms unfolding eq
    by (cases "primary (faces geo ! k) = k"; cases "IsConnectingCloseSurfaces (vertex_address C) geo (faces geo ! k)";
        cases "connect_close_surfaces C k (st_mesh s1)"; cases "MeshFace C mparam geo k s1")
       auto
  then show ?thesis
  proof cases
    case a
    then show ?thesis using s1 by simp
  next
    case b
    then show ?thesis using s1 by simp
  next
    case c
    then show ?thesis using s1 MeshFace_frame [of C mparam geo k s1] by simp
  qed
qed

lemma fold_mesh_face_k_frame:
  "fold_abort (mesh_face_k C mparam geo) ks (s, n) = Inr (s', n')
   \<Longrightarrow> task (multithread s') = task (multithread s) \<and> cout s' = cout s"
proof (induction ks arbitrary: s n)
  case Nil
  then show ?case by simp
next
  case (Cons k ks)
  then obtain s1 n1 where 1: "mesh_face_k C mparam geo k (s, n) = Inr (s1, n1)"
    and 2: "fold_abort (mesh_face_k C mparam geo) ks (s1, n1) = Inr (s', n')"
    by (auto split: sum.splits)
  show ?case
    using mesh_face_k_frame [OF 1] Cons.IH [OF 2] by simp
qed

text \<open>Where \<^verbatim>\<open>MeshSurface\<close> returns, it has either restored the task label or printed the
  two lines about failed faces and left the label at \<^verbatim>\<open>"Mesh Surface"\<close>.\<close>

lemma MeshSurface_task:
  assumes "MeshSurface T C mparam geo s = Inr s'"
  shows "task (multithread s') = task (multithread s)
         \<or> (task (multithread s') = ''Mesh Surface''
            \<and> (\<exists>n. cout s' = cout s @ [''WARNING! NOT ALL FACES HAVE BEEN MESHED'',
                         ''SURFACE MESHING ERROR OCCURRED IN '' @ string_of_nat n @ '' FACES:'']))"
proof -
  define s1 where "s1 = s\<lparr>multithread := (multithread s)\<lparr>task := ''Mesh Surface''\<rparr>,
                          st_mesh := (st_mesh s)\<lparr>facedescriptors := []\<rparr>\<rparr>"
  have eq: "MeshSurface T C mparam geo s =
     (case fold_abort (mesh_face_k C mparam geo) [0..<length (faces geo)] (s1, 0) of
           Inl a \<Rightarrow> Inl a
         | Inr (s2, n_failed_faces) \<Rightarrow>
             if n_failed_faces \<noteq> 0 then
               Inr (s2\<lparr>cout := cout s2
                      @ [''WARNING! NOT ALL FACES HAVE BEEN MESHED'',
                         ''SURFACE MESHING ERROR OCCURRED IN '' @ string_of_nat n_failed_faces
                           @ '' FACES:'']\<rparr>)
             else
               (let s3 = (if perfstepsend mparam \<ge> MESHCONST_OPTSURFACE
                         then OptimizeSurface C mparam s2 else s2)
                in case fold_abort (map_face T C geo) [0..<length (faces geo)]
                          (False, st_mesh s3, Map.empty) of
                     Inl a \<Rightarrow> Inl a
                   | Inr (have_identifications, mesh, mapto_faces) \<Rightarrow>
                       Inr (s3\<lparr>st_mesh := (if have_identifications
                                    then identify_surface_points C mapto_faces mesh else mesh),
                                  multithread := (multithread s3)\<lparr>task := task (multithread s)\<rparr>\<rparr>)))"
    by (simp add: MeshSurface_def Let_def s1_def split: sum.split prod.split)
  obtain s2 n where f: "fold_abort (mesh_face_k C mparam geo) [0..<length (faces geo)] (s1, 0) = Inr (s2, n)"
    using assms unfolding eq
    by (cases "fold_abort (mesh_face_k C mparam geo) [0..<length (faces geo)] (s1, 0)") auto
  have fr: "task (multithread s2) = ''Mesh Surface''" "cout s2 = cout s"
    using fold_mesh_face_k_frame [OF f] by (simp_all add: s1_def)
  show ?thesis
  proof (cases "n = 0")
    case True
    define s3 where "s3 = (if perfstepsend mparam \<ge> MESHCONST_OPTSURFACE
                         then OptimizeSurface C mparam s2 else s2)"
    obtain h mesh mt where "s' = s3\<lparr>st_mesh := (if h then identify_surface_points C mt mesh else mesh),
                                  multithread := (multithread s3)\<lparr>task := task (multithread s)\<rparr>\<rparr>"
      using assms True unfolding eq f s3_def [symmetric]
      by (cases "fold_abort (map_face T C geo) [0..<length (faces geo)] (False, st_mesh s3, Map.empty)")
         (auto simp add: Let_def s3_def [symmetric])
    then show ?thesis by simp
  next
    case False
    then have "s' = s2\<lparr>cout := cout s2
                      @ [''WARNING! NOT ALL FACES HAVE BEEN MESHED'',
                         ''SURFACE MESHING ERROR OCCURRED IN '' @ string_of_nat n
                           @ '' FACES:'']\<rparr>"
      using assms unfolding eq f by simp
    then show ?thesis using fr by auto
  qed
qed

text \<open>
  Claim C6. \<^verbatim>\<open>MeshSurface\<close> saves the task label in \<open>savetask\<close> and writes it back in its
  last line, but the \<^verbatim>\<open>return\<close> taken when \<open>n_failed_faces\<close> is not 0 comes before that
  line. On \<open>one_face_geometry\<close> with a 2D mesher that fails, called with the label
  \<open>idle\<close>, \<^verbatim>\<open>MeshSurface\<close> prints the two lines about the failed face and returns with the
  label \<^verbatim>\<open>"Mesh Surface"\<close>.
\<close>

theorem MeshSurface_early_return_keeps_label:
  "task (multithread initial_state) = ''idle''
   \<and> (\<exists>s. MeshSurface translation_ops failing_mesher default_mparam one_face_geometry initial_state = Inr s
         \<and> task (multithread s) = ''Mesh Surface''
         \<and> cout s = [''WARNING! NOT ALL FACES HAVE BEEN MESHED'',
                      ''SURFACE MESHING ERROR OCCURRED IN 1 FACES:''])"
  using MeshSurface_one_face by (simp add: initial_state_def)

section \<open>Properties of \<^verbatim>\<open>GenerateMesh\<close>\<close>

lemma fold_meshsize_points:
  "fold (\<lambda>(pnt, maxh) mparam. mparam\<lparr>meshsize_points := meshsize_points mparam @ [(pnt, maxh, 1)]\<rparr>)
        rs mp
   = mp\<lparr>meshsize_points := meshsize_points mp @ map (\<lambda>(pnt, maxh). (pnt, maxh, 1)) rs\<rparr>"
  by (induction rs arbitrary: mp) (simp_all split: prod.splits)

lemma local_mparam_eq:
  "local_mparam geo mp
     = mp\<lparr>meshsize_points := meshsize_points mp
            @ map (\<lambda>(pnt, maxh). (pnt, maxh, 1)) (restricted_h geo)\<rparr>"
  by (simp add: local_mparam_def fold_meshsize_points)

lemma GenerateMesh_printing:
  "GenerateMesh printing_stages restricted_geometry None default_mparam
      \<lparr>task = ''idle'', percent = 50, terminate = False\<rparr> []
     = Inr \<lparr>returned = 0, caller_mesh = Some empty_mesh, caller_mp = default_mparam,
            global_multithread = \<lparr>task = ''Volume optimization'', percent = 0, terminate = False\<rparr>,
            global_cout = [''Analyse 2'', ''FindEdges'', ''MeshSurface'', ''MeshVolume'',
                           ''OptimizeVolume'', ''FinalizeMesh'']\<rparr>"
  by (simp add: GenerateMesh_def Let_def local_mparam_eq run_stages_def with_mesh_def
      printing_stages_def restricted_geometry_def empty_geometry_def default_mparam_def
      MESHCONST_ANALYSE_def MESHCONST_MESHEDGES_def MESHCONST_MESHSURFACE_def
      MESHCONST_OPTSURFACE_def MESHCONST_MESHVOLUME_def MESHCONST_OPTVOLUME_def
      terminated_def volume_stages_def volume_meshing_def volume_optimization_def set_task_def
      string_of_nat.simps)

text \<open>
  Claim C10. Whatever the stages do and wherever \<^verbatim>\<open>GenerateMesh\<close> returns, the caller's
  \<open>mp\<close> is what it was: the function copies it into the local \<open>mparam\<close>, appends the points of
  \<open>restricted_h\<close> to the copy, and hands only the copy to the stages.
\<close>

theorem GenerateMesh_keeps_mp:
  assumes "GenerateMesh S geo mesh mp mt co = Inr r"
  shows "caller_mp r = mp
         \<and> run_stages S geo
              (mp\<lparr>meshsize_points := meshsize_points mp
                    @ map (\<lambda>(pnt, maxh). (pnt, maxh, 1)) (restricted_h geo)\<rparr>)
              (mesh, mt\<lparr>percent := 0\<rparr>, co)
            = Inr (returned r, caller_mesh r, global_multithread r, global_cout r)"
  using assms
  by (auto simp add: GenerateMesh_def Let_def local_mparam_eq split: sum.splits prod.splits)

theorem GenerateMesh_keeps_mp_witness:
  "\<exists>r. GenerateMesh printing_stages restricted_geometry None default_mparam
          \<lparr>task = ''idle'', percent = 50, terminate = False\<rparr> [] = Inr r
       \<and> caller_mp r = default_mparam \<and> meshsize_points (caller_mp r) = []
       \<and> hd (global_cout r) = ''Analyse 2''"
  using GenerateMesh_keeps_mp [OF GenerateMesh_printing] GenerateMesh_printing
  by (simp add: default_mparam_def)

section \<open>Properties of \<^verbatim>\<open>Analyse\<close>\<close>

lemma short_edge_fields [simp]:
  "GetLength (short_edge i y) = 1 / 10000"
  "GetPoint (short_edge i y) t = (t / 10000, y, 0)"
  "Normalize (GetTangent (short_edge i y) t) = (1, 0, 0)"
  by (simp_all add: short_edge_def mk_edge_def Normalize_def Length_def Length2_def vdot_def
      vscale_def real_sqrt_divide)

text \<open>The walk along an edge ends when the steps of \<^verbatim>\<open>CalcStep\<close> stay above a positive
  bound.\<close>

lemma curvature_walk_ends:
  assumes "0 < d" and "\<forall>t. d \<le> CalcStep edge t relerr"
  shows "\<exists>walk. curvature_walk edge eps relerr (t, p, calls) = Some walk"
proof (induction "nat \<lceil>(1 - eps - t) / d\<rceil>" arbitrary: t p calls rule: less_induct)
  case less
  show ?case
  proof (cases "t < 1 - eps")
    case False
    then show ?thesis by (subst curvature_walk.simps) simp
  next
    case True
    let ?t = "t + CalcStep edge t relerr"
    have "t + d \<le> ?t" using assms(2) by simp
    then have "1 - eps - ?t \<le> (1 - eps - t) - d" by simp
    then have "(1 - eps - ?t) / d \<le> ((1 - eps - t) - d) / d"
      using assms(1) by (simp add: divide_right_mono)
    also have "\<dots> = (1 - eps - t) / d - 1" using assms(1) by (simp add: diff_divide_distrib)
    finally have "\<lceil>(1 - eps - ?t) / d\<rceil> \<le> \<lceil>(1 - eps - t) / d\<rceil> - 1"
      by (metis ceiling_diff_one ceiling_mono)
    moreover have "0 < (1 - eps - t) / d" using True assms(1) by simp
    then have "0 < \<lceil>(1 - eps - t) / d\<rceil>" by simp
    ultimately have m: "nat \<lceil>(1 - eps - ?t) / d\<rceil> < nat \<lceil>(1 - eps - t) / d\<rceil>" by linarith
    show ?thesis
    proof (cases "?t < 1")
      case True
      from less [OF m, of "GetPoint edge ?t"
          "calls @ [RestrictLocalH (GetPoint edge ?t) (Length (vsub (GetPoint edge ?t) p)) 1]"]
      show ?thesis using \<open>t < 1 - eps\<close> True by (subst curvature_walk.simps) (simp add: Let_def)
    next
      case False
      from less [OF m, of p calls]
      show ?thesis using \<open>t < 1 - eps\<close> False by (subst curvature_walk.simps) (simp add: Let_def)
    qed
  qed
qed

text \<open>The requests of one edge, and of the loop over the edges: those of its edges, one
  after the other.\<close>

lemma analyse_edge_calls:
  assumes "1 / 10 ^ 3 * diam \<le> GetLength edge
           \<longrightarrow> (\<exists>d>0. \<forall>t. d \<le> CalcStep edge t (1 / curvaturesafety mparam))"
  shows "\<exists>cs. analyse_edge mparam diam edge = Some cs
          \<and> (if GetLength edge < 1 / 10 ^ 3 * diam then cs = []
              else (\<exists>walk. curvature_walk edge (1 / 10 ^ 10 * diam) (1 / curvaturesafety mparam)
                         (0, GetPoint edge 0, []) = Some walk
                    \<and> cs = map (\<lambda>i. RestrictLocalH (GetPoint edge (real i / 20))
                                        (GetLength edge / segmentsperedge mparam) 1) [0..<21]
                           @ walk))"
proof (cases "GetLength edge < 1 / 10 ^ 3 * diam")
  case True
  then show ?thesis by (simp add: analyse_edge_def Let_def)
next
  case False
  then obtain d where "0 < d" "\<forall>t. d \<le> CalcStep edge t (1 / curvaturesafety mparam)"
    using assms by auto
  from curvature_walk_ends [OF this]
  obtain walk where "curvature_walk edge (1 / 10 ^ 10 * diam) (1 / curvaturesafety mparam)
                         (0, GetPoint edge 0, []) = Some walk"
    by blast
  then show ?thesis
    using False by (simp add: analyse_edge_def Let_def edge_length_calls_def)
qed

lemma analyse_edges_calls:
  assumes "\<forall>i\<in>set is. 1 / 10 ^ 3 * bounding_box_Diam geo \<le> GetLength (edges geo ! i)
           \<longrightarrow> (\<exists>d>0. \<forall>t. d \<le> CalcStep (edges geo ! i) t (1 / curvaturesafety mparam))"
  shows "\<exists>s' css. analyse_edges mparam geo is s = Some s'
          \<and> localh_calls (st_mesh s') = localh_calls (st_mesh s) @ concat css
          \<and> list_all2 (\<lambda>i cs.
               if GetLength (edges geo ! i) < 1 / 10 ^ 3 * bounding_box_Diam geo then cs = []
               else (\<exists>walk. curvature_walk (edges geo ! i) (1 / 10 ^ 10 * bounding_box_Diam geo)
                               (1 / curvaturesafety mparam) (0, GetPoint (edges geo ! i) 0, [])
                             = Some walk
                     \<and> cs = map (\<lambda>k. RestrictLocalH (GetPoint (edges geo ! i) (real k / 20))
                                     (GetLength (edges geo ! i) / segmentsperedge mparam) 1) [0..<21]
                            @ walk))
             is css"
  using assms
proof (induction "is" arbitrary: s)
  case Nil
  then show ?case by simp
next
  case (Cons i "is")
  let ?P = "\<lambda>i cs.
               if GetLength (edges geo ! i) < 1 / 10 ^ 3 * bounding_box_Diam geo then cs = []
               else (\<exists>walk. curvature_walk (edges geo ! i) (1 / 10 ^ 10 * bounding_box_Diam geo)
                               (1 / curvaturesafety mparam) (0, GetPoint (edges geo ! i) 0, [])
                             = Some walk
                     \<and> cs = map (\<lambda>k. RestrictLocalH (GetPoint (edges geo ! i) (real k / 20))
                                     (GetLength (edges geo ! i) / segmentsperedge mparam) 1) [0..<21]
                            @ walk)"
  let ?s1 = "s\<lparr>multithread := (multithread s)\<lparr>percent := 100 * real i / real (length (edges geo))\<rparr>\<rparr>"
  have "1 / 10 ^ 3 * bounding_box_Diam geo \<le> GetLength (edges geo ! i)
           \<longrightarrow> (\<exists>d>0. \<forall>t. d \<le> CalcStep (edges geo ! i) t (1 / curvaturesafety mparam))"
    using Cons.prems by simp
  from analyse_edge_calls [OF this]
  obtain cs where cs: "analyse_edge mparam (bounding_box_Diam geo) (edges geo ! i) = Some cs"
    and P: "?P i cs"
    by blast
  have "\<forall>i\<in>set is. 1 / 10 ^ 3 * bounding_box_Diam geo \<le> GetLength (edges geo ! i)
           \<longrightarrow> (\<exists>d>0. \<forall>t. d \<le> CalcStep (edges geo ! i) t (1 / curvaturesafety mparam))"
    using Cons.prems by simp
  from Cons.IH [OF this, of "add_calls cs ?s1"]
  obtain s' css where r: "analyse_edges mparam geo is (add_calls cs ?s1) = Some s'"
    and c: "localh_calls (st_mesh s') = localh_calls (st_mesh (add_calls cs ?s1)) @ concat css"
    and l: "list_all2 ?P is css"
    by blast
  have 1: "analyse_edges mparam geo (i # is) s = Some s'"
    using cs r by (simp add: Let_def)
  have 2: "localh_calls (st_mesh s') = localh_calls (st_mesh s) @ concat (cs # css)"
    using c by (simp add: add_calls_def)
  have 3: "list_all2 ?P (i # is) (cs # css)"
    using P l by simp
  show ?case
    by (rule exI [of _ s'], rule exI [of _ "cs # css"]) (rule conjI [OF 1 conjI [OF 2 3]])
qed

lemma list_all2_upt_nth:
  "list_all2 (\<lambda>i. P (xs ! i)) [0..<length xs] ys \<Longrightarrow> list_all2 P xs ys"
  by (simp add: list_all2_conv_all_nth)

text \<open>
  Claim C8, as the code has it. With \<open>uselocalh\<close> set, \<open>segmentsperedge\<close> and
  \<open>curvaturesafety\<close> not 0, and the steps of \<^verbatim>\<open>CalcStep\<close> on every edge that is not short
  bounded below by a positive number, \<^verbatim>\<open>Analyse\<close> returns, and the loop over the edges has
  left in the tree of the local mesh size, edge by edge: nothing for an edge shorter than
  \<open>1e-3\<close> times the diameter of the bounding box, and for every other edge the 21 requests
  for the size \<open>length / segmentsperedge\<close> at the parameters \<open>0, 1/20, ..., 1\<close>, followed by
  the requests of the walk along its curvature. The rest of the pass works on that state;
  its pass over close edges, run when \<open>closeedgefac\<close> is set, has its own threshold of
  \<open>1e-10\<close> times the diameter and can restrict the size along a shorter edge.
\<close>

theorem Analyse_edge_restrictions:
  assumes "uselocalh mparam"
    and "segmentsperedge mparam \<noteq> 0" and "curvaturesafety mparam \<noteq> 0"
    and "\<forall>e\<in>set (edges geo). 1 / 10 ^ 3 * bounding_box_Diam geo \<le> GetLength e
           \<longrightarrow> (\<exists>d>0. \<forall>t. d \<le> CalcStep e t (1 / curvaturesafety mparam))"
  shows "\<exists>s_e css.
      analyse_edges mparam geo [0..<length (edges geo)]
          ((init_sizes mparam geo s)\<lparr>multithread := (multithread s)\<lparr>task := ''Analyse Edges''\<rparr>\<rparr>)
        = Some s_e
      \<and> Analyse meet mparam geo s
        = Some (add_calls (map (\<lambda>(pnt, h, lay). RestrictLocalH pnt h lay) (meshsize_points mparam)
                           @ [LoadLocalMeshSize (meshsizefilename mparam)])
                  (after_edges meet mparam geo (task (multithread s)) s_e))
      \<and> localh_calls (st_mesh s_e) = concat css
      \<and> list_all2 (\<lambda>e cs.
           if GetLength e < 1 / 10 ^ 3 * bounding_box_Diam geo then cs = []
           else (\<exists>walk. curvature_walk e (1 / 10 ^ 10 * bounding_box_Diam geo)
                           (1 / curvaturesafety mparam) (0, GetPoint e 0, []) = Some walk
                 \<and> cs = map (\<lambda>k. RestrictLocalH (GetPoint e (real k / 20))
                                 (GetLength e / segmentsperedge mparam) 1) [0..<21]
                        @ walk))
         (edges geo) css"
proof -
  let ?s0 = "(init_sizes mparam geo s)\<lparr>multithread := (multithread s)\<lparr>task := ''Analyse Edges''\<rparr>\<rparr>"
  let ?P = "\<lambda>e cs.
           if GetLength e < 1 / 10 ^ 3 * bounding_box_Diam geo then cs = []
           else (\<exists>walk. curvature_walk e (1 / 10 ^ 10 * bounding_box_Diam geo)
                           (1 / curvaturesafety mparam) (0, GetPoint e 0, []) = Some walk
                 \<and> cs = map (\<lambda>k. RestrictLocalH (GetPoint e (real k / 20))
                                 (GetLength e / segmentsperedge mparam) 1) [0..<21]
                        @ walk)"
  have "\<forall>i\<in>set [0..<length (edges geo)].
          1 / 10 ^ 3 * bounding_box_Diam geo \<le> GetLength (edges geo ! i)
           \<longrightarrow> (\<exists>d>0. \<forall>t. d \<le> CalcStep (edges geo ! i) t (1 / curvaturesafety mparam))"
    using assms(4) by simp
  from analyse_edges_calls [OF this, of ?s0]
  obtain s_e css where e: "analyse_edges mparam geo [0..<length (edges geo)] ?s0 = Some s_e"
    and c: "localh_calls (st_mesh s_e) = localh_calls (st_mesh ?s0) @ concat css"
    and l: "list_all2 (\<lambda>i. ?P (edges geo ! i)) [0..<length (edges geo)] css"
    by blast
  have c': "localh_calls (st_mesh s_e) = concat css"
    using c by (simp add: init_sizes_def)
  have l': "list_all2 ?P (edges geo) css"
    using l by (rule list_all2_upt_nth)
  have mt: "multithread (init_sizes mparam geo s) = multithread s"
    by (simp add: init_sizes_def)
  have a: "Analyse meet mparam geo s
        = Some (add_calls (map (\<lambda>(pnt, h, lay). RestrictLocalH pnt h lay) (meshsize_points mparam)
                           @ [LoadLocalMeshSize (meshsizefilename mparam)])
                  (after_edges meet mparam geo (task (multithread s)) s_e))"
    using assms(1) e by (simp add: Analyse_def Let_def mt)
  show ?thesis
    by (rule exI [of _ s_e], rule exI [of _ css])
       (rule conjI [OF e conjI [OF a conjI [OF c' l']]])
qed

lemma unit_edge_walk:
  "0 < eps \<Longrightarrow> curvature_walk unit_edge eps relerr (0, (0, 0, 0), []) = Some []"
  by (subst curvature_walk.simps, simp add: unit_edge_def mk_edge_def,
      subst curvature_walk.simps, simp)

lemma after_edges_no_faces:
  "faces geo = [] \<Longrightarrow> closeedgefac mparam = None
   \<Longrightarrow> st_mesh (after_edges meet mparam geo t s) = st_mesh s"
  by (simp add: after_edges_def analyse_faces_def)

lemma mixed_geometry_facts:
  "edges mixed_geometry = [unit_edge, short_edge 1 (1 / 2)]"
  "faces mixed_geometry = []"
  "bounding_box_Diam mixed_geometry = 1"
  by (simp_all add: mixed_geometry_def empty_geometry_def)

theorem Analyse_edge_restrictions_witness:
  "\<exists>s'. Analyse boxes_overlap default_mparam mixed_geometry initial_state = Some s'
     \<and> localh_calls (st_mesh s')
         = map (\<lambda>k. RestrictLocalH (real k / 20, 0, 0) 1 1) [0..<21] @ [LoadLocalMeshSize []]"
proof -
  have h1: "uselocalh default_mparam" "segmentsperedge default_mparam \<noteq> 0"
    "curvaturesafety default_mparam \<noteq> 0"
    by (simp_all add: default_mparam_def)
  have step: "\<exists>d>0. \<forall>t. d \<le> CalcStep unit_edge t (1 / curvaturesafety default_mparam)"
    by (rule exI [of _ 1]) (simp add: unit_edge_def mk_edge_def)
  have h2: "\<forall>e\<in>set (edges mixed_geometry).
          1 / 10 ^ 3 * bounding_box_Diam mixed_geometry \<le> GetLength e
           \<longrightarrow> (\<exists>d>0. \<forall>t. d \<le> CalcStep e t (1 / curvaturesafety default_mparam))"
    using step by (simp add: mixed_geometry_facts)
  from Analyse_edge_restrictions [OF h1 h2, of initial_state boxes_overlap]
  obtain s_e css where
    a: "Analyse boxes_overlap default_mparam mixed_geometry initial_state
        = Some (add_calls (map (\<lambda>(pnt, h, lay). RestrictLocalH pnt h lay) (meshsize_points default_mparam)
                           @ [LoadLocalMeshSize (meshsizefilename default_mparam)])
                  (after_edges boxes_overlap default_mparam mixed_geometry
                     (task (multithread initial_state)) s_e))"
    and c: "localh_calls (st_mesh s_e) = concat css"
    and l: "list_all2 (\<lambda>e cs.
           if GetLength e < 1 / 10 ^ 3 * bounding_box_Diam mixed_geometry then cs = []
           else (\<exists>walk. curvature_walk e (1 / 10 ^ 10 * bounding_box_Diam mixed_geometry)
                           (1 / curvaturesafety default_mparam) (0, GetPoint e 0, []) = Some walk
                 \<and> cs = map (\<lambda>k. RestrictLocalH (GetPoint e (real k / 20))
                                 (GetLength e / segmentsperedge default_mparam) 1) [0..<21]
                        @ walk))
         (edges mixed_geometry) css"
    by blast
  have len: "GetLength unit_edge = 1" by (simp add: unit_edge_def mk_edge_def)
  have css: "css = [map (\<lambda>k. RestrictLocalH (real k / 20, 0, 0) 1 1) [0..<21], []]"
    using l
    by (auto simp add: mixed_geometry_facts list_all2_Cons1 len unit_edge_walk default_mparam_def)
  have "localh_calls (st_mesh (after_edges boxes_overlap default_mparam mixed_geometry
                     (task (multithread initial_state)) s_e))
          = map (\<lambda>k. RestrictLocalH (real k / 20, 0, 0) 1 1) [0..<21]"
    by (simp add: after_edges_no_faces mixed_geometry_facts default_mparam_def c css)
  then show ?thesis
    unfolding a by (simp add: add_calls_def default_mparam_def)
qed

text \<open>The sections of the two short edges of \<open>close_edges_geometry\<close> and their distance.\<close>

lemma cut_section_straight:
  assumes "i \<noteq> 100"
  shows "cut_section (short_edge k y) i (p, (1, 0, 0), ls) = (p, (1, 0, 0), ls)"
proof -
  have "\<not> 1 < cos (10 / 180 * pi)"
    by (simp add: not_less)
  then show ?thesis
    using assms by (simp add: cut_section_def Let_def vdot_def)
qed

lemma fold_cut_section_straight:
  "100 \<notin> set is \<Longrightarrow> fold (cut_section (short_edge k y)) is (p, (1, 0, 0), ls) = (p, (1, 0, 0), ls)"
  by (induction "is") (simp_all add: cut_section_straight)

lemma edge_sections_short:
  assumes "eps \<le> 1 / 10000"
  shows "edge_sections eps (short_edge k y) ls = ls @ [((0, y, 0), (1 / 10000, y, 0))]"
proof -
  have "[1..<Suc 100] = [1..<100] @ [100::nat]"
    by (rule upt_Suc_append) simp
  moreover have "(100::nat) + 1 = Suc 100" by simp
  ultimately have upt: "[1..<100 + 1] = [1..<100] @ [100::nat]" by (simp only:)
  have "fold (cut_section (short_edge k y)) [1..<100 + 1] ((0, y, 0), (1, 0, 0), ls)
      = cut_section (short_edge k y) 100 ((0, y, 0), (1, 0, 0), ls)"
    unfolding upt by (simp add: fold_cut_section_straight)
  then show ?thesis
    using assms by (simp add: edge_sections_def cut_section_def Let_def)
qed

lemma close_lines:
  "eps \<le> 1 / 10000 \<Longrightarrow> fold (edge_sections eps) (edges close_edges_geometry) [] = close_lines_list"
  by (simp add: close_edges_geometry_def empty_geometry_def edge_sections_short close_lines_list_def)

lemma sqrt_small:
  assumes "0 \<le> x" and "x < 1 / 1000000"
  shows "sqrt x < 1 / 1000"
proof -
  have "sqrt (1 / 1000000) = 1 / 1000"
    by (rule real_sqrt_unique) (simp_all add: power2_eq_square)
  moreover have "sqrt x < sqrt (1 / 1000000)"
    using assms by (simp only: real_sqrt_less_iff)
  ultimately show ?thesis by (simp only:)
qed

lemma Line_Length_short:
  "Line_Length ((0, y, 0), (1 / 10000, y, 0)) = 1 / 10000"
  by (simp add: Line_Length_def Length_def Length2_def vdot_def vsub_def real_sqrt_divide)

lemma Line_Dist_short:
  "Line_Dist ((0, y, 0), (1 / 10000, y, 0)) ((0, y', 0), (1 / 10000, y', 0))
     = sqrt (1 / 4080400000000 + (y - y') * (y - y'))"
  by (simp add: Line_Dist_def Let_def vsub_def vdot_def vadd_def vscale_def Length_def
      Length2_def algebra_simps)

lemma Line_Dist_close:
  assumes "d = 1 / 20000 \<or> d = - (1 / 20000)"
  shows "Line_Dist ((0, y, 0), (1 / 10000, y, 0)) ((0, y - d, 0), (1 / 10000, y - d, 0)) < 1 / 1000"
    and "0 \<le> Line_Dist ((0, y, 0), (1 / 10000, y, 0)) ((0, y - d, 0), (1 / 10000, y - d, 0))"
proof -
  from assms have "d * d = 1 / 20000 * (1 / 20000)"
  proof
    assume "d = 1 / 20000"
    then show ?thesis by (simp only:)
  next
    assume "d = - (1 / 20000)"
    then show ?thesis by (simp only: minus_mult_minus)
  qed
  then have dd: "d * d = 1 / 400000000" by simp
  show "Line_Dist ((0, y, 0), (1 / 10000, y, 0)) ((0, y - d, 0), (1 / 10000, y - d, 0)) < 1 / 1000"
    unfolding Line_Dist_short by (rule sqrt_small) (simp_all add: dd)
  show "0 \<le> Line_Dist ((0, y, 0), (1 / 10000, y, 0)) ((0, y - d, 0), (1 / 10000, y - d, 0))"
    unfolding Line_Dist_short by (simp add: dd)
qed

lemma close_boxes:
  "boxes_overlap (close_lines_list ! 1)
     (line_box (close_lines_list ! 0) (Line_Length (close_lines_list ! 0)))"
  "boxes_overlap_inside (close_lines_list ! 1)
     (line_box (close_lines_list ! 0) (Line_Length (close_lines_list ! 0)))"
  by (simp_all add: close_lines_list_def Line_Length_short line_box_def boxes_overlap_def
      boxes_overlap_inside_def)

lemma close_edge_call_0:
  assumes "meet (close_lines_list ! 1)
             (line_box (close_lines_list ! 0) (Line_Length (close_lines_list ! 0)))"
  shows "close_edge_call meet 2 1 close_lines_list 0
     = [RestrictLocalHLine (0, 0, 0) (1 / 10000, 0, 0) (1 / 1000)]"
proof -
  let ?D = "Line_Dist ((0, 0, 0), (1 / 10000, 0, 0)) ((0, 1 / 20000, 0), (1 / 10000, 1 / 20000, 0))"
  have D: "?D < 1 / 1000" "0 \<le> ?D"
    using Line_Dist_close [of "- (1 / 20000)" 0] by simp_all
  have big: "(1 / 1000 :: real) < 10 ^ 99" by simp
  have m: "min (10 ^ 99) ?D = ?D" using D big by (simp add: min_def)
  have ne: "?D \<noteq> 10 ^ 99" using D big by linarith
  have clip: "?D / (2 + 1 / 10 ^ 10) < 1 / 10 ^ 3 * 1"
  proof -
    have "?D / (2 + 1 / 10 ^ 10) \<le> ?D" using D by (simp add: field_simps)
    then show ?thesis using D by simp
  qed
  have l: "length close_lines_list = 2"
    "close_lines_list ! 0 = ((0, 0, 0), (1 / 10000, 0, 0))"
    "close_lines_list ! Suc 0 = ((0, 1 / 20000, 0), (1 / 10000, 1 / 20000, 0))"
    by (simp_all add: close_lines_list_def)
  have u: "[0..<2] = [0, Suc 0]" by (simp add: upt_rec)
  have meet1: "meet ((0, 1 / 20000, 0), (1 / 10000, 1 / 20000, 0))
                 (line_box ((0, 0, 0), (1 / 10000, 0, 0)) (1 / 10000))"
    using assms by (simp add: l Line_Length_short)
  show ?thesis
    using m ne clip meet1
    by (simp add: close_edge_call_def Let_def l u Line_Length_short vsub_def Length2_def vdot_def)
qed

lemma close_lines_list_facts:
  "length close_lines_list = 2"
  "close_lines_list \<noteq> []"
  "Line_Length (close_lines_list ! 0) = 1 / 10000"
  "Line_Length (close_lines_list ! Suc 0) = 1 / 10000"
  by (simp_all add: close_lines_list_def Line_Length_short)

lemma close_geometry_facts:
  "length (edges close_edges_geometry) = 2"
  "edges close_edges_geometry ! 0 = short_edge 0 0"
  "edges close_edges_geometry ! Suc 0 = short_edge 1 (1 / 20000)"
  "faces close_edges_geometry = []"
  "bounding_box_Diam close_edges_geometry = 1"
  by (simp_all add: close_edges_geometry_def empty_geometry_def)

lemma Analyse_close_edges:
  assumes "meet (close_lines_list ! 1)
             (line_box (close_lines_list ! 0) (Line_Length (close_lines_list ! 0)))"
  shows "\<exists>s'. Analyse meet close_mparam close_edges_geometry initial_state = Some s'
     \<and> localh_calls (st_mesh s')
         = [RestrictLocalHLine (0, 0, 0) (1 / 10000, 0, 0) (1 / 1000)]
           @ close_edge_call meet 2 1 close_lines_list 1
           @ [LoadLocalMeshSize []]"
  by (simp add: Analyse_def Let_def close_mparam_def default_mparam_def close_geometry_facts
      upt_rec analyse_edge_def analyse_faces_def analyse_close_edges_def close_lines
      close_lines_list_facts close_edge_call_0 [of meet, OF assms] add_calls_def initial_state_def
      empty_mesh_def after_edges_def init_sizes_def)

lemma Analyse_close_edges_restricted:
  assumes "meet (close_lines_list ! 1)
             (line_box (close_lines_list ! 0) (Line_Length (close_lines_list ! 0)))"
  shows "\<exists>s'. Analyse meet close_mparam close_edges_geometry initial_state = Some s'
         \<and> RestrictLocalHLine (0, 0, 0) (1 / 10000, 0, 0) (1 / 1000) \<in> set (localh_calls (st_mesh s'))"
proof -
  obtain s' where "Analyse meet close_mparam close_edges_geometry initial_state = Some s'"
    and "localh_calls (st_mesh s')
         = [RestrictLocalHLine (0, 0, 0) (1 / 10000, 0, 0) (1 / 1000)]
           @ close_edge_call meet 2 1 close_lines_list 1
           @ [LoadLocalMeshSize []]"
    using Analyse_close_edges [of meet, OF assms] by blast
  then show ?thesis by auto
qed

text \<open>
  The claim as stated fails on \<open>close_edges_geometry\<close> with \<open>closeedgefac = 2\<close>: both edges
  have length \<open>1e-4\<close>, below the threshold \<open>1e-3\<close>, and lie at distance \<open>5e-5\<close> from each
  other; the pass over close edges finds the distance \<open>d < 1e-3\<close> between their sections
  and restricts the size along the first edge to the lower bound \<open>1e-3\<close>. The section of
  the second edge lies inside the enlarged box of the first: the result is the same
  whether the box tree tests the closed boxes or their interiors.
\<close>

theorem Analyse_short_edge_restricted:
  "GetLength (edges close_edges_geometry ! 0) < 1 / 10 ^ 3 * bounding_box_Diam close_edges_geometry
   \<and> uselocalh close_mparam \<and> segmentsperedge close_mparam = 1 \<and> curvaturesafety close_mparam = 2
   \<and> (\<exists>s'. Analyse boxes_overlap close_mparam close_edges_geometry initial_state = Some s'
         \<and> RestrictLocalHLine (0, 0, 0) (1 / 10000, 0, 0) (1 / 1000) \<in> set (localh_calls (st_mesh s')))
   \<and> (\<exists>s'. Analyse boxes_overlap_inside close_mparam close_edges_geometry initial_state = Some s'
         \<and> RestrictLocalHLine (0, 0, 0) (1 / 10000, 0, 0) (1 / 1000) \<in> set (localh_calls (st_mesh s')))"
  using Analyse_close_edges_restricted [of boxes_overlap, OF close_boxes(1)]
    Analyse_close_edges_restricted [of boxes_overlap_inside, OF close_boxes(2)]
  by (simp add: close_geometry_facts close_mparam_def default_mparam_def)


end
